theory Spec2Isabelle
  imports Complex_Main "HOL-Library.Word"
begin

section \<open>Conventions of the embedding\<close>

text \<open>
  The two modules \<^verbatim>\<open>poincare.py\<close> and \<^verbatim>\<open>symplectic_evolution_operators.py\<close> are
  embedded function by function. Python floats and numpy scalars are modelled by the
  type \<^typ>\<open>real\<close>: every identity below is an identity of exact arithmetic, and says
  nothing about rounding. Two places keep more of the machine, because the claims about
  them turn on it: the integer powers of \<^verbatim>\<open>get_re_im_components\<close> are powers of 64-bit
  words, and the section on floating-point values embeds the constructor of
  \<^verbatim>\<open>PoincareParticle\<close> and its property \<^verbatim>\<open>e\<close> with NaN, the infinities and the
  \<^verbatim>\<open>ZeroDivisionError\<close> of Python. Exceptions are values of the type \<open>py_error\<close>; a
  function that can raise returns \<open>py_error + 'a\<close>, with \<open>Inl\<close> for the exception.
\<close>

datatype py_error =
    AttributeError
  | NameError
  | ZeroDivisionError
  | ValueError
  | IndexError
  | KeyError
  | TypeError
  | LinAlgError

section \<open>\<^verbatim>\<open>get_re_im_components\<close>\<close>

text \<open>
  \<^verbatim>\<open>np.sign\<close> on an integer. Its result is a numpy scalar of the type \<^verbatim>\<open>int64\<close>.
\<close>

definition np_sign :: "int \<Rightarrow> int" where
  "np_sign k = (if k < 0 then - 1 else if k = 0 then 0 else 1)"

text \<open>
  The second argument \<open>y\<close> meets that scalar in the product \<^verbatim>\<open>sgnk * y\<close>, so the type of
  \<open>y\<close> decides the arithmetic of \<^verbatim>\<open>(sgnk * y)**l\<close>:

    \<^item> a Python \<^verbatim>\<open>int\<close> is converted to \<^verbatim>\<open>int64\<close>, and the product and its power are computed
      in 64 bits, two's complement, wrapping around without an exception. \<open>Int64\<close> holds
      the integer as the 64-bit word that numpy makes of it; a Python \<^verbatim>\<open>int\<close> beyond the
      range of \<^verbatim>\<open>int64\<close> is not converted like this and is outside the model;

    \<^item> a \<^verbatim>\<open>float\<close> gives a \<^verbatim>\<open>float64\<close> and a sympy expression gives a sympy expression.
      \<open>Floating\<close> holds such a number by its real value, under the convention of exact
      arithmetic.

  The first argument enters only through Python's or sympy's own power \<^verbatim>\<open>x**(absk-l)\<close>,
  which is exact on integers, and the binomial coefficient is sympy's; both are given by
  their values, and so are the two numbers returned.
\<close>

datatype np_operand = Int64 "64 word" | Floating real

fun sign_times_power :: "int \<Rightarrow> np_operand \<Rightarrow> nat \<Rightarrow> real" where
  "sign_times_power sgnk (Int64 y) l = real_of_int (sint ((word_of_int sgnk * y) ^ l))"
| "sign_times_power sgnk (Floating y) l = (real_of_int sgnk * y) ^ l"

text \<open>
  One round of the loop \<^verbatim>\<open>for l in range(0,absk+1)\<close>: the binomial weight is
  added to \<open>re\<close> for even \<open>l\<close> and to \<open>im\<close> for odd \<open>l\<close>.
\<close>

fun re_im_step :: "nat \<Rightarrow> int \<Rightarrow> real \<Rightarrow> np_operand \<Rightarrow> real \<times> real \<Rightarrow> nat \<Rightarrow> real \<times> real" where
  "re_im_step absk sgnk x y (re, im) l =
     (let b = real (absk choose l) in
      if l mod 2 = 0
      then (re + b * sign_times_power sgnk y l * x ^ (absk - l) * (- 1) ^ (l div 2), im)
      else (re, im + b * sign_times_power sgnk y l * x ^ (absk - l) * (- 1) ^ ((l - 1) div 2)))"

definition get_re_im_components :: "real \<Rightarrow> np_operand \<Rightarrow> int \<Rightarrow> real \<times> real" where
  "get_re_im_components x y k =
     (if k = 0 then (1, 0)
      else let absk = nat \<bar>k\<bar>; sgnk = np_sign k
           in foldl (re_im_step absk sgnk x y) (0, 0) [0..<absk + 1])"

section \<open>\<^verbatim>\<open>PoincareParticle\<close>\<close>

definition bind_err :: "'e + 'a \<Rightarrow> ('a \<Rightarrow> 'e + 'b) \<Rightarrow> 'e + 'b" where
  "bind_err r f = (case r of Inl err \<Rightarrow> Inl err | Inr v \<Rightarrow> f v)"

text \<open>
  The attributes the object stores: the two canonical masses, the gravitational constant,
  the coordinate convention, and the specific actions with the mean longitude.
\<close>

record PoincareParticle =
  pp_coordinates :: string
  pp_G :: real
  pp_mu :: real
  pp_M :: real
  pp_sLambda :: real
  pp_l :: real
  pp_skappa :: real
  pp_seta :: real
  pp_ssigma :: real
  pp_srho :: real

text \<open>
  The keyword arguments of \<^verbatim>\<open>PoincareParticle.__init__\<close>; \<open>None\<close> is Python's
  \<^verbatim>\<open>None\<close>, the default of every argument but \<^verbatim>\<open>coordinates\<close> and \<^verbatim>\<open>G\<close>.
\<close>

record pp_kwargs =
  kw_coordinates :: string
  kw_G :: real
  kw_m :: "real option"
  kw_Mstar :: "real option"
  kw_mu :: "real option"
  kw_M :: "real option"
  kw_sLambda :: "real option"
  kw_l :: "real option"
  kw_sGamma :: "real option"
  kw_gamma :: "real option"
  kw_sQ :: "real option"
  kw_q :: "real option"
  kw_Lambda :: "real option"
  kw_Gamma :: "real option"
  kw_Q :: "real option"
  kw_a :: "real option"
  kw_e :: "real option"
  kw_inc :: "real option"
  kw_pomega :: "real option"
  kw_Omega :: "real option"
  kw_skappa :: "real option"
  kw_seta :: "real option"
  kw_ssigma :: "real option"
  kw_srho :: "real option"
  kw_kappa :: "real option"
  kw_eta :: "real option"
  kw_sigma :: "real option"
  kw_rho :: "real option"

definition default_kwargs :: pp_kwargs where
  "default_kwargs =
     \<lparr>kw_coordinates = ''canonical heliocentric'', kw_G = 1,
      kw_m = None, kw_Mstar = None, kw_mu = None, kw_M = None,
      kw_sLambda = None, kw_l = None, kw_sGamma = None, kw_gamma = None,
      kw_sQ = None, kw_q = None, kw_Lambda = None, kw_Gamma = None, kw_Q = None,
      kw_a = None, kw_e = None, kw_inc = None, kw_pomega = None, kw_Omega = None,
      kw_skappa = None, kw_seta = None, kw_ssigma = None, kw_srho = None,
      kw_kappa = None, kw_eta = None, kw_sigma = None, kw_rho = None\<rparr>"

fun num_passed :: "'a option list \<Rightarrow> nat" where
  "num_passed [] = 0"
| "num_passed (i # iterable) = (if i \<noteq> None then 1 else 0) + num_passed iterable"

text \<open>
  The first block of \<^verbatim>\<open>__init__\<close>: the canonical masses \<open>(mu, M)\<close>, from the
  physical masses or as passed. Every failure of this block is an \<^verbatim>\<open>AttributeError\<close>.
\<close>

definition init_masses :: "pp_kwargs \<Rightarrow> py_error + real \<times> real" where
  "init_masses kw =
     (case (kw_m kw, kw_Mstar kw) of
        (Some m, Some Mstar) \<Rightarrow>
          if kw_mu kw \<noteq> None \<or> kw_M kw \<noteq> None then Inl AttributeError
          else if kw_coordinates kw = ''democratic heliocentric'' then Inr (m, Mstar)
          else if kw_coordinates kw = ''canonical heliocentric''
               then Inr (m * Mstar / (Mstar + m), Mstar + m)
          else Inl AttributeError
      | _ \<Rightarrow>
          if kw_m kw \<noteq> None \<or> kw_Mstar kw \<noteq> None then Inl AttributeError
          else (case (kw_mu kw, kw_M kw) of
                  (Some mu, Some M) \<Rightarrow> Inr (mu, M)
                | _ \<Rightarrow> Inl AttributeError))"

text \<open>
  Division of an action by the canonical mass \<^verbatim>\<open>self.mu\<close>. The source treats a
  massless body as the failing case of this division (it wraps it in \<^verbatim>\<open>try\<close> in the
  last block and marks the unguarded one in \<^verbatim>\<open>PoincareParticles.__getitem__\<close> with
  "THIS WILL FAIL FOR TEST PARTICLES"), so it is the one division modelled with its
  exception. All other divisions are divisions of reals.
\<close>

definition div_by_mu :: "real \<Rightarrow> real \<Rightarrow> py_error + real" where
  "div_by_mu v mu = (if mu = 0 then Inl ZeroDivisionError else Inr (v / mu))"

text \<open>The same division inside \<^verbatim>\<open>try: ... except: raise AttributeError(...)\<close>.\<close>

definition try_div_by_mu :: "real \<Rightarrow> real \<Rightarrow> py_error + real" where
  "try_div_by_mu v mu = (case div_by_mu v mu of Inl _ \<Rightarrow> Inl AttributeError | Inr r \<Rightarrow> Inr r)"

text \<open>
  The last block of \<^verbatim>\<open>__init__\<close>, reached when neither the six stored variables nor
  the six massive variables were passed: at most one parameterisation per orbital element,
  exactly one for the semimajor axis.
\<close>

definition init_sLambda :: "pp_kwargs \<Rightarrow> real \<Rightarrow> real \<Rightarrow> py_error + real" where
  "init_sLambda kw mu M =
     (case kw_sLambda kw of
        Some sLambda \<Rightarrow> Inr sLambda
      | None \<Rightarrow>
         (case kw_Lambda kw of
            Some Lambda \<Rightarrow> try_div_by_mu Lambda mu
          | None \<Rightarrow>
             (case kw_a kw of
                Some a \<Rightarrow> Inr (sqrt (kw_G kw * M * a))
              | None \<Rightarrow> Inl AttributeError)))"

definition init_sGamma :: "pp_kwargs \<Rightarrow> real \<Rightarrow> real \<Rightarrow> py_error + real" where
  "init_sGamma kw mu sLambda =
     (case kw_Gamma kw of
        Some Gamma \<Rightarrow> try_div_by_mu Gamma mu
      | None \<Rightarrow>
         (case kw_e kw of
            Some e \<Rightarrow> Inr (sLambda * (1 - sqrt (1 - e\<^sup>2)))
          | None \<Rightarrow> Inr (case kw_sGamma kw of Some sGamma \<Rightarrow> sGamma | None \<Rightarrow> 0)))"

definition init_sQ :: "pp_kwargs \<Rightarrow> real \<Rightarrow> real \<Rightarrow> real \<Rightarrow> py_error + real" where
  "init_sQ kw mu sLambda sGamma =
     (case kw_Q kw of
        Some Q \<Rightarrow> try_div_by_mu Q mu
      | None \<Rightarrow>
         (case kw_inc kw of
            Some inc \<Rightarrow> Inr ((sLambda - sGamma) * (1 - cos inc))
          | None \<Rightarrow> Inr (case kw_sQ kw of Some sQ \<Rightarrow> sQ | None \<Rightarrow> 0)))"

definition init_from_elements :: "pp_kwargs \<Rightarrow> real \<Rightarrow> real \<Rightarrow> py_error + PoincareParticle" where
  "init_from_elements kw mu M =
     (let num = num_passed [kw_sLambda kw, kw_Lambda kw, kw_a kw] in
      if num = 0 then Inl AttributeError
      else if num > 1 then Inl AttributeError
      else if num_passed [kw_sGamma kw, kw_Gamma kw, kw_e kw] > 1 then Inl AttributeError
      else if num_passed [kw_sQ kw, kw_Q kw, kw_inc kw] > 1 then Inl AttributeError
      else if num_passed [kw_gamma kw, kw_pomega kw] > 1 then Inl AttributeError
      else if num_passed [kw_q kw, kw_Omega kw] > 1 then Inl AttributeError
      else
        let l = (case kw_l kw of Some v \<Rightarrow> v | None \<Rightarrow> 0);
            gamma = (case kw_pomega kw of Some pomega \<Rightarrow> - pomega
                     | None \<Rightarrow> (case kw_gamma kw of Some v \<Rightarrow> v | None \<Rightarrow> 0));
            q = (case kw_Omega kw of Some Omega \<Rightarrow> - Omega
                 | None \<Rightarrow> (case kw_q kw of Some v \<Rightarrow> v | None \<Rightarrow> 0))
        in bind_err (init_sLambda kw mu M) (\<lambda>sLambda.
           bind_err (init_sGamma kw mu sLambda) (\<lambda>sGamma.
           bind_err (init_sQ kw mu sLambda sGamma) (\<lambda>sQ.
             Inr \<lparr>pp_coordinates = kw_coordinates kw, pp_G = kw_G kw, pp_mu = mu, pp_M = M,
                  pp_sLambda = sLambda, pp_l = l,
                  pp_skappa = sqrt (2 * sGamma) * cos gamma,
                  pp_seta = sqrt (2 * sGamma) * sin gamma,
                  pp_ssigma = sqrt (2 * sQ) * cos q,
                  pp_srho = sqrt (2 * sQ) * sin q\<rparr>))))"

definition PoincareParticle_init :: "pp_kwargs \<Rightarrow> py_error + PoincareParticle" where
  "PoincareParticle_init kw =
     bind_err (init_masses kw) (\<lambda>(mu, M).
       case (kw_sLambda kw, kw_l kw, kw_skappa kw, kw_seta kw, kw_ssigma kw, kw_srho kw) of
         (Some sLambda, Some l, Some skappa, Some seta, Some ssigma, Some srho) \<Rightarrow>
           Inr \<lparr>pp_coordinates = kw_coordinates kw, pp_G = kw_G kw, pp_mu = mu, pp_M = M,
                pp_sLambda = sLambda, pp_l = l, pp_skappa = skappa, pp_seta = seta,
                pp_ssigma = ssigma, pp_srho = srho\<rparr>
       | _ \<Rightarrow>
         (case (kw_Lambda kw, kw_l kw, kw_kappa kw, kw_eta kw, kw_sigma kw, kw_rho kw) of
            (Some Lambda, Some l, Some kappa, Some eta, Some sigma, Some rho) \<Rightarrow>
              bind_err (div_by_mu Lambda mu) (\<lambda>sLambda.
                Inr \<lparr>pp_coordinates = kw_coordinates kw, pp_G = kw_G kw, pp_mu = mu, pp_M = M,
                     pp_sLambda = sLambda, pp_l = l,
                     pp_skappa = kappa / sqrt mu, pp_seta = eta / sqrt mu,
                     pp_ssigma = sigma / sqrt mu, pp_srho = rho / sqrt mu\<rparr>)
          | _ \<Rightarrow> init_from_elements kw mu M))"

subsection \<open>Derived attributes\<close>

definition mu_M_to_m_Mstar :: "real \<Rightarrow> real \<Rightarrow> real \<times> real" where
  "mu_M_to_m_Mstar mu M =
     (let d = sqrt (M\<^sup>2 - 4 * mu * M); Mstar = (M + d) / 2; m = mu * M / Mstar
      in (m, Mstar))"

text \<open>
  The properties \<^verbatim>\<open>m\<close> and \<^verbatim>\<open>Mstar\<close> fall off the end of their \<^verbatim>\<open>if\<close>/\<^verbatim>\<open>elif\<close>
  for any other coordinate string and then return \<^verbatim>\<open>None\<close>.
\<close>

definition pp_m :: "PoincareParticle \<Rightarrow> real option" where
  "pp_m p =
     (if pp_coordinates p = ''democratic heliocentric'' then Some (pp_mu p)
      else if pp_coordinates p = ''canonical heliocentric''
           then Some (fst (mu_M_to_m_Mstar (pp_mu p) (pp_M p)))
      else None)"

definition pp_Mstar :: "PoincareParticle \<Rightarrow> real option" where
  "pp_Mstar p =
     (if pp_coordinates p = ''democratic heliocentric'' then Some (pp_M p)
      else if pp_coordinates p = ''canonical heliocentric''
           then Some (snd (mu_M_to_m_Mstar (pp_mu p) (pp_M p)))
      else None)"

definition pp_kappa :: "PoincareParticle \<Rightarrow> real" where
  "pp_kappa p = sqrt (pp_mu p) * pp_skappa p"

definition pp_eta :: "PoincareParticle \<Rightarrow> real" where
  "pp_eta p = sqrt (pp_mu p) * pp_seta p"

definition pp_sigma :: "PoincareParticle \<Rightarrow> real" where
  "pp_sigma p = sqrt (pp_mu p) * pp_ssigma p"

definition pp_rho :: "PoincareParticle \<Rightarrow> real" where
  "pp_rho p = sqrt (pp_mu p) * pp_srho p"

definition pp_Lambda :: "PoincareParticle \<Rightarrow> real" where
  "pp_Lambda p = pp_mu p * pp_sLambda p"

definition pp_Gamma :: "PoincareParticle \<Rightarrow> real" where
  "pp_Gamma p = pp_mu p * ((pp_skappa p)\<^sup>2 + (pp_seta p)\<^sup>2) / 2"

definition pp_Q :: "PoincareParticle \<Rightarrow> real" where
  "pp_Q p = pp_mu p * ((pp_ssigma p)\<^sup>2 + (pp_srho p)\<^sup>2) / 2"

definition pp_sGamma :: "PoincareParticle \<Rightarrow> real" where
  "pp_sGamma p = ((pp_skappa p)\<^sup>2 + (pp_seta p)\<^sup>2) / 2"

definition pp_sQ :: "PoincareParticle \<Rightarrow> real" where
  "pp_sQ p = ((pp_ssigma p)\<^sup>2 + (pp_srho p)\<^sup>2) / 2"

definition pp_a :: "PoincareParticle \<Rightarrow> real" where
  "pp_a p = (pp_sLambda p)\<^sup>2 / pp_G p / pp_M p"

subsection \<open>Setters\<close>

definition pp_set_kappa :: "real \<Rightarrow> PoincareParticle \<Rightarrow> PoincareParticle" where
  "pp_set_kappa v p = p\<lparr>pp_skappa := v / sqrt (pp_mu p)\<rparr>"

definition pp_set_eta :: "real \<Rightarrow> PoincareParticle \<Rightarrow> PoincareParticle" where
  "pp_set_eta v p = p\<lparr>pp_seta := v / sqrt (pp_mu p)\<rparr>"

definition pp_set_sigma :: "real \<Rightarrow> PoincareParticle \<Rightarrow> PoincareParticle" where
  "pp_set_sigma v p = p\<lparr>pp_ssigma := v / sqrt (pp_mu p)\<rparr>"

definition pp_set_rho :: "real \<Rightarrow> PoincareParticle \<Rightarrow> PoincareParticle" where
  "pp_set_rho v p = p\<lparr>pp_srho := v / sqrt (pp_mu p)\<rparr>"

definition pp_set_Lambda :: "real \<Rightarrow> PoincareParticle \<Rightarrow> PoincareParticle" where
  "pp_set_Lambda v p = p\<lparr>pp_sLambda := v / pp_mu p\<rparr>"


section \<open>\<^verbatim>\<open>PoincareParticle\<close> on floating-point values\<close>

text \<open>
  The section above takes every attribute for a real number. That leaves out what decides
  the behaviour of the constructor and of the property \<^verbatim>\<open>e\<close> on an eccentricity that is
  not one of an ellipse: a division by zero, which raises for Python numbers and does not
  for numpy scalars, and the value NaN, which \<^verbatim>\<open>np.sqrt\<close> returns for a negative argument
  and which compares \<open>False\<close> with everything. Here the constructor and the property are
  embedded once more, over values that keep both. Where no such value arises the two
  embeddings agree (lemma \<open>float_init_orbit_exact\<close> below).

  The arithmetic is that of IEEE 754 without rounding and without overflow, and with a
  single zero: the sign of a zero is not modelled, and it would show only in the sign of
  the infinity that a division by a zero returns. The warnings of numpy are no exceptions
  and are left out.
\<close>

text \<open>
  A numpy scalar of the type \<^verbatim>\<open>float64\<close>: a finite real, an infinity or NaN.
\<close>

datatype np_float = Finite real | PosInf | NegInf | NaN

text \<open>
  A value: a Python \<^verbatim>\<open>float\<close> or \<^verbatim>\<open>int\<close>, which is finite, or a numpy scalar.
\<close>

datatype py_value = Py real | Np np_float

text \<open>
  The arithmetic of numpy scalars: an infinity less an infinity, zero times an infinity,
  zero by zero and an infinity by an infinity are NaN, and NaN is what every operation
  makes of NaN; a finite number other than zero divided by zero is an infinity.
\<close>

fun np_neg :: "np_float \<Rightarrow> np_float" where
  "np_neg (Finite a) = Finite (- a)"
| "np_neg PosInf = NegInf"
| "np_neg NegInf = PosInf"
| "np_neg NaN = NaN"

fun np_add :: "np_float \<Rightarrow> np_float \<Rightarrow> np_float" where
  "np_add (Finite a) (Finite b) = Finite (a + b)"
| "np_add NaN v = NaN"
| "np_add u NaN = NaN"
| "np_add PosInf NegInf = NaN"
| "np_add NegInf PosInf = NaN"
| "np_add PosInf v = PosInf"
| "np_add u PosInf = PosInf"
| "np_add NegInf v = NegInf"
| "np_add u NegInf = NegInf"

definition np_sub :: "np_float \<Rightarrow> np_float \<Rightarrow> np_float" where
  "np_sub u v = np_add u (np_neg v)"

text \<open>The sign of a value that is not a NaN: \<open>True\<close> for a negative one.\<close>

fun np_negative :: "np_float \<Rightarrow> bool" where
  "np_negative (Finite a) = (a < 0)"
| "np_negative PosInf = False"
| "np_negative NegInf = True"
| "np_negative NaN = False"

definition np_inf :: "bool \<Rightarrow> np_float" where
  "np_inf negative = (if negative then NegInf else PosInf)"

fun np_mul :: "np_float \<Rightarrow> np_float \<Rightarrow> np_float" where
  "np_mul (Finite a) (Finite b) = Finite (a * b)"
| "np_mul NaN v = NaN"
| "np_mul u NaN = NaN"
| "np_mul u v =
     (if u = Finite 0 \<or> v = Finite 0 then NaN else np_inf (np_negative u \<noteq> np_negative v))"

fun np_div :: "np_float \<Rightarrow> np_float \<Rightarrow> np_float" where
  "np_div (Finite a) (Finite b) =
     (if b \<noteq> 0 then Finite (a / b) else if a = 0 then NaN else np_inf (a < 0))"
| "np_div NaN v = NaN"
| "np_div u NaN = NaN"
| "np_div (Finite a) v = Finite 0"
| "np_div u (Finite b) = np_inf (np_negative u \<noteq> (b < 0))"
| "np_div u v = NaN"

text \<open>
  \<^verbatim>\<open>np.sqrt\<close> returns NaN for a negative argument, \<^verbatim>\<open>np.cos\<close> and \<^verbatim>\<open>np.sin\<close> for an
  infinite one.
\<close>

fun np_sqrt :: "np_float \<Rightarrow> np_float" where
  "np_sqrt (Finite a) = (if a < 0 then NaN else Finite (sqrt a))"
| "np_sqrt PosInf = PosInf"
| "np_sqrt NegInf = NaN"
| "np_sqrt NaN = NaN"

fun np_cos :: "np_float \<Rightarrow> np_float" where
  "np_cos (Finite a) = Finite (cos a)"
| "np_cos v = NaN"

fun np_sin :: "np_float \<Rightarrow> np_float" where
  "np_sin (Finite a) = Finite (sin a)"
| "np_sin v = NaN"


text \<open>
  An operation on two Python numbers is Python's: it returns a Python number, and the
  division raises \<^verbatim>\<open>ZeroDivisionError\<close> on the divisor zero. With a numpy scalar on either
  side the operation is numpy's, on the Python number taken as a scalar, and it returns a
  numpy scalar without raising. \<open>py_square\<close> is the power \<^verbatim>\<open>**2\<close>.
\<close>

fun as_np :: "py_value \<Rightarrow> np_float" where
  "as_np (Py a) = Finite a"
| "as_np (Np v) = v"

fun py_neg :: "py_value \<Rightarrow> py_value" where
  "py_neg (Py a) = Py (- a)"
| "py_neg (Np v) = Np (np_neg v)"

fun py_add :: "py_value \<Rightarrow> py_value \<Rightarrow> py_value" where
  "py_add (Py a) (Py b) = Py (a + b)"
| "py_add u v = Np (np_add (as_np u) (as_np v))"

fun py_sub :: "py_value \<Rightarrow> py_value \<Rightarrow> py_value" where
  "py_sub (Py a) (Py b) = Py (a - b)"
| "py_sub u v = Np (np_sub (as_np u) (as_np v))"

fun py_mul :: "py_value \<Rightarrow> py_value \<Rightarrow> py_value" where
  "py_mul (Py a) (Py b) = Py (a * b)"
| "py_mul u v = Np (np_mul (as_np u) (as_np v))"

fun py_div :: "py_value \<Rightarrow> py_value \<Rightarrow> py_error + py_value" where
  "py_div (Py a) (Py b) = (if b = 0 then Inl ZeroDivisionError else Inr (Py (a / b)))"
| "py_div u v = Inr (Np (np_div (as_np u) (as_np v)))"

fun py_square :: "py_value \<Rightarrow> py_value" where
  "py_square (Py a) = Py (a\<^sup>2)"
| "py_square (Np v) = Np (np_mul v v)"


text \<open>
  The functions \<^verbatim>\<open>np.sqrt\<close>, \<^verbatim>\<open>np.cos\<close> and \<^verbatim>\<open>np.sin\<close> return a numpy scalar whatever
  they are given.
\<close>

definition numpy_sqrt :: "py_value \<Rightarrow> py_value" where
  "numpy_sqrt v = Np (np_sqrt (as_np v))"

definition numpy_cos :: "py_value \<Rightarrow> py_value" where
  "numpy_cos v = Np (np_cos (as_np v))"

definition numpy_sin :: "py_value \<Rightarrow> py_value" where
  "numpy_sin v = Np (np_sin (as_np v))"


subsection \<open>The constructor\<close>

text \<open>
  The attributes and the keyword arguments as in the section on \<^verbatim>\<open>PoincareParticle\<close>, now
  holding values; the default of \<^verbatim>\<open>G\<close> is the Python float \<open>1.\<close>.
\<close>

record float_particle =
  fp_coordinates :: string
  fp_G :: py_value
  fp_mu :: py_value
  fp_M :: py_value
  fp_sLambda :: py_value
  fp_l :: py_value
  fp_skappa :: py_value
  fp_seta :: py_value
  fp_ssigma :: py_value
  fp_srho :: py_value

record float_kwargs =
  fk_coordinates :: string
  fk_G :: py_value
  fk_m :: "py_value option"
  fk_Mstar :: "py_value option"
  fk_mu :: "py_value option"
  fk_M :: "py_value option"
  fk_sLambda :: "py_value option"
  fk_l :: "py_value option"
  fk_sGamma :: "py_value option"
  fk_gamma :: "py_value option"
  fk_sQ :: "py_value option"
  fk_q :: "py_value option"
  fk_Lambda :: "py_value option"
  fk_Gamma :: "py_value option"
  fk_Q :: "py_value option"
  fk_a :: "py_value option"
  fk_e :: "py_value option"
  fk_inc :: "py_value option"
  fk_pomega :: "py_value option"
  fk_Omega :: "py_value option"
  fk_skappa :: "py_value option"
  fk_seta :: "py_value option"
  fk_ssigma :: "py_value option"
  fk_srho :: "py_value option"
  fk_kappa :: "py_value option"
  fk_eta :: "py_value option"
  fk_sigma :: "py_value option"
  fk_rho :: "py_value option"

definition default_float_kwargs :: float_kwargs where
  "default_float_kwargs =
     \<lparr>fk_coordinates = ''canonical heliocentric'', fk_G = Py 1,
      fk_m = None, fk_Mstar = None, fk_mu = None, fk_M = None, fk_sLambda = None,
      fk_l = None, fk_sGamma = None, fk_gamma = None, fk_sQ = None, fk_q = None,
      fk_Lambda = None, fk_Gamma = None, fk_Q = None, fk_a = None, fk_e = None,
      fk_inc = None, fk_pomega = None, fk_Omega = None, fk_skappa = None,
      fk_seta = None, fk_ssigma = None, fk_srho = None, fk_kappa = None, fk_eta = None,
      fk_sigma = None, fk_rho = None\<rparr>"

text \<open>
  \<^verbatim>\<open>__init__\<close>, block by block as before. The reduced mass \<^verbatim>\<open>m*Mstar/(Mstar + m)\<close> is the
  first division that can raise.
\<close>

definition float_init_masses :: "float_kwargs \<Rightarrow> py_error + py_value \<times> py_value" where
  "float_init_masses kw =
     (case (fk_m kw, fk_Mstar kw) of
        (Some m, Some Mstar) \<Rightarrow>
          if fk_mu kw \<noteq> None \<or> fk_M kw \<noteq> None then Inl AttributeError
          else if fk_coordinates kw = ''democratic heliocentric'' then Inr (m, Mstar)
          else if fk_coordinates kw = ''canonical heliocentric''
               then bind_err (py_div (py_mul m Mstar) (py_add Mstar m)) (\<lambda>mu.
                      Inr (mu, py_add Mstar m))
          else Inl AttributeError
      | _ \<Rightarrow>
          if fk_m kw \<noteq> None \<or> fk_Mstar kw \<noteq> None then Inl AttributeError
          else (case (fk_mu kw, fk_M kw) of
                  (Some mu, Some M) \<Rightarrow> Inr (mu, M)
                | _ \<Rightarrow> Inl AttributeError))"

text \<open>
  A division inside \<^verbatim>\<open>try: ... except: raise AttributeError(...)\<close>: whatever it raises
  becomes an \<^verbatim>\<open>AttributeError\<close>.
\<close>

definition try_div :: "py_value \<Rightarrow> py_value \<Rightarrow> py_error + py_value" where
  "try_div v mu = (case py_div v mu of Inl _ \<Rightarrow> Inl AttributeError | Inr r \<Rightarrow> Inr r)"

text \<open>
  The last block: \<^verbatim>\<open>sLambda\<close> from a semimajor axis is \<^verbatim>\<open>np.sqrt(self.G*self.M*a)\<close>,
  \<^verbatim>\<open>sGamma\<close> from an eccentricity is \<^verbatim>\<open>self.sLambda*(1.-np.sqrt(1.-e**2))\<close>, and the four
  canonical variables are square roots again. No line of the block looks at the value of
  \<^verbatim>\<open>e\<close>.
\<close>

definition float_init_sLambda :: "float_kwargs \<Rightarrow> py_value \<Rightarrow> py_value \<Rightarrow> py_error + py_value" where
  "float_init_sLambda kw mu M =
     (case fk_sLambda kw of
        Some sLambda \<Rightarrow> Inr sLambda
      | None \<Rightarrow>
         (case fk_Lambda kw of
            Some Lambda \<Rightarrow> try_div Lambda mu
          | None \<Rightarrow>
             (case fk_a kw of
                Some a \<Rightarrow> Inr (numpy_sqrt (py_mul (py_mul (fk_G kw) M) a))
              | None \<Rightarrow> Inl AttributeError)))"

definition float_init_sGamma :: "float_kwargs \<Rightarrow> py_value \<Rightarrow> py_value \<Rightarrow> py_error + py_value" where
  "float_init_sGamma kw mu sLambda =
     (case fk_Gamma kw of
        Some Gamma \<Rightarrow> try_div Gamma mu
      | None \<Rightarrow>
         (case fk_e kw of
            Some e \<Rightarrow> Inr (py_mul sLambda (py_sub (Py 1) (numpy_sqrt (py_sub (Py 1) (py_square e)))))
          | None \<Rightarrow> Inr (case fk_sGamma kw of Some sGamma \<Rightarrow> sGamma | None \<Rightarrow> Py 0)))"

definition float_init_sQ ::
  "float_kwargs \<Rightarrow> py_value \<Rightarrow> py_value \<Rightarrow> py_value \<Rightarrow> py_error + py_value" where
  "float_init_sQ kw mu sLambda sGamma =
     (case fk_Q kw of
        Some Q \<Rightarrow> try_div Q mu
      | None \<Rightarrow>
         (case fk_inc kw of
            Some inc \<Rightarrow> Inr (py_mul (py_sub sLambda sGamma) (py_sub (Py 1) (numpy_cos inc)))
          | None \<Rightarrow> Inr (case fk_sQ kw of Some sQ \<Rightarrow> sQ | None \<Rightarrow> Py 0)))"

definition float_init_from_elements ::
  "float_kwargs \<Rightarrow> py_value \<Rightarrow> py_value \<Rightarrow> py_error + float_particle" where
  "float_init_from_elements kw mu M =
     (let num = num_passed [fk_sLambda kw, fk_Lambda kw, fk_a kw] in
      if num = 0 then Inl AttributeError
      else if num > 1 then Inl AttributeError
      else if num_passed [fk_sGamma kw, fk_Gamma kw, fk_e kw] > 1 then Inl AttributeError
      else if num_passed [fk_sQ kw, fk_Q kw, fk_inc kw] > 1 then Inl AttributeError
      else if num_passed [fk_gamma kw, fk_pomega kw] > 1 then Inl AttributeError
      else if num_passed [fk_q kw, fk_Omega kw] > 1 then Inl AttributeError
      else
        let l = (case fk_l kw of Some v \<Rightarrow> v | None \<Rightarrow> Py 0);
            gamma = (case fk_pomega kw of Some pomega \<Rightarrow> py_neg pomega
                     | None \<Rightarrow> (case fk_gamma kw of Some v \<Rightarrow> v | None \<Rightarrow> Py 0));
            q = (case fk_Omega kw of Some Omega \<Rightarrow> py_neg Omega
                 | None \<Rightarrow> (case fk_q kw of Some v \<Rightarrow> v | None \<Rightarrow> Py 0))
        in bind_err (float_init_sLambda kw mu M) (\<lambda>sLambda.
           bind_err (float_init_sGamma kw mu sLambda) (\<lambda>sGamma.
           bind_err (float_init_sQ kw mu sLambda sGamma) (\<lambda>sQ.
             Inr \<lparr>fp_coordinates = fk_coordinates kw, fp_G = fk_G kw, fp_mu = mu, fp_M = M,
                  fp_sLambda = sLambda, fp_l = l,
                  fp_skappa = py_mul (numpy_sqrt (py_mul (Py 2) sGamma)) (numpy_cos gamma),
                  fp_seta = py_mul (numpy_sqrt (py_mul (Py 2) sGamma)) (numpy_sin gamma),
                  fp_ssigma = py_mul (numpy_sqrt (py_mul (Py 2) sQ)) (numpy_cos q),
                  fp_srho = py_mul (numpy_sqrt (py_mul (Py 2) sQ)) (numpy_sin q)\<rparr>))))"

text \<open>
  The whole constructor. The six stored variables are kept as they are passed; the six
  massive variables are divided by \<^verbatim>\<open>self.mu\<close> and by \<^verbatim>\<open>np.sqrt(self.mu)\<close>, outside any
  \<^verbatim>\<open>try\<close>.
\<close>

definition PoincareParticle_float_init :: "float_kwargs \<Rightarrow> py_error + float_particle" where
  "PoincareParticle_float_init kw =
     bind_err (float_init_masses kw) (\<lambda>(mu, M).
       case (fk_sLambda kw, fk_l kw, fk_skappa kw, fk_seta kw, fk_ssigma kw, fk_srho kw) of
         (Some sLambda, Some l, Some skappa, Some seta, Some ssigma, Some srho) \<Rightarrow>
           Inr \<lparr>fp_coordinates = fk_coordinates kw, fp_G = fk_G kw, fp_mu = mu, fp_M = M,
                fp_sLambda = sLambda, fp_l = l, fp_skappa = skappa, fp_seta = seta,
                fp_ssigma = ssigma, fp_srho = srho\<rparr>
       | _ \<Rightarrow>
         (case (fk_Lambda kw, fk_l kw, fk_kappa kw, fk_eta kw, fk_sigma kw, fk_rho kw) of
            (Some Lambda, Some l, Some kappa, Some eta, Some sigma, Some rho) \<Rightarrow>
              bind_err (py_div Lambda mu) (\<lambda>sLambda.
              bind_err (py_div kappa (numpy_sqrt mu)) (\<lambda>skappa.
              bind_err (py_div eta (numpy_sqrt mu)) (\<lambda>seta.
              bind_err (py_div sigma (numpy_sqrt mu)) (\<lambda>ssigma.
              bind_err (py_div rho (numpy_sqrt mu)) (\<lambda>srho.
                Inr \<lparr>fp_coordinates = fk_coordinates kw, fp_G = fk_G kw, fp_mu = mu, fp_M = M,
                     fp_sLambda = sLambda, fp_l = l, fp_skappa = skappa, fp_seta = seta,
                     fp_ssigma = ssigma, fp_srho = srho\<rparr>)))))
          | _ \<Rightarrow> float_init_from_elements kw mu M))"

subsection \<open>The property \<^verbatim>\<open>e\<close>\<close>





section \<open>\<^verbatim>\<open>Poincare\<close> and \<^verbatim>\<open>PoincareParticles\<close>\<close>

text \<open>Python's \<^verbatim>\<open>"{0}".format(i)\<close> for a non-negative integer: its decimal digits.\<close>

definition digit_char :: "nat \<Rightarrow> char" where
  "digit_char d = ''0123456789'' ! d"

fun format_nat :: "nat \<Rightarrow> string" where
  "format_nat n =
     (if n < 10 then [digit_char n]
      else format_nat (n div 10) @ [digit_char (n mod 10)])"

text \<open>
  Indexing of a Python list or numpy array: a negative index counts from the end, an
  index out of range raises \<^verbatim>\<open>IndexError\<close>.
\<close>

definition py_index :: "'a list \<Rightarrow> int \<Rightarrow> py_error + 'a" where
  "py_index xs i =
     (if 0 \<le> i \<and> i < int (length xs) then Inr (xs ! nat i)
      else if i < 0 \<and> - int (length xs) \<le> i then Inr (xs ! nat (int (length xs) + i))
      else Inl IndexError)"

text \<open>A list comprehension whose element expression can raise: the first exception wins.\<close>

fun sequence_err :: "('e + 'a) list \<Rightarrow> 'e + 'a list" where
  "sequence_err [] = Inr []"
| "sequence_err (r # rs) =
     (case r of
        Inl err \<Rightarrow> Inl err
      | Inr v \<Rightarrow> (case sequence_err rs of Inl err \<Rightarrow> Inl err | Inr vs \<Rightarrow> Inr (v # vs)))"

text \<open>
  The attributes of a \<^verbatim>\<open>Poincare\<close> object. \<open>qpvars\<close>, \<open>state_values\<close> and \<open>sys_t\<close> are
  the attributes \<^verbatim>\<open>qpvars\<close>, \<^verbatim>\<open>values\<close> and \<^verbatim>\<open>t\<close> kept by the base class
  \<^verbatim>\<open>PhaseSpaceState\<close>; an entry of \<open>masses\<close> is \<open>None\<close> when the property \<^verbatim>\<open>m\<close> or
  \<^verbatim>\<open>Mstar\<close> it was read from returned \<^verbatim>\<open>None\<close>.
\<close>

record Poincare =
  sys_G :: real
  masses :: "real option list"
  sys_coordinates :: string
  qpvars :: "string list"
  state_values :: "real list"
  sys_t :: real

text \<open>
  One round of the loop \<^verbatim>\<open>for i,particle in enumerate(poincareparticles)\<close> of
  \<^verbatim>\<open>Poincare.__init__\<close>, on the four accumulators
  \<open>(initial_p_values, initial_q_values, qvars, pvars)\<close>.
\<close>

fun Poincare_init_step ::
  "real list \<times> real list \<times> string list \<times> string list \<Rightarrow> nat \<times> PoincareParticle \<Rightarrow>
   real list \<times> real list \<times> string list \<times> string list" where
  "Poincare_init_step (initial_p_values, initial_q_values, qvars, pvars) (i, particle) =
     (let q = [''lambda'' @ format_nat (i + 1), ''eta'' @ format_nat (i + 1),
               ''rho'' @ format_nat (i + 1)];
          p = [''Lambda'' @ format_nat (i + 1), ''kappa'' @ format_nat (i + 1),
               ''sigma'' @ format_nat (i + 1)];
          pvals = [pp_Lambda particle, pp_kappa particle, pp_sigma particle];
          qvals = [pp_l particle, pp_eta particle, pp_rho particle]
      in (initial_p_values @ pvals, initial_q_values @ qvals, qvars @ q, pvars @ p))"

text \<open>
  Modelled from the spec: the constructor of the base class \<^verbatim>\<open>PhaseSpaceState\<close>, which
  is not among the sources, keeps the list of variables and the list of values as it
  receives them (the flat ordered vector that the container exposes).
\<close>

definition PhaseSpaceState_init ::
  "real \<Rightarrow> real option list \<Rightarrow> string \<Rightarrow> string list \<Rightarrow> real list \<Rightarrow> real \<Rightarrow> Poincare" where
  "PhaseSpaceState_init G ms coordinates qpv initial_values t =
     \<lparr>sys_G = G, masses = ms, sys_coordinates = coordinates, qpvars = qpv,
      state_values = initial_values, sys_t = t\<rparr>"

definition Poincare_init ::
  "real \<Rightarrow> PoincareParticle list \<Rightarrow> string \<Rightarrow> real \<Rightarrow> py_error + Poincare" where
  "Poincare_init G poincareparticles coordinates t =
     (case poincareparticles of
        [] \<Rightarrow> Inl IndexError
      | p0 # _ \<Rightarrow>
          (let ms = pp_Mstar p0 # map pp_m poincareparticles;
               (initial_p_values, initial_q_values, qvars, pvars) =
                  foldl Poincare_init_step ([], [], [], [])
                    (zip [0..<length poincareparticles] poincareparticles);
               qpv = qvars @ pvars;
               initial_values = initial_q_values @ initial_p_values
           in Inr (PhaseSpaceState_init G ms coordinates qpv initial_values t)))"

text \<open>
  Modelled from the spec: the attribute \<^verbatim>\<open>Ndof\<close> of the base class
  \<^verbatim>\<open>PhaseSpaceState\<close>, the number of conjugate pairs of the flat vector.
\<close>

definition Ndof :: "Poincare \<Rightarrow> nat" where
  "Ndof s = length (qpvars s) div 2"

definition Poincare_N :: "Poincare \<Rightarrow> nat" where
  "Poincare_N s = Ndof s div 3 + 1"

text \<open>
  \<^verbatim>\<open>PoincareParticles.__getitem__\<close> for an integer key: a fresh \<^verbatim>\<open>PoincareParticle\<close>
  is built from six slots of the flat vector on every access.
\<close>

definition Poincare_getitem :: "Poincare \<Rightarrow> int \<Rightarrow> py_error + PoincareParticle" where
  "Poincare_getitem s i0 =
     (if i0 = 0 then Inl AttributeError
      else
        let i = (if i0 < 0 then i0 + int (Poincare_N s) else i0) in
        if i < 0 \<or> i \<ge> int (Poincare_N s) then Inl AttributeError
        else
          let val = state_values s; j = i - 1 in
          bind_err (py_index val (j * 3)) (\<lambda>l.
          bind_err (py_index val (j * 3 + 1)) (\<lambda>eta.
          bind_err (py_index val (j * 3 + 2)) (\<lambda>rho.
          bind_err (py_index val (int (Ndof s) + j * 3)) (\<lambda>Lambda.
          bind_err (py_index val (int (Ndof s) + j * 3 + 1)) (\<lambda>kappa.
          bind_err (py_index val (int (Ndof s) + j * 3 + 2)) (\<lambda>sigma.
          bind_err (py_index (masses s) i) (\<lambda>m.
          bind_err (py_index (masses s) 0) (\<lambda>Mstar.
            PoincareParticle_init
              (default_kwargs\<lparr>kw_coordinates := sys_coordinates s, kw_G := sys_G s,
                 kw_m := m, kw_Mstar := Mstar, kw_l := Some l, kw_eta := Some eta,
                 kw_rho := Some rho, kw_Lambda := Some Lambda, kw_kappa := Some kappa,
                 kw_sigma := Some sigma\<rparr>))))))))))"

text \<open>
  The slices \<^verbatim>\<open>particles[1:]\<close> and \<^verbatim>\<open>particles[1:self.N]\<close>: both are the list
  comprehension over \<^verbatim>\<open>range(1, N)\<close>, so every element is a fresh object.
\<close>

definition Poincare_particles_from_1 :: "Poincare \<Rightarrow> py_error + PoincareParticle list" where
  "Poincare_particles_from_1 s =
     sequence_err (map (\<lambda>i. Poincare_getitem s (int i)) [1..<Poincare_N s])"

text \<open>
  The names bound to a time in the body of \<^verbatim>\<open>Poincare.copy\<close>: the method has the single
  parameter \<^verbatim>\<open>self\<close>, assigns no local, and the module binds no name \<^verbatim>\<open>t\<close>.
\<close>

definition copy_scope :: "string \<rightharpoonup> real" where
  "copy_scope = Map.empty"

definition load_name :: "(string \<rightharpoonup> 'a) \<Rightarrow> string \<Rightarrow> py_error + 'a" where
  "load_name scope name = (case scope name of None \<Rightarrow> Inl NameError | Some v \<Rightarrow> Inr v)"

text \<open>
  \<^verbatim>\<open>Poincare.copy\<close>: the keyword arguments of the call are evaluated from left to right,
  the slice of particles before the name \<^verbatim>\<open>t\<close>.
\<close>

definition Poincare_copy :: "Poincare \<Rightarrow> py_error + Poincare" where
  "Poincare_copy s =
     bind_err (Poincare_particles_from_1 s) (\<lambda>ps.
     bind_err (load_name copy_scope ''t'') (\<lambda>t.
       Poincare_init (sys_G s) ps (sys_coordinates s) t))"


section \<open>\<^verbatim>\<open>PoincareHamiltonian\<close>\<close>

text \<open>
  A sympy expression is modelled by the function it denotes: from a valuation of the
  symbols, by name, to a real number. Sums, products, powers, square roots and the
  trigonometric functions of expressions are those of their values.
\<close>

type_synonym expr = "(string \<Rightarrow> real) \<Rightarrow> real"

definition format_int :: "int \<Rightarrow> string" where
  "format_int i = (if i < 0 then ''-'' @ format_nat (nat (- i)) else format_nat (nat i))"

definition get_a0_symbol :: "int \<Rightarrow> string" where
  "get_a0_symbol i = ''a_{'' @ format_int i @ [CHR 0x5C] @ '',0}''"

definition get_Lambda0_symbol :: "int \<Rightarrow> string" where
  "get_Lambda0_symbol i = [CHR 0x5C] @ ''Lambda_{'' @ format_int i @ [CHR 0x5C] @ '',0}''"

definition alpha_symbol :: "int \<Rightarrow> int \<Rightarrow> string" where
  "alpha_symbol i j =
     [CHR 0x5C] @ ''alpha_{'' @ format_int i @ [CHR 0x5C] @ '','' @ format_int j @ ''}''"

text \<open>
  The attributes of a \<^verbatim>\<open>PoincareHamiltonian\<close>. \<open>warnings_issued\<close> collects the messages
  passed to \<^verbatim>\<open>warnings.warn\<close>, and \<open>update_count\<close> counts the calls of \<^verbatim>\<open>_update\<close>, the
  method of the base class \<^verbatim>\<open>Hamiltonian\<close> (not among the sources) that regenerates the
  equations of motion.
\<close>

record PoincareHamiltonian =
  ham_H :: expr
  Hparams :: "string \<rightharpoonup> real"
  resonance_indices :: "(int \<times> int \<times> int list \<times> int list) list"
  ham_state :: Poincare
  warnings_issued :: "string list"
  update_count :: nat

definition add_Hkep_term :: "expr \<Rightarrow> int \<Rightarrow> expr" where
  "add_Hkep_term H0 index =
     (\<lambda>env.
        let G = env ''G''; M = env (''M'' @ format_int index);
            mu = env (''mu'' @ format_int index); Lambda = env (''Lambda'' @ format_int index)
        in H0 env + - G\<^sup>2 * M\<^sup>2 * mu ^ 3 / (2 * Lambda\<^sup>2))"

text \<open>A loop whose body can raise: the first exception ends it.\<close>

fun foldl_err :: "('b \<Rightarrow> 'a \<Rightarrow> 'e + 'b) \<Rightarrow> 'b \<Rightarrow> 'a list \<Rightarrow> 'e + 'b" where
  "foldl_err f acc [] = Inr acc"
| "foldl_err f acc (x # xs) =
     (case f acc x of Inl err \<Rightarrow> Inl err | Inr acc' \<Rightarrow> foldl_err f acc' xs)"

text \<open>
  The inner loop of \<^verbatim>\<open>PoincareHamiltonian.__init__\<close>, which stores the ratio of
  semimajor axes of body \<open>i\<close> and every body \<open>j\<close> outside it.
\<close>

definition ham_init_alpha :: "Poincare \<Rightarrow> nat \<Rightarrow> (string \<rightharpoonup> real) \<Rightarrow> nat \<Rightarrow> py_error + (string \<rightharpoonup> real)" where
  "ham_init_alpha pvars i params j =
     bind_err (Poincare_getitem pvars (int i)) (\<lambda>pi.
     bind_err (Poincare_getitem pvars (int j)) (\<lambda>pj.
       Inr (params(alpha_symbol (int i) (int j) \<mapsto> pp_a pi / pp_a pj))))"

text \<open>
  One round of the outer loop. Each of \<^verbatim>\<open>ps[i].mu\<close>, \<^verbatim>\<open>ps[i].m\<close>, ... builds the same
  particle again, so one access stands for them. A particle built by
  \<^verbatim>\<open>__getitem__\<close> has a supported coordinate string, so that its \<^verbatim>\<open>m\<close> is a number.
\<close>

definition ham_init_body ::
  "Poincare \<Rightarrow> (string \<rightharpoonup> real) \<times> expr \<Rightarrow> nat \<Rightarrow> py_error + (string \<rightharpoonup> real) \<times> expr" where
  "ham_init_body pvars acc i =
     (case acc of (params, H0) \<Rightarrow>
        bind_err (Poincare_getitem pvars (int i)) (\<lambda>p.
          let params1 = params(''mu'' @ format_int (int i) \<mapsto> pp_mu p);
              params2 = (case pp_m p of Some m \<Rightarrow> params1(''m'' @ format_int (int i) \<mapsto> m)
                         | None \<Rightarrow> params1);
              params3 = params2(''M'' @ format_int (int i) \<mapsto> pp_M p);
              params4 = params3(get_Lambda0_symbol (int i) \<mapsto> pp_Lambda p);
              params5 = params4(get_a0_symbol (int i) \<mapsto> pp_a p)
          in bind_err (foldl_err (ham_init_alpha pvars i) params5 [i + 1..<Poincare_N pvars])
               (\<lambda>params6. Inr (params6, add_Hkep_term H0 (int i)))))"

definition PoincareHamiltonian_init :: "Poincare \<Rightarrow> py_error + PoincareHamiltonian" where
  "PoincareHamiltonian_init pvars =
     bind_err (foldl_err (ham_init_body pvars) ([''G'' \<mapsto> sys_G pvars], (\<lambda>env. 0))
                 [1..<Poincare_N pvars])
       (\<lambda>(params, H0).
          Inr \<lparr>ham_H = H0, Hparams = params, resonance_indices = [], ham_state = pvars,
               warnings_issued = [], update_count = 0\<rparr>)"

text \<open>
  The functions of \<^verbatim>\<open>disturbing_function.py\<close> that \<^verbatim>\<open>add_monomial_term\<close> calls are not
  among the sources; they are parameters of the model. A coefficient dictionary has the
  abstract type \<open>'c\<close>, and the dictionary of the expansion in \<open>delta\<close> is the list of its
  items in iteration order.
\<close>

record 'c df_library =
  DFCoeff_C :: "int list \<Rightarrow> int list \<Rightarrow> 'c"
  p1_p2_from_k_nu :: "int list \<Rightarrow> int list \<Rightarrow> int \<times> int"
  eval_DFCoeff_delta_expansion :: "'c \<Rightarrow> int \<Rightarrow> int \<Rightarrow> int \<Rightarrow> real \<Rightarrow> ((int \<times> int) \<times> real) list"
  get_DFCoeff_symbol :: "int list \<Rightarrow> int list \<Rightarrow> int \<times> int \<Rightarrow> int \<Rightarrow> int \<Rightarrow> string"

definition duplicate_warning :: string where
  "duplicate_warning = ''Monomial term alread included Hamiltonian; no new term added.''"

text \<open>
  The loop over the items of the expansion: the coefficient is stored under its symbol
  and the symbol enters \<open>Ctot\<close> with the powers of the two \<open>delta\<close>.
\<close>

fun Ctot_step ::
  "'c df_library \<Rightarrow> int list \<Rightarrow> int list \<Rightarrow> int \<Rightarrow> int \<Rightarrow> expr \<Rightarrow> expr \<Rightarrow>
   (string \<rightharpoonup> real) \<times> expr \<Rightarrow> (int \<times> int) \<times> real \<Rightarrow> (string \<rightharpoonup> real) \<times> expr" where
  "Ctot_step df kvec nuvec indexIn indexOut deltaIn deltaOut (params, Ctot) ((l1, l2), C_val) =
     (let Csym = get_DFCoeff_symbol df kvec nuvec (l1, l2) indexIn indexOut
      in (params(Csym \<mapsto> C_val),
          (\<lambda>env. Ctot env + env Csym * deltaIn env powi l1 * deltaOut env powi l2)))"

text \<open>
  The product of the four complex numbers \<open>xin + \<i> yin\<close>, \<open>xout + \<i> yout\<close>,
  \<open>uin + \<i> vin\<close>, \<open>uout + \<i> vout\<close>, as the source spells out its two parts.
\<close>

definition monomial_re :: "real \<Rightarrow> real \<Rightarrow> real \<Rightarrow> real \<Rightarrow> real \<Rightarrow> real \<Rightarrow> real \<Rightarrow> real \<Rightarrow> real" where
  "monomial_re xin yin xout yout uin vin uout vout =
     uin*uout*xin*xout - vin*vout*xin*xout - uout*vin*xout*yin - uin*vout*xout*yin
     - uout*vin*xin*yout - uin*vout*xin*yout - uin*uout*yin*yout + vin*vout*yin*yout"

definition monomial_im :: "real \<Rightarrow> real \<Rightarrow> real \<Rightarrow> real \<Rightarrow> real \<Rightarrow> real \<Rightarrow> real \<Rightarrow> real \<Rightarrow> real" where
  "monomial_im xin yin xout yout uin vin uout vout =
     uout*vin*xin*xout + uin*vout*xin*xout + uin*uout*xout*yin - vin*vout*xout*yin
     + uin*uout*xin*yout - vin*vout*xin*yout - uout*vin*yin*yout - uin*vout*yin*yout"

definition symbol_name :: "string \<Rightarrow> int \<Rightarrow> string" where
  "symbol_name base index = base @ format_int index"

text \<open>
  The term without its coefficient \<open>Ctot\<close>: \<open>prefactor1 * prefactor2 * trig_term\<close> of the
  source, for the harmonic vector \<open>kvec = [k1, ..., k6]\<close> and the orders
  \<open>nuvec = [nu1, ..., nu4]\<close>.
\<close>

definition monomial_factor :: "int list \<Rightarrow> int list \<Rightarrow> int \<Rightarrow> int \<Rightarrow> expr" where
  "monomial_factor kvec nuvec indexIn indexOut =
     (\<lambda>env.
        let k1 = kvec ! 0; k2 = kvec ! 1; k3 = kvec ! 2; k4 = kvec ! 3; k5 = kvec ! 4; k6 = kvec ! 5;
            nu1 = nuvec ! 0; nu2 = nuvec ! 1; nu3 = nuvec ! 2; nu4 = nuvec ! 3;
            G = env ''G'';
            mIn = env (symbol_name ''m'' indexIn); mOut = env (symbol_name ''m'' indexOut);
            lambdaIn = env (symbol_name ''lambda'' indexIn);
            lambdaOut = env (symbol_name ''lambda'' indexOut);
            kappaIn = env (symbol_name ''kappa'' indexIn);
            kappaOut = env (symbol_name ''kappa'' indexOut);
            etaIn = env (symbol_name ''eta'' indexIn); etaOut = env (symbol_name ''eta'' indexOut);
            sigmaIn = env (symbol_name ''sigma'' indexIn);
            sigmaOut = env (symbol_name ''sigma'' indexOut);
            rhoIn = env (symbol_name ''rho'' indexIn); rhoOut = env (symbol_name ''rho'' indexOut);
            Lambda0In = env (get_Lambda0_symbol indexIn);
            Lambda0Out = env (get_Lambda0_symbol indexOut);
            aOut0 = env (get_a0_symbol indexOut);
            rtLIn = sqrt Lambda0In; rtLOut = sqrt Lambda0Out;
            (xin, yin) = get_re_im_components (kappaIn / rtLIn) (Floating (- etaIn / rtLIn)) k3;
            (xout, yout) = get_re_im_components (kappaOut / rtLOut) (Floating (- etaOut / rtLOut)) k4;
            (uin, vin) = get_re_im_components (sigmaIn / rtLIn / 2) (Floating (- rhoIn / rtLIn / 2)) k5;
            (uout, vout) = get_re_im_components (sigmaOut / rtLOut / 2) (Floating (- rhoOut / rtLOut / 2)) k6;
            re = monomial_re xin yin xout yout uin vin uout vout;
            im = monomial_im xin yin xout yout uin vin uout vout;
            GammaIn = (kappaIn * kappaIn + etaIn * etaIn) / 2;
            GammaOut = (kappaOut * kappaOut + etaOut * etaOut) / 2;
            QIn = (sigmaIn * sigmaIn + rhoIn * rhoIn) / 2;
            QOut = (sigmaOut * sigmaOut + rhoOut * rhoOut) / 2;
            eIn_sq_term = (2 * GammaIn / Lambda0In) powi nu3;
            eOut_sq_term = (2 * GammaOut / Lambda0Out) powi nu4;
            incIn_sq_term = (QIn / Lambda0In / 2) powi nu1;
            incOut_sq_term = (QOut / Lambda0Out / 2) powi nu2;
            prefactor1 = - G * mIn * mOut / aOut0;
            prefactor2 = eIn_sq_term * eOut_sq_term * incIn_sq_term * incOut_sq_term;
            trig_term = re * cos (of_int k1 * lambdaOut + of_int k2 * lambdaIn)
                        - im * sin (of_int k1 * lambdaOut + of_int k2 * lambdaIn)
        in prefactor1 * prefactor2 * trig_term)"

definition add_monomial_term ::
  "'c df_library \<Rightarrow> PoincareHamiltonian \<Rightarrow> int list \<Rightarrow> int list \<Rightarrow> int \<Rightarrow> int \<Rightarrow> int \<Rightarrow> bool \<Rightarrow>
   py_error + PoincareHamiltonian" where
  "add_monomial_term df hs kvec nuvec indexIn indexOut lmax update =
     (if (indexIn, indexOut, kvec, nuvec) \<in> set (resonance_indices hs)
      then Inr (hs\<lparr>warnings_issued := warnings_issued hs @ [duplicate_warning]\<rparr>)
      else
        case Hparams hs (alpha_symbol indexIn indexOut) of
          None \<Rightarrow> Inl KeyError
        | Some alpha_val \<Rightarrow>
            if length kvec \<noteq> 6 \<or> length nuvec \<noteq> 4 then Inl ValueError
            else
              let deltaIn = (\<lambda>env. (env (symbol_name ''Lambda'' indexIn)
                                       - env (get_Lambda0_symbol indexIn))
                                    / env (get_Lambda0_symbol indexIn));
                  deltaOut = (\<lambda>env. (env (symbol_name ''Lambda'' indexOut)
                                        - env (get_Lambda0_symbol indexOut))
                                     / env (get_Lambda0_symbol indexOut));
                  C_dict = DFCoeff_C df kvec nuvec;
                  (p1, p2) = p1_p2_from_k_nu df kvec nuvec;
                  C_delta_expansion_dict = eval_DFCoeff_delta_expansion df C_dict p1 p2 lmax alpha_val;
                  (params, Ctot) =
                     foldl (Ctot_step df kvec nuvec indexIn indexOut deltaIn deltaOut)
                       (Hparams hs, (\<lambda>env. 0)) C_delta_expansion_dict;
                  factor = monomial_factor kvec nuvec indexIn indexOut
              in Inr (hs\<lparr>Hparams := params,
                         resonance_indices :=
                           resonance_indices hs @ [(indexIn, indexOut, kvec, nuvec)],
                         ham_H := (\<lambda>env. ham_H hs env + Ctot env * factor env),
                         update_count := (if update then update_count hs + 1
                                          else update_count hs)\<rparr>))"


section \<open>Evolution operators\<close>

definition rt2 :: real where
  "rt2 = sqrt 2"

definition rt2_inv :: real where
  "rt2_inv = 1 / rt2"

subsection \<open>Arrays\<close>

text \<open>
  \<^verbatim>\<open>np.reshape(state_vec,(-1,6))\<close>, the method \<^verbatim>\<open>_state_vector_to_individual_vectors\<close> of
  the base class: row \<open>i\<close> holds the six entries from position \<open>6 i\<close> on. A length that
  is no multiple of six is a \<^verbatim>\<open>ValueError\<close>. Flattening the rows again,
  \<^verbatim>\<open>vecs.reshape(-1)\<close>, is \<^const>\<open>concat\<close>.
\<close>

definition state_vector_to_individual_vectors :: "real list \<Rightarrow> py_error + real list list" where
  "state_vector_to_individual_vectors state_vec =
     (if length state_vec mod 6 = 0
      then Inr (map (\<lambda>i. take 6 (drop (6 * i) state_vec)) [0..<length state_vec div 6])
      else Inl ValueError)"

text \<open>The column \<^verbatim>\<open>vecs[:,k]\<close>.\<close>

definition column :: "nat \<Rightarrow> 'a list list \<Rightarrow> 'a list" where
  "column k vecs = map (\<lambda>row. row ! k) vecs"

text \<open>
  An elementwise operation of numpy on two one-dimensional arrays: equal lengths, or one of
  them of length one, which is then broadcast.
\<close>

definition np_elementwise :: "('a \<Rightarrow> 'a \<Rightarrow> 'a) \<Rightarrow> 'a list \<Rightarrow> 'a list \<Rightarrow> py_error + 'a list" where
  "np_elementwise f xs ys =
     (if length xs = length ys then Inr (map2 f xs ys)
      else if length xs = 1 then Inr (map (f (hd xs)) ys)
      else if length ys = 1 then Inr (map (\<lambda>x. f x (hd ys)) xs)
      else Inl ValueError)"

text \<open>
  The assignment \<^verbatim>\<open>vecs[:,k] = vals\<close>: the values must have the length of the column,
  or length one.
\<close>

definition set_column :: "nat \<Rightarrow> 'a list \<Rightarrow> 'a list list \<Rightarrow> py_error + 'a list list" where
  "set_column k vals vecs =
     (if length vals = length vecs then Inr (map2 (\<lambda>row v. row[k := v]) vecs vals)
      else if length vals = 1 then Inr (map (\<lambda>row. row[k := hd vals]) vecs)
      else Inl ValueError)"

text \<open>The in-place \<^verbatim>\<open>vecs[:,k] += vals\<close>.\<close>

definition add_to_column :: "nat \<Rightarrow> real list \<Rightarrow> real list list \<Rightarrow> py_error + real list list" where
  "add_to_column k vals vecs =
     (if length vals = length vecs then Inr (map2 (\<lambda>row v. row[k := row ! k + v]) vecs vals)
      else if length vals = 1 then Inr (map (\<lambda>row. row[k := row ! k + hd vals]) vecs)
      else Inl ValueError)"

text \<open>
  The product \<^verbatim>\<open>matrix @ vector\<close> of a two-dimensional and a one-dimensional array: every
  row must have the length of the vector.
\<close>

definition np_dot :: "'a::comm_semiring_0 list \<Rightarrow> 'a list \<Rightarrow> 'a" where
  "np_dot xs ys = sum_list (map2 (*) xs ys)"

definition np_matvec :: "'a::comm_semiring_0 list list \<Rightarrow> 'a list \<Rightarrow> py_error + 'a list" where
  "np_matvec m v =
     (if \<forall>row \<in> set m. length row = length v then Inr (map (\<lambda>row. np_dot row v) m)
      else Inl ValueError)"

subsection \<open>\<^verbatim>\<open>KeplerianEvolutionOperator\<close>\<close>

text \<open>
  The attribute \<^verbatim>\<open>particles\<close> of an operator is the view \<^verbatim>\<open>initial_state.particles\<close>; it
  holds no data of its own, so the record keeps the state only.
\<close>

record KeplerianEvolutionOperator =
  kep_dt :: real
  kep_state :: Poincare
  kep_G :: real
  kep_m :: "real list"
  kep_M :: "real list"
  GGMMmmm :: "real list"

text \<open>
  An array holding \<^verbatim>\<open>None\<close> cannot be cubed; the \<^verbatim>\<open>TypeError\<close> is that of the line that
  computes \<^verbatim>\<open>GGMMmmm\<close>, after both slices have been taken.
\<close>

definition KeplerianEvolutionOperator_init ::
  "Poincare \<Rightarrow> real \<Rightarrow> py_error + KeplerianEvolutionOperator" where
  "KeplerianEvolutionOperator_init initial_state dt =
     bind_err (Poincare_particles_from_1 initial_state) (\<lambda>ps_m.
     bind_err (Poincare_particles_from_1 initial_state) (\<lambda>ps_M.
     bind_err (sequence_err (map (\<lambda>p. case pp_m p of None \<Rightarrow> Inl TypeError | Some m \<Rightarrow> Inr m) ps_m))
       (\<lambda>ms.
         let Ms = map pp_M ps_M in
         bind_err (np_elementwise (*) (map (\<lambda>M. (sys_G initial_state * M)\<^sup>2) Ms)
                     (map (\<lambda>m. m ^ 3) ms)) (\<lambda>prod.
           Inr \<lparr>kep_dt = dt, kep_state = initial_state, kep_G = sys_G initial_state,
                kep_m = ms, kep_M = Ms, GGMMmmm = prod\<rparr>))))"

definition Keplerian_get_lambda_dot :: "KeplerianEvolutionOperator \<Rightarrow> py_error + real list" where
  "Keplerian_get_lambda_dot op =
     bind_err (Poincare_particles_from_1 (kep_state op)) (\<lambda>ps.
       let L = map pp_Lambda ps in
       bind_err (np_elementwise (/) (GGMMmmm op) L) (\<lambda>q1.
       bind_err (np_elementwise (/) q1 L) (\<lambda>q2.
         np_elementwise (/) q2 L)))"

text \<open>
  \<^verbatim>\<open>apply\<close>: the loop \<^verbatim>\<open>for p,dl in zip(ps[1:],dlambda): p.l += dl\<close> runs over the list
  that the slice \<^verbatim>\<open>ps[1:]\<close> has just built. The result pairs the operator, whose state the
  method never assigns, with that list after the loop, which no name refers to once the
  method returns.
\<close>

definition Keplerian_apply ::
  "KeplerianEvolutionOperator \<Rightarrow> py_error + KeplerianEvolutionOperator \<times> PoincareParticle list" where
  "Keplerian_apply op =
     bind_err (Keplerian_get_lambda_dot op) (\<lambda>lambda_dot.
       let dlambda = map (\<lambda>x. kep_dt op * x) lambda_dot in
       bind_err (Poincare_particles_from_1 (kep_state op)) (\<lambda>ps.
         Inr (op, map (\<lambda>(p, dl). p\<lparr>pp_l := pp_l p + dl\<rparr>) (zip ps dlambda))))"

definition Keplerian_apply_to_state_vector ::
  "KeplerianEvolutionOperator \<Rightarrow> real list \<Rightarrow> py_error + real list" where
  "Keplerian_apply_to_state_vector op state_vector =
     bind_err (state_vector_to_individual_vectors state_vector) (\<lambda>vecs.
       let L = column 2 vecs in
       bind_err (np_elementwise (/) (GGMMmmm op) L) (\<lambda>q1.
       bind_err (np_elementwise (/) q1 L) (\<lambda>q2.
       bind_err (np_elementwise (/) q2 L) (\<lambda>lambda_dot.
         let dlambda = map (\<lambda>x. kep_dt op * x) lambda_dot in
         bind_err (add_to_column 3 dlambda vecs) (\<lambda>vecs'. Inr (concat vecs'))))))"

definition Keplerian_set_dt :: "real \<Rightarrow> KeplerianEvolutionOperator \<Rightarrow> KeplerianEvolutionOperator" where
  "Keplerian_set_dt val op = op\<lparr>kep_dt := val\<rparr>"

subsection \<open>\<^verbatim>\<open>LinearSecularEvolutionOperator\<close>\<close>

text \<open>
  The two coupling matrices come from \<^verbatim>\<open>LaplaceLagrangeSystem.from_Poincare\<close>, which is not
  among the sources, and the operator matrices from \<^verbatim>\<open>scipy.linalg.expm\<close>. Both are
  parameters: \<open>LL\<close> maps a state to the pair of the eccentricity and the inclination
  matrix, \<open>expm\<close> is the matrix exponential.
\<close>

record LinearSecularEvolutionOperator =
  ls_dt :: real
  ls_state :: Poincare
  ecc_matrix :: "complex list list"
  inc_matrix :: "complex list list"
  ecc_operator_matrix :: "complex list list"
  inc_operator_matrix :: "complex list list"

definition mat_scale :: "complex \<Rightarrow> complex list list \<Rightarrow> complex list list" where
  "mat_scale c m = map (map (\<lambda>z. c * z)) m"

definition LinearSecularEvolutionOperator_init ::
  "(Poincare \<Rightarrow> complex list list \<times> complex list list) \<Rightarrow>
   (complex list list \<Rightarrow> complex list list) \<Rightarrow> Poincare \<Rightarrow> real \<Rightarrow> LinearSecularEvolutionOperator" where
  "LinearSecularEvolutionOperator_init LL expm initial_state dt =
     (let (Neccentricity_matrix, Ninclination_matrix) = LL initial_state in
      \<lparr>ls_dt = dt, ls_state = initial_state,
       ecc_matrix = Neccentricity_matrix, inc_matrix = Ninclination_matrix,
       ecc_operator_matrix = expm (mat_scale (- \<i> * of_real dt) Neccentricity_matrix),
       inc_operator_matrix = expm (mat_scale (- \<i> * of_real dt) Ninclination_matrix)\<rparr>)"

text \<open>The setter of \<^verbatim>\<open>dt\<close> computes both exponentials again.\<close>

definition LinearSecular_set_dt ::
  "(complex list list \<Rightarrow> complex list list) \<Rightarrow> real \<Rightarrow> LinearSecularEvolutionOperator \<Rightarrow>
   LinearSecularEvolutionOperator" where
  "LinearSecular_set_dt expm val op =
     op\<lparr>ls_dt := val,
        ecc_operator_matrix := expm (mat_scale (- \<i> * of_real val) (ecc_matrix op)),
        inc_operator_matrix := expm (mat_scale (- \<i> * of_real val) (inc_matrix op))\<rparr>"

definition LinearSecular_get_x_vector :: "LinearSecularEvolutionOperator \<Rightarrow> py_error + complex list" where
  "LinearSecular_get_x_vector op =
     bind_err (Poincare_particles_from_1 (ls_state op)) (\<lambda>ps_eta.
     bind_err (Poincare_particles_from_1 (ls_state op)) (\<lambda>ps_kappa.
     bind_err (np_elementwise (-) (map (\<lambda>p. of_real (pp_kappa p)) ps_kappa)
                 (map (\<lambda>p. \<i> * of_real (pp_eta p)) ps_eta)) (\<lambda>d.
       Inr (map (\<lambda>z. z * of_real rt2_inv) d))))"

definition LinearSecular_get_y_vector :: "LinearSecularEvolutionOperator \<Rightarrow> py_error + complex list" where
  "LinearSecular_get_y_vector op =
     bind_err (Poincare_particles_from_1 (ls_state op)) (\<lambda>ps_rho.
     bind_err (Poincare_particles_from_1 (ls_state op)) (\<lambda>ps_sigma.
     bind_err (np_elementwise (-) (map (\<lambda>p. of_real (pp_sigma p)) ps_sigma)
                 (map (\<lambda>p. \<i> * of_real (pp_rho p)) ps_rho)) (\<lambda>d.
       Inr (map (\<lambda>z. z * of_real rt2_inv) d))))"

text \<open>
  The two setters loop over a fresh slice each; they return the particles they assigned to.
\<close>

definition LinearSecular_set_x_vector ::
  "LinearSecularEvolutionOperator \<Rightarrow> complex list \<Rightarrow> py_error + PoincareParticle list" where
  "LinearSecular_set_x_vector op x =
     bind_err (Poincare_particles_from_1 (ls_state op)) (\<lambda>ps.
       Inr (map (\<lambda>(p, xi). pp_set_eta (rt2 * Re (\<i> * xi)) (pp_set_kappa (rt2 * Re xi) p))
              (zip ps x)))"

definition LinearSecular_set_y_vector ::
  "LinearSecularEvolutionOperator \<Rightarrow> complex list \<Rightarrow> py_error + PoincareParticle list" where
  "LinearSecular_set_y_vector op y =
     bind_err (Poincare_particles_from_1 (ls_state op)) (\<lambda>ps.
       Inr (map (\<lambda>(p, yi). pp_set_rho (rt2 * Re (\<i> * yi)) (pp_set_sigma (rt2 * Re yi) p))
              (zip ps y)))"

definition LinearSecular_apply ::
  "LinearSecularEvolutionOperator \<Rightarrow>
   py_error + LinearSecularEvolutionOperator \<times> PoincareParticle list \<times> PoincareParticle list" where
  "LinearSecular_apply op =
     bind_err (LinearSecular_get_x_vector op) (\<lambda>x.
     bind_err (LinearSecular_get_y_vector op) (\<lambda>y.
     bind_err (np_matvec (ecc_operator_matrix op) x) (\<lambda>xnew.
     bind_err (np_matvec (inc_operator_matrix op) y) (\<lambda>ynew.
     bind_err (LinearSecular_set_x_vector op xnew) (\<lambda>assigned_x.
     bind_err (LinearSecular_set_y_vector op ynew) (\<lambda>assigned_y.
       Inr (op, assigned_x, assigned_y)))))))"

definition LinearSecular_apply_to_state_vector ::
  "LinearSecularEvolutionOperator \<Rightarrow> real list \<Rightarrow> py_error + real list" where
  "LinearSecular_apply_to_state_vector op state_vector =
     bind_err (state_vector_to_individual_vectors state_vector) (\<lambda>vecs.
       let x = map (\<lambda>row. (of_real (row ! 0) - \<i> * of_real (row ! 1)) * of_real rt2_inv) vecs;
           y = map (\<lambda>row. (of_real (row ! 4) - \<i> * of_real (row ! 5)) * of_real rt2_inv) vecs
       in
       bind_err (np_matvec (ecc_operator_matrix op) x) (\<lambda>xnew.
       bind_err (np_matvec (inc_operator_matrix op) y) (\<lambda>ynew.
       bind_err (set_column 0 (map (\<lambda>z. rt2 * Re z) xnew) vecs) (\<lambda>vecs0.
       bind_err (set_column 1 (map (\<lambda>z. - 1 * rt2 * Im z) xnew) vecs0) (\<lambda>vecs1.
       bind_err (set_column 4 (map (\<lambda>z. rt2 * Re z) ynew) vecs1) (\<lambda>vecs4.
       bind_err (set_column 5 (map (\<lambda>z. - 1 * rt2 * Im z) ynew) vecs4) (\<lambda>vecs5.
         Inr (concat vecs5))))))))"


subsection \<open>Arrays of two bodies\<close>

text \<open>
  The resonance operators act on an inner and an outer body. Their arrays of shape
  \<open>(2,)\<close> are pairs and their arrays of shape \<open>(2,2)\<close> are pairs of rows.
\<close>

type_synonym vec2 = "real \<times> real"

type_synonym mat2 = "vec2 \<times> vec2"

fun dot2 :: "vec2 \<Rightarrow> vec2 \<Rightarrow> real" where
  "dot2 (a, b) (x, y) = a * x + b * y"

fun matvec2 :: "mat2 \<Rightarrow> vec2 \<Rightarrow> vec2" where
  "matvec2 (r0, r1) v = (dot2 r0 v, dot2 r1 v)"

fun transpose2 :: "mat2 \<Rightarrow> mat2" where
  "transpose2 ((a, b), (c, d)) = ((a, c), (b, d))"

fun diag2 :: "vec2 \<Rightarrow> mat2" where
  "diag2 (a, d) = ((a, 0), (0, d))"

fun sum2 :: "vec2 \<Rightarrow> real" where
  "sum2 (a, b) = a + b"

fun add2 :: "vec2 \<Rightarrow> vec2 \<Rightarrow> vec2" where
  "add2 (a, b) (x, y) = (a + x, b + y)"

fun sub2 :: "vec2 \<Rightarrow> vec2 \<Rightarrow> vec2" where
  "sub2 (a, b) (x, y) = (a - x, b - y)"

fun mul2 :: "vec2 \<Rightarrow> vec2 \<Rightarrow> vec2" where
  "mul2 (a, b) (x, y) = (a * x, b * y)"

fun scale2 :: "real \<Rightarrow> vec2 \<Rightarrow> vec2" where
  "scale2 c (x, y) = (c * x, c * y)"

fun map2v :: "(real \<Rightarrow> real) \<Rightarrow> vec2 \<Rightarrow> vec2" where
  "map2v f (x, y) = (f x, f y)"

text \<open>\<^verbatim>\<open>np.linalg.inv\<close> on a two by two matrix; a singular matrix is a \<^verbatim>\<open>LinAlgError\<close>.\<close>

fun inv2 :: "mat2 \<Rightarrow> py_error + mat2" where
  "inv2 ((a, b), (c, d)) =
     (if a * d - b * c = 0 then Inl LinAlgError
      else Inr ((d / (a * d - b * c), - b / (a * d - b * c)),
                (- c / (a * d - b * c), a / (a * d - b * c))))"

text \<open>
  The map shared by \<^verbatim>\<open>_HKmap\<close> and \<^verbatim>\<open>_RSmap\<close>: with \<open>s2 = sin 2\<theta>\<close> and \<open>c2 = cos 2\<theta>\<close> it
  returns the pair that the source calls \<open>(H1vec, K1vec)\<close>, respectively \<open>(R1vec, S1vec)\<close>.
\<close>

definition hyperbolic_map :: "vec2 \<Rightarrow> vec2 \<Rightarrow> vec2 \<Rightarrow> vec2 \<Rightarrow> real \<Rightarrow> real \<Rightarrow> vec2 \<times> vec2" where
  "hyperbolic_map cosh_lmbda_dt sinh_lmbda_dt Hvec Kvec s c =
     (let s2 = 2 * s * c;
          c2 = c * c - s * s;
          K1vec = add2 (mul2 cosh_lmbda_dt Kvec)
                    (mul2 sinh_lmbda_dt (add2 (scale2 s2 Kvec) (scale2 c2 Hvec)));
          H1vec = add2 (mul2 cosh_lmbda_dt Hvec)
                    (mul2 sinh_lmbda_dt (sub2 (scale2 c2 Kvec) (scale2 s2 Hvec)))
      in (H1vec, K1vec))"

subsection \<open>\<^verbatim>\<open>LinearEccentricityResonancOperator\<close>\<close>

text \<open>
  \<^verbatim>\<open>np.linalg.eigh\<close> is a parameter \<open>eigh\<close> of the constructor: it maps the matrix to its
  eigenvalues and the matrix of eigenvectors. The operator keeps the two particles that
  \<^verbatim>\<open>self.particles[indexIn]\<close> and \<^verbatim>\<open>self.particles[indexOut]\<close> built at construction;
  \<^verbatim>\<open>apply\<close> reads and assigns these two objects.
\<close>

record LinearEccentricityResonancOperator =
  er_dt :: real
  er_state :: Poincare
  er_A :: mat2
  er_Ainv :: mat2
  er_b :: vec2
  er_Ainv_dot_b :: vec2
  er_T :: mat2
  er_Ttr :: mat2
  er_D :: mat2
  er_eigs :: vec2
  er_cosh_lmbda_dt :: vec2
  er_sinh_lmbda_dt :: vec2
  er_indexIn :: int
  er_indexOut :: int
  er_particleIn :: PoincareParticle
  er_particleOut :: PoincareParticle
  er_res_vec :: vec2
  er_Lambdas_vec :: vec2
  er_Lambdas_Mtrx :: mat2

definition LinearEccentricityResonancOperator_init ::
  "(mat2 \<Rightarrow> vec2 \<times> mat2) \<Rightarrow> Poincare \<Rightarrow> int \<Rightarrow> int \<Rightarrow> vec2 \<Rightarrow> mat2 \<Rightarrow> vec2 \<Rightarrow> real \<Rightarrow>
   py_error + LinearEccentricityResonancOperator" where
  "LinearEccentricityResonancOperator_init eigh initial_state indexIn indexOut res_vec A b dt =
     bind_err (inv2 A) (\<lambda>Ainv.
       let (vals, T) = eigh A in
       bind_err (Poincare_getitem initial_state indexIn) (\<lambda>particleIn.
       bind_err (Poincare_getitem initial_state indexOut) (\<lambda>particleOut.
         let Lambdas_vec = (- 1 * snd res_vec, fst res_vec) in
         bind_err (inv2 (Lambdas_vec, (1, 1))) (\<lambda>Lambdas_Mtrx.
           Inr \<lparr>er_dt = dt, er_state = initial_state, er_A = A, er_Ainv = Ainv, er_b = b,
                er_Ainv_dot_b = matvec2 Ainv b, er_T = T, er_Ttr = transpose2 T,
                er_D = diag2 vals, er_eigs = vals,
                er_cosh_lmbda_dt = map2v cosh (scale2 dt vals),
                er_sinh_lmbda_dt = map2v sinh (scale2 dt vals),
                er_indexIn = indexIn, er_indexOut = indexOut,
                er_particleIn = particleIn, er_particleOut = particleOut,
                er_res_vec = res_vec, er_Lambdas_vec = Lambdas_vec,
                er_Lambdas_Mtrx = Lambdas_Mtrx\<rparr>))))"

definition er_set_dt :: "real \<Rightarrow> LinearEccentricityResonancOperator \<Rightarrow> LinearEccentricityResonancOperator" where
  "er_set_dt val op =
     op\<lparr>er_dt := val,
        er_cosh_lmbda_dt := map2v cosh (scale2 val (er_eigs op)),
        er_sinh_lmbda_dt := map2v sinh (scale2 val (er_eigs op))\<rparr>"

definition er_get_eta_vec :: "LinearEccentricityResonancOperator \<Rightarrow> vec2" where
  "er_get_eta_vec op = (pp_eta (er_particleIn op), pp_eta (er_particleOut op))"

definition er_get_kappa_vec :: "LinearEccentricityResonancOperator \<Rightarrow> vec2" where
  "er_get_kappa_vec op = (pp_kappa (er_particleIn op), pp_kappa (er_particleOut op))"

definition er_get_theta :: "LinearEccentricityResonancOperator \<Rightarrow> real" where
  "er_get_theta op = dot2 (er_res_vec op) (pp_l (er_particleIn op), pp_l (er_particleOut op))"

definition er_get_Lambdas :: "LinearEccentricityResonancOperator \<Rightarrow> vec2" where
  "er_get_Lambdas op = (pp_Lambda (er_particleIn op), pp_Lambda (er_particleOut op))"

definition er_get_Gammas :: "LinearEccentricityResonancOperator \<Rightarrow> vec2" where
  "er_get_Gammas op = (pp_Gamma (er_particleIn op), pp_Gamma (er_particleOut op))"

definition er_set_eta_vec :: "vec2 \<Rightarrow> LinearEccentricityResonancOperator \<Rightarrow> LinearEccentricityResonancOperator" where
  "er_set_eta_vec eta_vec op =
     op\<lparr>er_particleIn := pp_set_eta (fst eta_vec) (er_particleIn op),
        er_particleOut := pp_set_eta (snd eta_vec) (er_particleOut op)\<rparr>"

definition er_set_kappa_vec :: "vec2 \<Rightarrow> LinearEccentricityResonancOperator \<Rightarrow> LinearEccentricityResonancOperator" where
  "er_set_kappa_vec kappa_vec op =
     op\<lparr>er_particleIn := pp_set_kappa (fst kappa_vec) (er_particleIn op),
        er_particleOut := pp_set_kappa (snd kappa_vec) (er_particleOut op)\<rparr>"

definition er_get_HK_vecs :: "LinearEccentricityResonancOperator \<Rightarrow> real \<Rightarrow> real \<Rightarrow> vec2 \<times> vec2" where
  "er_get_HK_vecs op s c =
     (let eta = er_get_eta_vec op;
          kappa = er_get_kappa_vec op;
          H = matvec2 (er_Ttr op) (sub2 eta (scale2 s (scale2 (0.5 * rt2) (er_Ainv_dot_b op))));
          K = matvec2 (er_Ttr op) (add2 kappa (scale2 c (scale2 (0.5 * rt2) (er_Ainv_dot_b op))))
      in (H, K))"

definition er_HK_to_etakappa ::
  "LinearEccentricityResonancOperator \<Rightarrow> vec2 \<Rightarrow> vec2 \<Rightarrow> real \<Rightarrow> real \<Rightarrow> vec2 \<times> vec2" where
  "er_HK_to_etakappa op H K s c =
     (let h = add2 (matvec2 (er_T op) H) (scale2 s (scale2 (0.5 * rt2) (er_Ainv_dot_b op)));
          k = sub2 (matvec2 (er_T op) K) (scale2 c (scale2 (0.5 * rt2) (er_Ainv_dot_b op)))
      in (h, k))"

definition er_HKmap ::
  "LinearEccentricityResonancOperator \<Rightarrow> vec2 \<Rightarrow> vec2 \<Rightarrow> real \<Rightarrow> real \<Rightarrow> vec2 \<times> vec2" where
  "er_HKmap op Hvec Kvec s c =
     hyperbolic_map (er_cosh_lmbda_dt op) (er_sinh_lmbda_dt op) Hvec Kvec s c"

definition er_advance_eccentricity_variables ::
  "LinearEccentricityResonancOperator \<Rightarrow> LinearEccentricityResonancOperator" where
  "er_advance_eccentricity_variables op =
     (let theta = er_get_theta op;
          s = sin theta; c = cos theta;
          (H, K) = er_get_HK_vecs op s c;
          (H1, K1) = er_HKmap op H K s c;
          (eta1, kappa1) = er_HK_to_etakappa op H1 K1 s c
      in er_set_kappa_vec kappa1 (er_set_eta_vec eta1 op))"

definition er_set_Lambdas :: "vec2 \<Rightarrow> LinearEccentricityResonancOperator \<Rightarrow> LinearEccentricityResonancOperator" where
  "er_set_Lambdas Lambdas op =
     op\<lparr>er_particleIn := pp_set_Lambda (fst Lambdas) (er_particleIn op),
        er_particleOut := pp_set_Lambda (snd Lambdas) (er_particleOut op)\<rparr>"

definition er_apply :: "LinearEccentricityResonancOperator \<Rightarrow> LinearEccentricityResonancOperator" where
  "er_apply op =
     (let Lambdas = er_get_Lambdas op;
          Gammas0 = er_get_Gammas op;
          C1 = dot2 (er_Lambdas_vec op) Lambdas;
          C2 = sum2 Lambdas - sum2 Gammas0;
          op1 = er_advance_eccentricity_variables op;
          Gammas1 = er_get_Gammas op1;
          Lambdas1 = matvec2 (er_Lambdas_Mtrx op1) (C1, C2 + sum2 Gammas1)
      in er_set_Lambdas Lambdas1 op1)"

subsection \<open>\<^verbatim>\<open>LinearInclinationResonancOperator\<close>\<close>

record LinearInclinationResonancOperator =
  ir_dt :: real
  ir_state :: Poincare
  ir_A :: mat2
  ir_Ainv :: mat2
  ir_T :: mat2
  ir_Ttr :: mat2
  ir_D :: mat2
  ir_eigs :: vec2
  ir_cosh_lmbda_dt :: vec2
  ir_sinh_lmbda_dt :: vec2
  ir_indexIn :: int
  ir_indexOut :: int
  ir_particleIn :: PoincareParticle
  ir_particleOut :: PoincareParticle
  ir_res_vec :: vec2
  ir_Lambdas_vec :: vec2
  ir_Lambdas_Mtrx :: mat2

definition LinearInclinationResonancOperator_init ::
  "(mat2 \<Rightarrow> vec2 \<times> mat2) \<Rightarrow> Poincare \<Rightarrow> int \<Rightarrow> int \<Rightarrow> vec2 \<Rightarrow> mat2 \<Rightarrow> real \<Rightarrow>
   py_error + LinearInclinationResonancOperator" where
  "LinearInclinationResonancOperator_init eigh initial_state indexIn indexOut res_vec A dt =
     bind_err (inv2 A) (\<lambda>Ainv.
       let (vals, T) = eigh A in
       bind_err (Poincare_getitem initial_state indexIn) (\<lambda>particleIn.
       bind_err (Poincare_getitem initial_state indexOut) (\<lambda>particleOut.
         let Lambdas_vec = (- 1 * snd res_vec, fst res_vec) in
         bind_err (inv2 (Lambdas_vec, (1, 1))) (\<lambda>Lambdas_Mtrx.
           Inr \<lparr>ir_dt = dt, ir_state = initial_state, ir_A = A, ir_Ainv = Ainv,
                ir_T = T, ir_Ttr = transpose2 T, ir_D = diag2 vals, ir_eigs = vals,
                ir_cosh_lmbda_dt = map2v cosh (scale2 dt vals),
                ir_sinh_lmbda_dt = map2v sinh (scale2 dt vals),
                ir_indexIn = indexIn, ir_indexOut = indexOut,
                ir_particleIn = particleIn, ir_particleOut = particleOut,
                ir_res_vec = res_vec, ir_Lambdas_vec = Lambdas_vec,
                ir_Lambdas_Mtrx = Lambdas_Mtrx\<rparr>))))"

definition ir_set_dt :: "real \<Rightarrow> LinearInclinationResonancOperator \<Rightarrow> LinearInclinationResonancOperator" where
  "ir_set_dt val op =
     op\<lparr>ir_dt := val,
        ir_cosh_lmbda_dt := map2v cosh (scale2 val (ir_eigs op)),
        ir_sinh_lmbda_dt := map2v sinh (scale2 val (ir_eigs op))\<rparr>"

definition ir_get_rho_vec :: "LinearInclinationResonancOperator \<Rightarrow> vec2" where
  "ir_get_rho_vec op = (pp_rho (ir_particleIn op), pp_rho (ir_particleOut op))"

definition ir_get_sigma_vec :: "LinearInclinationResonancOperator \<Rightarrow> vec2" where
  "ir_get_sigma_vec op = (pp_sigma (ir_particleIn op), pp_sigma (ir_particleOut op))"

definition ir_get_theta :: "LinearInclinationResonancOperator \<Rightarrow> real" where
  "ir_get_theta op = dot2 (ir_res_vec op) (pp_l (ir_particleIn op), pp_l (ir_particleOut op))"

definition ir_get_Lambdas :: "LinearInclinationResonancOperator \<Rightarrow> vec2" where
  "ir_get_Lambdas op = (pp_Lambda (ir_particleIn op), pp_Lambda (ir_particleOut op))"

definition ir_get_Qs :: "LinearInclinationResonancOperator \<Rightarrow> vec2" where
  "ir_get_Qs op = (pp_Q (ir_particleIn op), pp_Q (ir_particleOut op))"

definition ir_set_rho_vec :: "vec2 \<Rightarrow> LinearInclinationResonancOperator \<Rightarrow> LinearInclinationResonancOperator" where
  "ir_set_rho_vec rho_vec op =
     op\<lparr>ir_particleIn := pp_set_rho (fst rho_vec) (ir_particleIn op),
        ir_particleOut := pp_set_rho (snd rho_vec) (ir_particleOut op)\<rparr>"

definition ir_set_sigma_vec :: "vec2 \<Rightarrow> LinearInclinationResonancOperator \<Rightarrow> LinearInclinationResonancOperator" where
  "ir_set_sigma_vec sigma_vec op =
     op\<lparr>ir_particleIn := pp_set_sigma (fst sigma_vec) (ir_particleIn op),
        ir_particleOut := pp_set_sigma (snd sigma_vec) (ir_particleOut op)\<rparr>"

definition ir_get_RS_vecs :: "LinearInclinationResonancOperator \<Rightarrow> real \<Rightarrow> real \<Rightarrow> vec2 \<times> vec2" where
  "ir_get_RS_vecs op s c =
     (let rho = ir_get_rho_vec op;
          sigma = ir_get_sigma_vec op;
          R = matvec2 (ir_Ttr op) rho;
          S = matvec2 (ir_Ttr op) sigma
      in (R, S))"

definition ir_RS_to_rhosigma :: "LinearInclinationResonancOperator \<Rightarrow> vec2 \<Rightarrow> vec2 \<Rightarrow> vec2 \<times> vec2" where
  "ir_RS_to_rhosigma op R S = (matvec2 (ir_T op) R, matvec2 (ir_T op) S)"

definition ir_RSmap ::
  "LinearInclinationResonancOperator \<Rightarrow> vec2 \<Rightarrow> vec2 \<Rightarrow> real \<Rightarrow> real \<Rightarrow> vec2 \<times> vec2" where
  "ir_RSmap op Rvec Svec s c =
     hyperbolic_map (ir_cosh_lmbda_dt op) (ir_sinh_lmbda_dt op) Rvec Svec s c"

definition ir_advance_inclination_variables ::
  "LinearInclinationResonancOperator \<Rightarrow> LinearInclinationResonancOperator" where
  "ir_advance_inclination_variables op =
     (let theta = ir_get_theta op;
          s = sin theta; c = cos theta;
          (R, S) = ir_get_RS_vecs op s c;
          (R1, S1) = ir_RSmap op R S s c;
          (rho1, sigma1) = ir_RS_to_rhosigma op R1 S1
      in ir_set_sigma_vec sigma1 (ir_set_rho_vec rho1 op))"

definition ir_set_Lambdas :: "vec2 \<Rightarrow> LinearInclinationResonancOperator \<Rightarrow> LinearInclinationResonancOperator" where
  "ir_set_Lambdas Lambdas op =
     op\<lparr>ir_particleIn := pp_set_Lambda (fst Lambdas) (ir_particleIn op),
        ir_particleOut := pp_set_Lambda (snd Lambdas) (ir_particleOut op)\<rparr>"

definition ir_apply :: "LinearInclinationResonancOperator \<Rightarrow> LinearInclinationResonancOperator" where
  "ir_apply op =
     (let Lambdas = ir_get_Lambdas op;
          Qs0 = ir_get_Qs op;
          C1 = dot2 (ir_Lambdas_vec op) Lambdas;
          C2 = sum2 Lambdas - sum2 Qs0;
          op1 = ir_advance_inclination_variables op;
          Qs1 = ir_get_Qs op1;
          Lambdas1 = matvec2 (ir_Lambdas_Mtrx op1) (C1, C2 + sum2 Qs1)
      in ir_set_Lambdas Lambdas1 op1)"


subsection \<open>The resonance operators on a state vector\<close>

text \<open>
  The position that an index selects in an array of \<open>n\<close> rows; the pair
  \<^verbatim>\<open>self.indices\<close> is \<open>(indexIn - 1, indexOut - 1)\<close>.
\<close>

definition py_position :: "nat \<Rightarrow> int \<Rightarrow> py_error + nat" where
  "py_position n i =
     (if 0 \<le> i \<and> i < int n then Inr (nat i)
      else if i < 0 \<and> - int n \<le> i then Inr (nat (int n + i))
      else Inl IndexError)"

text \<open>
  \<^verbatim>\<open>vecs[self.indices,k]\<close> as a value, and the assignment to it, which writes the row
  of the inner body first.
\<close>

definition take_pair :: "real list list \<Rightarrow> nat \<times> nat \<Rightarrow> nat \<Rightarrow> vec2" where
  "take_pair vecs idx k = (vecs ! fst idx ! k, vecs ! snd idx ! k)"

definition put_pair :: "real list list \<Rightarrow> nat \<times> nat \<Rightarrow> nat \<Rightarrow> vec2 \<Rightarrow> real list list" where
  "put_pair vecs idx k v =
     (let vecs1 = vecs[fst idx := (vecs ! fst idx)[k := fst v]]
      in vecs1[snd idx := (vecs1 ! snd idx)[k := snd v]])"

definition er_apply_to_state_vector ::
  "LinearEccentricityResonancOperator \<Rightarrow> real list \<Rightarrow> py_error + real list" where
  "er_apply_to_state_vector op state_vector =
     bind_err (state_vector_to_individual_vectors state_vector) (\<lambda>vecs.
     bind_err (py_position (length vecs) (er_indexIn op - 1)) (\<lambda>nIn.
     bind_err (py_position (length vecs) (er_indexOut op - 1)) (\<lambda>nOut.
       let indices = (nIn, nOut);
           Lambdas = take_pair vecs indices 2;
           lambdas = take_pair vecs indices 3;
           theta = dot2 (er_res_vec op) lambdas;
           kappa = take_pair vecs indices 0;
           eta = take_pair vecs indices 1;
           Gammas0 = scale2 0.5 (add2 (mul2 kappa kappa) (mul2 eta eta));
           C1 = dot2 (er_Lambdas_vec op) Lambdas;
           C2 = sum2 Lambdas - sum2 Gammas0;
           s = sin theta; c = cos theta;
           H = matvec2 (er_Ttr op) (sub2 eta (scale2 s (scale2 (0.5 * rt2) (er_Ainv_dot_b op))));
           K = matvec2 (er_Ttr op) (add2 kappa (scale2 c (scale2 (0.5 * rt2) (er_Ainv_dot_b op))));
           (H1, K1) = er_HKmap op H K s c;
           (eta1, kappa1) = er_HK_to_etakappa op H1 K1 s c;
           vecs0 = put_pair vecs indices 0 kappa1;
           vecs1 = put_pair vecs0 indices 1 eta1;
           Gammas1 = scale2 0.5 (add2 (mul2 kappa1 kappa1) (mul2 eta1 eta1));
           Lambdas1 = matvec2 (er_Lambdas_Mtrx op) (C1, C2 + sum2 Gammas1);
           vecs2 = put_pair vecs1 indices 2 Lambdas1
       in Inr (concat vecs2))))"

definition ir_apply_to_state_vector ::
  "LinearInclinationResonancOperator \<Rightarrow> real list \<Rightarrow> py_error + real list" where
  "ir_apply_to_state_vector op state_vector =
     bind_err (state_vector_to_individual_vectors state_vector) (\<lambda>vecs.
     bind_err (py_position (length vecs) (ir_indexIn op - 1)) (\<lambda>nIn.
     bind_err (py_position (length vecs) (ir_indexOut op - 1)) (\<lambda>nOut.
       let indices = (nIn, nOut);
           Lambdas = take_pair vecs indices 2;
           lambdas = take_pair vecs indices 3;
           sigma = take_pair vecs indices 4;
           rho = take_pair vecs indices 5;
           Qs0 = scale2 0.5 (add2 (mul2 rho rho) (mul2 sigma sigma));
           C1 = dot2 (ir_Lambdas_vec op) Lambdas;
           C2 = sum2 Lambdas - sum2 Qs0;
           theta = dot2 (ir_res_vec op) lambdas;
           s = sin theta; c = cos theta;
           R = matvec2 (ir_Ttr op) rho;
           S = matvec2 (ir_Ttr op) sigma;
           (R1, S1) = ir_RSmap op R S s c;
           (rho1, sigma1) = ir_RS_to_rhosigma op R1 S1;
           vecs4 = put_pair vecs indices 4 sigma1;
           vecs5 = put_pair vecs4 indices 5 rho1;
           Qs1 = scale2 0.5 (add2 (mul2 rho1 rho1) (mul2 sigma1 sigma1));
           Lambdas1 = matvec2 (ir_Lambdas_Mtrx op) (C1, C2 + sum2 Qs1);
           vecs2 = put_pair vecs5 indices 2 Lambdas1
       in Inr (concat vecs2))))"


section \<open>Properties of \<^verbatim>\<open>get_re_im_components\<close>\<close>

lemma np_sign_sgn: "np_sign k = sgn k"
  by (simp add: np_sign_def sgn_if)

text \<open>The powers of the imaginary unit, split by the parity of the exponent.\<close>

lemma imaginary_unit_power_even: "\<i> ^ (2 * m) = (- 1) ^ m"
  by (simp add: power_mult)

lemma imaginary_unit_power_odd: "\<i> ^ Suc (2 * m) = \<i> * (- 1) ^ m"
  by (simp add: power_mult)

lemma imaginary_power_times_even:
  "(\<i> * of_real w) ^ (2 * m) = (- 1) ^ m * of_real (w ^ (2 * m))"
  by (simp only: power_mult_distrib imaginary_unit_power_even of_real_power)

lemma imaginary_power_times_odd:
  "(\<i> * of_real w) ^ Suc (2 * m) = \<i> * (- 1) ^ m * of_real (w ^ Suc (2 * m))"
  by (simp only: power_mult_distrib imaginary_unit_power_odd of_real_power)

text \<open>
  On a floating argument each round adds the \<open>l\<close>-th term of the binomial expansion of
  \<open>(x + \<i> (sgnk y)) ^ absk\<close> to the complex number \<open>re + \<i> im\<close>.
\<close>

definition binomial_term :: "nat \<Rightarrow> real \<Rightarrow> real \<Rightarrow> real \<Rightarrow> nat \<Rightarrow> complex" where
  "binomial_term absk sgnk x y l =
     of_nat (absk choose l) * (\<i> * of_real (sgnk * y)) ^ l * of_real x ^ (absk - l)"

definition as_complex :: "real \<times> real \<Rightarrow> complex" where
  "as_complex p = Complex (fst p) (snd p)"

lemma as_complex_add_re: "as_complex (re + d, im) = as_complex (re, im) + of_real d"
  by (simp add: as_complex_def complex_eq_iff)

lemma as_complex_add_im: "as_complex (re, im + d) = as_complex (re, im) + \<i> * of_real d"
  by (simp add: as_complex_def complex_eq_iff)

lemma binomial_term_even:
  assumes "l mod 2 = 0"
  shows "binomial_term absk sgnk x y l =
         of_real (real (absk choose l) * (sgnk * y) ^ l * x ^ (absk - l) * (- 1) ^ (l div 2))"
proof -
  from assms obtain m where m: "l = 2 * m" by (metis mod_0_imp_dvd dvdE)
  have "(\<i> * of_real (sgnk * y)) ^ l = (- 1) ^ m * of_real ((sgnk * y) ^ l)"
    by (simp only: imaginary_power_times_even m)
  moreover have "l div 2 = m"
    using m by simp
  ultimately show ?thesis
    by (simp add: binomial_term_def)
qed

lemma binomial_term_odd:
  assumes "l mod 2 \<noteq> 0"
  shows "binomial_term absk sgnk x y l =
         \<i> * of_real (real (absk choose l) * (sgnk * y) ^ l * x ^ (absk - l) * (- 1) ^ ((l - 1) div 2))"
proof -
  from assms have "odd l" by presburger
  then obtain m where m: "l = Suc (2 * m)" by (auto elim: oddE)
  have "(\<i> * of_real (sgnk * y)) ^ l = \<i> * (- 1) ^ m * of_real ((sgnk * y) ^ l)"
    by (simp only: imaginary_power_times_odd m)
  moreover have "(l - 1) div 2 = m"
    using m by simp
  ultimately show ?thesis
    by (simp add: binomial_term_def)
qed

lemma re_im_step_adds_term:
  "as_complex (re_im_step absk sgnk x (Floating y) acc l) =
   as_complex acc + binomial_term absk (real_of_int sgnk) x y l"
proof (cases acc)
  case (Pair re im)
  show ?thesis
  proof (cases "l mod 2 = 0")
    case True
    then show ?thesis
      unfolding Pair by (simp add: Let_def as_complex_add_re binomial_term_even)
  next
    case False
    then show ?thesis
      unfolding Pair by (simp add: Let_def as_complex_add_im binomial_term_odd)
  qed
qed

lemma re_im_loop_sum:
  "as_complex (foldl (re_im_step absk sgnk x (Floating y)) acc ls) =
   as_complex acc + (\<Sum>l\<leftarrow>ls. binomial_term absk (real_of_int sgnk) x y l)"
  by (induction ls arbitrary: acc) (simp_all add: re_im_step_adds_term add.assoc)

lemma binomial_terms_total:
  "(\<Sum>l\<leftarrow>[0..<n + 1]. binomial_term n sgnk x y l) = (of_real x + \<i> * of_real (sgnk * y)) ^ n"
proof -
  have "(\<Sum>l\<leftarrow>[0..<n + 1]. binomial_term n sgnk x y l) = (\<Sum>l\<le>n. binomial_term n sgnk x y l)"
    by (simp only: interv_sum_list_conv_sum_set_nat Suc_eq_plus1 [symmetric] set_upt
        atLeastLessThanSuc_atLeastAtMost atLeast0AtMost)
  also have "\<dots> = (\<i> * of_real (sgnk * y) + of_real x) ^ n"
    unfolding binomial_term_def by (rule binomial_ring [symmetric])
  finally show ?thesis by (simp add: add.commute)
qed

lemma get_re_im_components_floating:
  "Complex (fst (get_re_im_components x (Floating y) k)) (snd (get_re_im_components x (Floating y) k)) =
     (Complex x (real_of_int (sgn k) * y)) ^ nat \<bar>k\<bar>"
proof (cases "k = 0")
  case True
  then show ?thesis
    by (simp add: get_re_im_components_def one_complex.code)
next
  case False
  have zero: "as_complex (0, 0) = 0"
    by (simp add: as_complex_def zero_complex.code)
  have "get_re_im_components x (Floating y) k =
        foldl (re_im_step (nat \<bar>k\<bar>) (np_sign k) x (Floating y)) (0, 0) [0..<nat \<bar>k\<bar> + 1]"
    using False by (simp add: get_re_im_components_def Let_def del: upt_Suc)
  then have "as_complex (get_re_im_components x (Floating y) k) =
        (of_real x + \<i> * of_real (real_of_int (np_sign k) * y)) ^ nat \<bar>k\<bar>"
    by (simp only: re_im_loop_sum binomial_terms_total zero add_0_left)
  also have "of_real x + \<i> * of_real (real_of_int (np_sign k) * y) =
             Complex x (real_of_int (sgn k) * y)"
    by (simp add: np_sign_sgn complex_eq_iff)
  finally show ?thesis by (simp add: as_complex_def)
qed

text \<open>
  On an integer argument the powers are those of 64-bit words. As long as \<open>|y| ^ |k|\<close>
  stays below \<open>2 ^ 63\<close> no power wraps around, and the function returns what it returns
  on the floating argument of the same value.
\<close>

lemma sint_small:
  fixes z :: int
  assumes "\<bar>z\<bar> < 2 ^ 63"
  shows "sint (word_of_int z :: 64 word) = z"
proof -
  have "- (2 ^ 63) \<le> z" "z < 2 ^ 63" using assms by linarith+
  then have "signed_take_bit 63 z = z"
    by (rule signed_take_bit_int_eq_self)
  then show ?thesis
    by (simp only: sint_sbintrunc') simp
qed

lemma int64_power_of_int:
  fixes y :: "64 word"
  shows "(word_of_int s * y) ^ l = (word_of_int ((s * sint y) ^ l) :: 64 word)"
proof -
  have y: "word_of_int (sint y) = y" by simp
  have "(word_of_int ((s * sint y) ^ l) :: 64 word) = (word_of_int s * word_of_int (sint y)) ^ l"
    by (simp only: wi_hom_mult word_of_int_power_hom)
  then show ?thesis
    by (simp only: y)
qed

lemma sign_times_power_small:
  fixes y :: "64 word"
  assumes s: "\<bar>s\<bar> = 1" and small: "\<bar>sint y\<bar> ^ n < 2 ^ 63" and l: "l \<le> n"
  shows "sign_times_power s (Int64 y) l = sign_times_power s (Floating (real_of_int (sint y))) l"
proof -
  have "\<bar>(s * sint y) ^ l\<bar> = \<bar>sint y\<bar> ^ l"
    using s by (simp only: power_abs abs_mult mult_1)
  also have "\<dots> < 2 ^ 63"
  proof (cases "sint y = 0")
    case True
    have "(0::int) ^ l \<le> 1" by (cases l) simp_all
    then show ?thesis unfolding True by simp
  next
    case False
    then have "1 \<le> \<bar>sint y\<bar>" by linarith
    then have "\<bar>sint y\<bar> ^ l \<le> \<bar>sint y\<bar> ^ n" using l by (intro power_increasing)
    then show ?thesis using small by linarith
  qed
  finally have "sint (word_of_int ((s * sint y) ^ l) :: 64 word) = (s * sint y) ^ l"
    by (rule sint_small)
  then have "sint ((word_of_int s * y) ^ l) = (s * sint y) ^ l"
    by (simp only: int64_power_of_int)
  then show ?thesis
    by (simp only: sign_times_power.simps of_int_power of_int_mult)
qed

lemma get_re_im_components_int64_small:
  fixes y :: "64 word"
  assumes "\<bar>sint y\<bar> ^ nat \<bar>k\<bar> < 2 ^ 63"
  shows "get_re_im_components x (Int64 y) k =
         get_re_im_components x (Floating (real_of_int (sint y))) k"
proof (cases "k = 0")
  case True
  then show ?thesis by (simp add: get_re_im_components_def)
next
  case False
  then have s: "\<bar>np_sign k\<bar> = 1"
    by (simp add: np_sign_def)
  have "foldl (re_im_step (nat \<bar>k\<bar>) (np_sign k) x (Int64 y)) (0, 0) [0..<nat \<bar>k\<bar> + 1] =
        foldl (re_im_step (nat \<bar>k\<bar>) (np_sign k) x (Floating (real_of_int (sint y)))) (0, 0)
          [0..<nat \<bar>k\<bar> + 1]"
  proof (rule foldl_cong [OF refl refl])
    fix acc :: "real \<times> real" and l
    assume "l \<in> set [0..<nat \<bar>k\<bar> + 1]"
    then have l: "l \<le> nat \<bar>k\<bar>" by auto
    obtain re im where acc: "acc = (re, im)" by (cases acc)
    show "re_im_step (nat \<bar>k\<bar>) (np_sign k) x (Int64 y) acc l =
          re_im_step (nat \<bar>k\<bar>) (np_sign k) x (Floating (real_of_int (sint y))) acc l"
      unfolding acc re_im_step.simps
      by (simp only: sign_times_power_small [OF s assms l])
  qed
  then show ?thesis
    using False by (simp only: get_re_im_components_def if_False Let_def)
qed

text \<open>
  The powers of \<open>10\<^sup>1\<^sup>0\<close> in 64 bits: the square, \<open>10\<^sup>2\<^sup>0\<close>, is beyond \<open>2\<^sup>6\<^sup>3\<close> and wraps around.
\<close>

lemma int64_powers:
  "sint ((word_of_int 1 * 10000000000 :: 64 word) ^ 0) = 1"
  "sint ((word_of_int 1 * 10000000000 :: 64 word) ^ 1) = 10000000000"
  "sint ((word_of_int 1 * 10000000000 :: 64 word) ^ 2) = 7766279631452241920"
  by code_simp+

text \<open>
  C6. The pair returned is to be the real and the imaginary part of
  \<open>(x + sign(k) \<i> y) ^ |k|\<close>, for all inputs. The function does return them when \<open>y\<close> is a
  float or a sympy expression, and \<open>(1, 0)\<close> for \<open>k = 0\<close> whatever \<open>y\<close> is. When \<open>y\<close> is a
  Python integer, \<^verbatim>\<open>np.sign(k)\<close> turns the powers of \<open>y\<close> into powers of 64-bit integers:
  \<^verbatim>\<open>get_re_im_components(1, 10**10, 2)\<close> returns
  \<open>(-7766279631452241919, 20000000000)\<close>, while \<open>(1 + 10\<^sup>1\<^sup>0 \<i>)\<^sup>2\<close> has the real part
  \<open>1 - 10\<^sup>2\<^sup>0\<close>.
\<close>

theorem get_re_im_components_failing_input:
  "get_re_im_components 1 (Int64 10000000000) 2 = (- 7766279631452241919, 20000000000)
   \<and> (Complex 1 (real_of_int (sgn 2) * 10000000000)) ^ nat \<bar>2\<bar>
       = Complex (- 99999999999999999999) 20000000000
   \<and> Complex (fst (get_re_im_components x (Floating y) k))
              (snd (get_re_im_components x (Floating y) k))
       = (Complex x (real_of_int (sgn k) * y)) ^ nat \<bar>k\<bar>
   \<and> get_re_im_components x arg 0 = (1, 0)"
proof -
  have nats: "nat \<bar>2\<bar> = 2"
    by simp
  have range: "[0..<2 + 1] = [0, 1, 2::nat]"
    by (simp add: upt_rec)
  have "get_re_im_components 1 (Int64 10000000000) 2 =
        foldl (re_im_step 2 1 1 (Int64 10000000000)) (0, 0) [0, 1, 2]"
    unfolding get_re_im_components_def np_sign_def Let_def nats range by simp
  also have "\<dots> = (- 7766279631452241919, 20000000000)"
    by (simp only: foldl.simps re_im_step.simps sign_times_power.simps int64_powers Let_def)
       (simp add: binomial_eq_0 numeral_2_eq_2)
  finally have code: "get_re_im_components 1 (Int64 10000000000) 2 =
        (- 7766279631452241919, 20000000000)" .
  have spec: "(Complex 1 (real_of_int (sgn 2) * 10000000000)) ^ nat \<bar>2\<bar>
       = Complex (- 99999999999999999999) 20000000000"
    by (simp add: power2_eq_square complex_eq_iff)
  have zero: "get_re_im_components x arg 0 = (1, 0)"
    by (simp add: get_re_im_components_def)
  show ?thesis
    using code spec zero get_re_im_components_floating [of x y k] by (simp only: simp_thms)
qed

section \<open>A system of one planet\<close>

text \<open>
  A planet with \<open>mu = 1\<close> and \<open>M = 4\<close>, so that both physical masses are \<open>2\<close>, on a
  circular orbit; the system built from it with the default coordinate string, and the
  one built with a string that \<^verbatim>\<open>PoincareParticle.__init__\<close> does not accept.
\<close>

definition star_planet :: PoincareParticle where
  "star_planet = \<lparr>pp_coordinates = ''canonical heliocentric'', pp_G = 1, pp_mu = 1, pp_M = 4,
     pp_sLambda = 1, pp_l = 0, pp_skappa = 0, pp_seta = 0, pp_ssigma = 0, pp_srho = 0\<rparr>"

definition odd_system :: Poincare where
  "odd_system = \<lparr>sys_G = 1, masses = [Some 2, Some 2], sys_coordinates = ''barycentric'',
     qpvars = [''lambda1'', ''eta1'', ''rho1'', ''Lambda1'', ''kappa1'', ''sigma1''],
     state_values = [0, 0, 0, 1, 0, 0], sys_t = 0\<rparr>"

definition plain_system :: Poincare where
  "plain_system = \<lparr>sys_G = 1, masses = [Some 2, Some 2], sys_coordinates = ''canonical heliocentric'',
     qpvars = [''lambda1'', ''eta1'', ''rho1'', ''Lambda1'', ''kappa1'', ''sigma1''],
     state_values = [0, 0, 0, 1, 0, 0], sys_t = 0\<rparr>"

lemma star_planet_masses: "pp_Mstar star_planet = Some 2" "pp_m star_planet = Some 2"
  by (simp_all add: star_planet_def pp_Mstar_def pp_m_def mu_M_to_m_Mstar_def)

lemma format_nat_1: "format_nat 1 = ''1''"
  by code_simp

lemma odd_system_built: "Poincare_init 1 [star_planet] ''barycentric'' 0 = Inr odd_system"
  by (simp add: Poincare_init_def star_planet_masses PhaseSpaceState_init_def odd_system_def format_nat_1)
     (simp add: star_planet_def pp_Lambda_def pp_kappa_def pp_sigma_def pp_eta_def pp_rho_def
        digit_char_def)

lemma plain_system_built:
  "Poincare_init 1 [star_planet] ''canonical heliocentric'' 0 = Inr plain_system"
  by (simp add: Poincare_init_def star_planet_masses PhaseSpaceState_init_def plain_system_def
      format_nat_1)
     (simp add: star_planet_def pp_Lambda_def pp_kappa_def pp_sigma_def pp_eta_def pp_rho_def
      digit_char_def)

lemma plain_system_N: "Poincare_N plain_system = 2"
  by (simp add: Poincare_N_def Ndof_def plain_system_def)

lemma plain_system_getitem:
  "Poincare_getitem plain_system 1 =
     Inr \<lparr>pp_coordinates = ''canonical heliocentric'', pp_G = 1, pp_mu = 1, pp_M = 4,
          pp_sLambda = 1, pp_l = 0, pp_skappa = 0, pp_seta = 0, pp_ssigma = 0, pp_srho = 0\<rparr>"
  unfolding Poincare_getitem_def plain_system_N
  by (simp add: Ndof_def py_index_def bind_err_def Let_def PoincareParticle_init_def
      init_masses_def default_kwargs_def plain_system_def div_by_mu_def)

lemma plain_system_particles:
  "Poincare_particles_from_1 plain_system =
     Inr [\<lparr>pp_coordinates = ''canonical heliocentric'', pp_G = 1, pp_mu = 1, pp_M = 4,
           pp_sLambda = 1, pp_l = 0, pp_skappa = 0, pp_seta = 0, pp_ssigma = 0, pp_srho = 0\<rparr>]"
  by (simp add: Poincare_particles_from_1_def plain_system_N upt_rec plain_system_getitem)

section \<open>The canonical pairs and their actions\<close>

lemma sqrt_sq_nonneg: "0 \<le> m \<Longrightarrow> (sqrt m * v)\<^sup>2 = m * v\<^sup>2"
  by (simp add: power_mult_distrib)

text \<open>
  C8 (amended). For every particle with a non-negative canonical mass,
  \<open>kappa\<^sup>2 + eta\<^sup>2 = 2 Gamma\<close> and \<open>sigma\<^sup>2 + rho\<^sup>2 = 2 Q\<close>: the massive variables carry
  a factor \<open>sqrt mu\<close> and the actions a factor \<open>mu\<close>, so no further factor \<open>mu\<close> appears.
\<close>

theorem canonical_pair_norms:
  assumes "0 \<le> pp_mu p"
  shows "(pp_kappa p)\<^sup>2 + (pp_eta p)\<^sup>2 = 2 * pp_Gamma p
       \<and> (pp_sigma p)\<^sup>2 + (pp_rho p)\<^sup>2 = 2 * pp_Q p"
  using assms
  by (simp add: pp_kappa_def pp_eta_def pp_sigma_def pp_rho_def pp_Gamma_def pp_Q_def
      sqrt_sq_nonneg distrib_left)

text \<open>
  With \<open>mu = 2\<close> and \<open>skappa = ssigma = 1\<close> the left-hand sides are \<open>2\<close> and
  \<open>2 mu Gamma = 2 mu Q = 4\<close>.
\<close>

definition heavy_kwargs :: pp_kwargs where
  "heavy_kwargs = default_kwargs\<lparr>kw_mu := Some 2, kw_M := Some 1, kw_sLambda := Some 1,
     kw_l := Some 0, kw_skappa := Some 1, kw_seta := Some 0, kw_ssigma := Some 1, kw_srho := Some 0\<rparr>"

definition heavy_particle :: PoincareParticle where
  "heavy_particle = \<lparr>pp_coordinates = ''canonical heliocentric'', pp_G = 1, pp_mu = 2, pp_M = 1,
     pp_sLambda = 1, pp_l = 0, pp_skappa = 1, pp_seta = 0, pp_ssigma = 1, pp_srho = 0\<rparr>"

theorem canonical_pair_norms_counterexample:
  "PoincareParticle_init heavy_kwargs = Inr heavy_particle
   \<and> (pp_kappa heavy_particle)\<^sup>2 + (pp_eta heavy_particle)\<^sup>2
        \<noteq> 2 * pp_mu heavy_particle * pp_Gamma heavy_particle
   \<and> (pp_sigma heavy_particle)\<^sup>2 + (pp_rho heavy_particle)\<^sup>2
        \<noteq> 2 * pp_mu heavy_particle * pp_Q heavy_particle"
  by (simp add: PoincareParticle_init_def heavy_kwargs_def heavy_particle_def default_kwargs_def
      init_masses_def bind_err_def pp_kappa_def pp_eta_def pp_sigma_def pp_rho_def pp_Gamma_def pp_Q_def)

theorem canonical_pair_norms_witness:
  "0 \<le> pp_mu heavy_particle
   \<and> (pp_kappa heavy_particle)\<^sup>2 + (pp_eta heavy_particle)\<^sup>2 = 2 * pp_Gamma heavy_particle
   \<and> (pp_sigma heavy_particle)\<^sup>2 + (pp_rho heavy_particle)\<^sup>2 = 2 * pp_Q heavy_particle"
proof -
  have h: "0 \<le> pp_mu heavy_particle" by (simp add: heavy_particle_def)
  show ?thesis using h canonical_pair_norms [OF h] by simp
qed

section \<open>Eccentricity at construction and at read\<close>

text \<open>
  Three calls with Python floats: with a semimajor axis and an eccentricity (and a
  longitude of pericentre or none), with the two specific actions, and with the six
  stored variables.
\<close>

definition orbit_kwargs :: "real \<Rightarrow> real \<Rightarrow> real \<Rightarrow> real \<Rightarrow> real \<Rightarrow> real option \<Rightarrow> float_kwargs" where
  "orbit_kwargs G0 mu0 M0 a0 e0 pomega0 =
     default_float_kwargs\<lparr>fk_G := Py G0, fk_mu := Some (Py mu0), fk_M := Some (Py M0),
       fk_a := Some (Py a0), fk_e := Some (Py e0), fk_pomega := map_option Py pomega0\<rparr>"



text \<open>The angle \<^verbatim>\<open>gamma = -pomega\<close>, zero by default.\<close>

definition pericentre :: "real option \<Rightarrow> real" where
  "pericentre pomega0 = (case pomega0 of Some w \<Rightarrow> - w | None \<Rightarrow> 0)"

text \<open>The first of these calls over the reals, and what the constructor returns there.\<close>

definition elements_kwargs :: "real \<Rightarrow> real \<Rightarrow> real \<Rightarrow> real \<Rightarrow> real \<Rightarrow> real option \<Rightarrow> pp_kwargs" where
  "elements_kwargs G0 mu0 M0 a0 e0 pomega0 =
     default_kwargs\<lparr>kw_G := G0, kw_mu := Some mu0, kw_M := Some M0, kw_a := Some a0,
       kw_e := Some e0, kw_pomega := pomega0\<rparr>"

lemma init_elements_kwargs:
  "PoincareParticle_init (elements_kwargs G0 mu0 M0 a0 e0 pomega0) =
   Inr \<lparr>pp_coordinates = ''canonical heliocentric'', pp_G = G0, pp_mu = mu0, pp_M = M0,
        pp_sLambda = sqrt (G0 * M0 * a0), pp_l = 0,
        pp_skappa = sqrt (2 * (sqrt (G0 * M0 * a0) * (1 - sqrt (1 - e0\<^sup>2))))
                      * cos (case pomega0 of Some w \<Rightarrow> - w | None \<Rightarrow> 0),
        pp_seta = sqrt (2 * (sqrt (G0 * M0 * a0) * (1 - sqrt (1 - e0\<^sup>2))))
                      * sin (case pomega0 of Some w \<Rightarrow> - w | None \<Rightarrow> 0),
        pp_ssigma = 0, pp_srho = 0\<rparr>"
  by (simp add: PoincareParticle_init_def elements_kwargs_def default_kwargs_def init_masses_def
      bind_err_def init_from_elements_def init_sLambda_def init_sGamma_def init_sQ_def Let_def
      split: option.split)


lemma float_init_orbit:
  assumes "0 \<le> G0 * M0 * a0"
  shows "PoincareParticle_float_init (orbit_kwargs G0 mu0 M0 a0 e0 pomega0) =
   Inr \<lparr>fp_coordinates = ''canonical heliocentric'', fp_G = Py G0, fp_mu = Py mu0, fp_M = Py M0,
        fp_sLambda = Np (Finite (sqrt (G0 * M0 * a0))), fp_l = Py 0,
        fp_skappa = Np (np_mul (np_sqrt (np_mul (Finite 2)
                       (np_mul (Finite (sqrt (G0 * M0 * a0)))
                          (np_sub (Finite 1) (np_sqrt (Finite (1 - e0\<^sup>2)))))))
                      (Finite (cos (pericentre pomega0)))),
        fp_seta = Np (np_mul (np_sqrt (np_mul (Finite 2)
                       (np_mul (Finite (sqrt (G0 * M0 * a0)))
                          (np_sub (Finite 1) (np_sqrt (Finite (1 - e0\<^sup>2)))))))
                      (Finite (sin (pericentre pomega0)))),
        fp_ssigma = Np (Finite 0), fp_srho = Np (Finite 0)\<rparr>"
  using assms
  by (simp add: PoincareParticle_float_init_def orbit_kwargs_def default_float_kwargs_def
      float_init_masses_def bind_err_def float_init_from_elements_def float_init_sLambda_def
      float_init_sGamma_def float_init_sQ_def Let_def numpy_sqrt_def numpy_cos_def numpy_sin_def
      pericentre_def split: option.split)




lemma float_init_orbit_elliptic:
  assumes "0 < G0 * M0 * a0" and "e0\<^sup>2 \<le> 1"
  shows "PoincareParticle_float_init (orbit_kwargs G0 mu0 M0 a0 e0 pomega0) =
   Inr \<lparr>fp_coordinates = ''canonical heliocentric'', fp_G = Py G0, fp_mu = Py mu0, fp_M = Py M0,
        fp_sLambda = Np (Finite (sqrt (G0 * M0 * a0))), fp_l = Py 0,
        fp_skappa = Np (Finite (sqrt (2 * (sqrt (G0 * M0 * a0) * (1 - sqrt (1 - e0\<^sup>2))))
                                * cos (pericentre pomega0))),
        fp_seta = Np (Finite (sqrt (2 * (sqrt (G0 * M0 * a0) * (1 - sqrt (1 - e0\<^sup>2))))
                                * sin (pericentre pomega0))),
        fp_ssigma = Np (Finite 0), fp_srho = Np (Finite 0)\<rparr>"
proof -
  have pos: "0 \<le> G0 * M0 * a0" using assms(1) by simp
  have root: "sqrt (1 - e0\<^sup>2) \<le> 1" using assms(2) by (simp add: real_sqrt_le_1_iff)
  have g: "0 \<le> sqrt (G0 * M0 * a0) * (1 - sqrt (1 - e0\<^sup>2))"
    using pos root by simp
  have r1: "np_sqrt (Finite (1 - e0\<^sup>2)) = Finite (sqrt (1 - e0\<^sup>2))"
    using assms(2) by simp
  have r2: "np_sub (Finite 1) (Finite x) = Finite (1 - x)" for x
    by (simp add: np_sub_def)
  have r3: "np_sqrt (Finite (2 * (sqrt (G0 * M0 * a0) * (1 - sqrt (1 - e0\<^sup>2)))))
            = Finite (sqrt (2 * (sqrt (G0 * M0 * a0) * (1 - sqrt (1 - e0\<^sup>2)))))"
    using g by simp
  show ?thesis
    unfolding float_init_orbit [OF pos]
    by (simp only: r1 r2 np_mul.simps r3)
qed





text \<open>
  Where the eccentricity is one of an ellipse, the constructor on floating-point values
  returns the numbers that the constructor on reals returns.
\<close>

lemma float_init_orbit_exact:
  assumes "0 < G0 * M0 * a0" and "e0\<^sup>2 \<le> 1"
  shows "\<exists>p q. PoincareParticle_float_init (orbit_kwargs G0 mu0 M0 a0 e0 pomega0) = Inr p
           \<and> PoincareParticle_init (elements_kwargs G0 mu0 M0 a0 e0 pomega0) = Inr q
           \<and> map as_np [fp_G p, fp_mu p, fp_M p, fp_sLambda p, fp_l p,
                         fp_skappa p, fp_seta p, fp_ssigma p, fp_srho p]
             = map Finite [pp_G q, pp_mu q, pp_M q, pp_sLambda q, pp_l q,
                           pp_skappa q, pp_seta q, pp_ssigma q, pp_srho q]"
  by (simp add: float_init_orbit_elliptic [OF assms] init_elements_kwargs pericentre_def)






section \<open>\<^verbatim>\<open>Poincare.copy\<close>\<close>

text \<open>
  C10 (amended). \<^verbatim>\<open>Poincare.copy\<close> never returns. When the slice \<^verbatim>\<open>particles[1:N]\<close> can be
  materialised the exception is the \<^verbatim>\<open>NameError\<close> of the unbound name \<^verbatim>\<open>t\<close>; otherwise it
  is the exception of that materialisation, which is evaluated first.
\<close>

theorem Poincare_copy_raises:
  "(\<forall>s'. Poincare_copy s \<noteq> Inr s')
   \<and> (\<forall>ps. Poincare_particles_from_1 s = Inr ps \<longrightarrow> Poincare_copy s = Inl NameError)
   \<and> (\<forall>err. Poincare_particles_from_1 s = Inl err \<longrightarrow> Poincare_copy s = Inl err)"
  by (simp add: Poincare_copy_def bind_err_def load_name_def copy_scope_def split: sum.split)

text \<open>
  The system with the unsupported coordinate string: its \<^verbatim>\<open>copy\<close> raises the
  \<^verbatim>\<open>AttributeError\<close> of the particle constructor.
\<close>

theorem Poincare_copy_counterexample:
  "Poincare_init 1 [star_planet] ''barycentric'' 0 = Inr odd_system
   \<and> Poincare_copy odd_system = Inl AttributeError"
proof -
  have N: "Poincare_N odd_system = 2"
    by (simp add: Poincare_N_def Ndof_def odd_system_def)
  have "Poincare_getitem odd_system 1 = Inl AttributeError"
    unfolding Poincare_getitem_def N
    by (simp add: Ndof_def py_index_def bind_err_def Let_def PoincareParticle_init_def
        init_masses_def default_kwargs_def odd_system_def)
  then have "Poincare_particles_from_1 odd_system = Inl AttributeError"
    by (simp add: Poincare_particles_from_1_def N upt_rec)
  then show ?thesis
    by (simp add: odd_system_built Poincare_copy_def bind_err_def)
qed

theorem Poincare_copy_raises_witness:
  "Poincare_init 1 [star_planet] ''canonical heliocentric'' 0 = Inr plain_system
   \<and> Poincare_particles_from_1 plain_system =
       Inr [\<lparr>pp_coordinates = ''canonical heliocentric'', pp_G = 1, pp_mu = 1, pp_M = 4,
             pp_sLambda = 1, pp_l = 0, pp_skappa = 0, pp_seta = 0, pp_ssigma = 0, pp_srho = 0\<rparr>]
   \<and> Poincare_copy plain_system = Inl NameError"
  using plain_system_built plain_system_particles Poincare_copy_raises [of plain_system]
  by simp

section \<open>The Keplerian term of the Hamiltonian\<close>

lemma add_Hkep_term_value:
  "add_Hkep_term H0 i env =
   H0 env - (env ''G'')\<^sup>2 * (env (''M'' @ format_int i))\<^sup>2 * (env (''mu'' @ format_int i)) ^ 3
            / (2 * (env (''Lambda'' @ format_int i))\<^sup>2)"
  by (simp add: add_Hkep_term_def Let_def)

lemma ham_init_body_H:
  assumes "ham_init_body pvars (params, H0) i = Inr (params', H1)"
  shows "H1 = add_Hkep_term H0 (int i)"
  using assms
  by (auto simp: ham_init_body_def bind_err_def Let_def split: sum.splits)

lemma ham_init_loop_H:
  assumes "foldl_err (ham_init_body pvars) (params, H0) is = Inr (params', H1)"
  shows "H1 env = H0 env + (\<Sum>i\<leftarrow>is. add_Hkep_term (\<lambda>env. 0) (int i) env)"
  using assms
proof (induction "is" arbitrary: params H0)
  case Nil
  then show ?case by simp
next
  case (Cons i "is")
  from Cons.prems obtain params2 H2 where
    step: "ham_init_body pvars (params, H0) i = Inr (params2, H2)" and
    rest: "foldl_err (ham_init_body pvars) (params2, H2) is = Inr (params', H1)"
    by (auto split: sum.splits)
  have "H2 env = H0 env + add_Hkep_term (\<lambda>env. 0) (int i) env"
    using ham_init_body_H [OF step] by (simp add: add_Hkep_term_def Let_def)
  with Cons.IH [OF rest] show ?case by simp
qed

text \<open>
  C5 (amended). The Keplerian term that \<^verbatim>\<open>add_Hkep_term\<close> adds for body \<open>i\<close> is
  \<open>- G\<^sup>2 M\<^sub>i\<^sup>2 mu\<^sub>i\<^sup>3 / (2 \<Lambda>\<^sub>i\<^sup>2)\<close>: it is inversely proportional to the square of
  \<open>\<Lambda>\<^sub>i\<close> (scaling \<open>\<Lambda>\<^sub>i\<close> by \<open>c\<close> divides the term by \<open>c\<^sup>2\<close>), and the Hamiltonian at
  construction is the sum of these terms over the bodies \<open>1, ..., N - 1\<close>.
\<close>

theorem Keplerian_term_inverse_square:
  "add_Hkep_term H0 i env - H0 env =
     - (env ''G'')\<^sup>2 * (env (''M'' @ format_int i))\<^sup>2 * (env (''mu'' @ format_int i)) ^ 3
       / (2 * (env (''Lambda'' @ format_int i))\<^sup>2)
   \<and> (add_Hkep_term H0 i (env(''Lambda'' @ format_int i := c * env (''Lambda'' @ format_int i)))
        - H0 (env(''Lambda'' @ format_int i := c * env (''Lambda'' @ format_int i))))
      = (add_Hkep_term H0 i env - H0 env) / c\<^sup>2
   \<and> (\<forall>hs. PoincareHamiltonian_init pvars = Inr hs \<longrightarrow>
        ham_H hs env =
        (\<Sum>j\<leftarrow>[1..<Poincare_N pvars].
           - (env ''G'')\<^sup>2 * (env (''M'' @ format_int (int j)))\<^sup>2 * (env (''mu'' @ format_int (int j))) ^ 3
             / (2 * (env (''Lambda'' @ format_int (int j)))\<^sup>2)))"
proof (intro conjI allI impI)
  show "add_Hkep_term H0 i env - H0 env =
     - (env ''G'')\<^sup>2 * (env (''M'' @ format_int i))\<^sup>2 * (env (''mu'' @ format_int i)) ^ 3
       / (2 * (env (''Lambda'' @ format_int i))\<^sup>2)"
    by (simp add: add_Hkep_term_value)
next
  have neq: "''G'' \<noteq> ''Lambda'' @ format_int i" "''M'' @ format_int i \<noteq> ''Lambda'' @ format_int i"
    "''mu'' @ format_int i \<noteq> ''Lambda'' @ format_int i"
    by simp_all
  show "(add_Hkep_term H0 i (env(''Lambda'' @ format_int i := c * env (''Lambda'' @ format_int i)))
        - H0 (env(''Lambda'' @ format_int i := c * env (''Lambda'' @ format_int i))))
      = (add_Hkep_term H0 i env - H0 env) / c\<^sup>2"
    using neq by (simp add: add_Hkep_term_value power_mult_distrib)
next
  fix hs assume "PoincareHamiltonian_init pvars = Inr hs"
  then obtain params where
    "foldl_err (ham_init_body pvars) ([''G'' \<mapsto> sys_G pvars], (\<lambda>env. 0)) [1..<Poincare_N pvars]
       = Inr (params, ham_H hs)"
    by (auto simp: PoincareHamiltonian_init_def bind_err_def split: sum.splits prod.splits)
  from ham_init_loop_H [OF this, of env]
  show "ham_H hs env =
        (\<Sum>j\<leftarrow>[1..<Poincare_N pvars].
           - (env ''G'')\<^sup>2 * (env (''M'' @ format_int (int j)))\<^sup>2 * (env (''mu'' @ format_int (int j))) ^ 3
             / (2 * (env (''Lambda'' @ format_int (int j)))\<^sup>2))"
    by (simp add: add_Hkep_term_value)
qed

text \<open>
  With every symbol at \<open>1\<close> and \<open>\<Lambda>\<^sub>1 = 2\<close>, the term of the source is \<open>- 1 / 8\<close> and the
  closed form with the first power of \<open>\<Lambda>\<^sub>1\<close> is \<open>- 1 / 4\<close>.
\<close>

definition unit_valuation :: "string \<Rightarrow> real" where
  "unit_valuation = (\<lambda>name. 1)(''Lambda1'' := 2)"

lemma format_int_1: "format_int 1 = ''1''"
  by code_simp

theorem Keplerian_term_counterexample:
  "add_Hkep_term (\<lambda>env. 0) 1 unit_valuation = - 1 / 8
   \<and> - (unit_valuation ''G'')\<^sup>2 * (unit_valuation ''M1'')\<^sup>2 * (unit_valuation ''mu1'') ^ 3
       / (2 * unit_valuation ''Lambda1'') = - 1 / 4"
  by (simp add: add_Hkep_term_value format_int_1 unit_valuation_def)

lemma plain_system_hamiltonian:
  "\<exists>hs. PoincareHamiltonian_init plain_system = Inr hs"
  by (simp add: PoincareHamiltonian_init_def plain_system_N upt_rec ham_init_body_def
      plain_system_getitem bind_err_def Let_def split: option.split)

theorem Keplerian_term_inverse_square_witness:
  "(case PoincareHamiltonian_init plain_system of
      Inl err \<Rightarrow> False
    | Inr hs \<Rightarrow> ham_H hs unit_valuation = - 1 / 8)"
proof -
  obtain hs where hs: "PoincareHamiltonian_init plain_system = Inr hs"
    using plain_system_hamiltonian by blast
  have "ham_H hs unit_valuation = - 1 / 8"
    using Keplerian_term_inverse_square [of "\<lambda>env. 0" 1 unit_valuation 1 plain_system] hs
    by (simp add: plain_system_N upt_rec unit_valuation_def format_int_1)
  then show ?thesis by (simp add: hs)
qed

section \<open>Adding a monomial term twice\<close>

lemma add_monomial_term_records_key:
  assumes "add_monomial_term df hs kvec nuvec indexIn indexOut lmax update = Inr hs1"
  shows "(indexIn, indexOut, kvec, nuvec) \<in> set (resonance_indices hs1)"
  using assms
  by (auto simp: add_monomial_term_def Let_def split: if_splits option.splits prod.splits)

lemma add_monomial_term_new_key:
  assumes "(indexIn, indexOut, kvec, nuvec) \<notin> set (resonance_indices hs)"
    and "Hparams hs (alpha_symbol indexIn indexOut) = Some alpha_val"
    and "length kvec = 6" and "length nuvec = 4"
  shows "\<exists>hs1. add_monomial_term df hs kvec nuvec indexIn indexOut lmax update = Inr hs1
           \<and> resonance_indices hs1 = resonance_indices hs @ [(indexIn, indexOut, kvec, nuvec)]
           \<and> warnings_issued hs1 = warnings_issued hs"
  using assms
  by (simp add: add_monomial_term_def Let_def split: prod.split)

text \<open>
  C7. When the key \<open>(indexIn, indexOut, (kvec, nuvec))\<close> is already in
  \<open>resonance_indices\<close>, \<^verbatim>\<open>add_monomial_term\<close> returns with one more warning and nothing else
  changed: the expression \<open>H\<close>, the parameters, the list of terms and the number of
  updates are those of before. In particular a second call with the key of a call that
  returned is such a call, whatever its \<open>lmax\<close> and \<open>update\<close>.
\<close>

theorem add_monomial_term_duplicate:
  "((indexIn, indexOut, kvec, nuvec) \<in> set (resonance_indices hs) \<longrightarrow>
      add_monomial_term df hs kvec nuvec indexIn indexOut lmax update =
        Inr (hs\<lparr>warnings_issued := warnings_issued hs @ [duplicate_warning]\<rparr>))
   \<and> (\<forall>hs1. add_monomial_term df hs kvec nuvec indexIn indexOut lmax update = Inr hs1 \<longrightarrow>
        (\<exists>hs2. add_monomial_term df hs1 kvec nuvec indexIn indexOut lmax' update' = Inr hs2
           \<and> ham_H hs2 = ham_H hs1 \<and> Hparams hs2 = Hparams hs1
           \<and> resonance_indices hs2 = resonance_indices hs1
           \<and> update_count hs2 = update_count hs1
           \<and> warnings_issued hs2 = warnings_issued hs1 @ [duplicate_warning]))"
proof (intro conjI allI impI)
  assume "(indexIn, indexOut, kvec, nuvec) \<in> set (resonance_indices hs)"
  then show "add_monomial_term df hs kvec nuvec indexIn indexOut lmax update =
        Inr (hs\<lparr>warnings_issued := warnings_issued hs @ [duplicate_warning]\<rparr>)"
    by (simp add: add_monomial_term_def)
next
  fix hs1
  assume "add_monomial_term df hs kvec nuvec indexIn indexOut lmax update = Inr hs1"
  then have "(indexIn, indexOut, kvec, nuvec) \<in> set (resonance_indices hs1)"
    by (rule add_monomial_term_records_key)
  then have "add_monomial_term df hs1 kvec nuvec indexIn indexOut lmax' update' =
        Inr (hs1\<lparr>warnings_issued := warnings_issued hs1 @ [duplicate_warning]\<rparr>)"
    by (simp add: add_monomial_term_def)
  then show "\<exists>hs2. add_monomial_term df hs1 kvec nuvec indexIn indexOut lmax' update' = Inr hs2
           \<and> ham_H hs2 = ham_H hs1 \<and> Hparams hs2 = Hparams hs1
           \<and> resonance_indices hs2 = resonance_indices hs1
           \<and> update_count hs2 = update_count hs1
           \<and> warnings_issued hs2 = warnings_issued hs1 @ [duplicate_warning]"
    by simp
qed

text \<open>A library of one coefficient, and a Hamiltonian of two bodies without terms.\<close>

definition one_coefficient_library :: "unit df_library" where
  "one_coefficient_library =
     \<lparr>DFCoeff_C = (\<lambda>kvec nuvec. ()), p1_p2_from_k_nu = (\<lambda>kvec nuvec. (0, 0)),
      eval_DFCoeff_delta_expansion = (\<lambda>C_dict p1 p2 lmax alpha. [((0, 0), 1)]),
      get_DFCoeff_symbol = (\<lambda>kvec nuvec key indexIn indexOut. ''C'')\<rparr>"

definition bare_hamiltonian :: PoincareHamiltonian where
  "bare_hamiltonian =
     \<lparr>ham_H = (\<lambda>env. 0), Hparams = [alpha_symbol 1 2 \<mapsto> 1 / 2], resonance_indices = [],
      ham_state = \<lparr>sys_G = 1, masses = [], sys_coordinates = ''canonical heliocentric'',
                   qpvars = [], state_values = [], sys_t = 0\<rparr>,
      warnings_issued = [], update_count = 0\<rparr>"

theorem add_monomial_term_duplicate_witness:
  "(case add_monomial_term one_coefficient_library bare_hamiltonian
           [2, - 1, - 1, 0, 0, 0] [0, 0, 0, 0] 1 2 0 True of
      Inl err \<Rightarrow> False
    | Inr hs1 \<Rightarrow>
        resonance_indices hs1 = [(1, 2, [2, - 1, - 1, 0, 0, 0], [0, 0, 0, 0])]
        \<and> add_monomial_term one_coefficient_library hs1
             [2, - 1, - 1, 0, 0, 0] [0, 0, 0, 0] 1 2 0 True =
           Inr (hs1\<lparr>warnings_issued := warnings_issued hs1 @ [duplicate_warning]\<rparr>))"
proof -
  obtain hs1 where first: "add_monomial_term one_coefficient_library bare_hamiltonian
           [2, - 1, - 1, 0, 0, 0] [0, 0, 0, 0] 1 2 0 True = Inr hs1"
    and keys: "resonance_indices hs1 = [(1, 2, [2, - 1, - 1, 0, 0, 0], [0, 0, 0, 0])]"
    using add_monomial_term_new_key
      [of 1 2 "[2, - 1, - 1, 0, 0, 0]" "[0, 0, 0, 0]" bare_hamiltonian "1 / 2"
          one_coefficient_library 0 True]
    by (auto simp: bare_hamiltonian_def)
  have "(1, 2, [2, - 1, - 1, 0, 0, 0], [0, 0, 0, 0]) \<in> set (resonance_indices hs1)"
    by (simp add: keys)
  with add_monomial_term_duplicate
    [of 1 2 "[2, - 1, - 1, 0, 0, 0]" "[0, 0, 0, 0]" hs1 one_coefficient_library 0 True]
  show ?thesis by (simp add: first keys)
qed

section \<open>A system of two planets\<close>

text \<open>
  Two planets in democratic heliocentric coordinates, all masses \<open>1\<close>; the inner one has
  \<open>\<Lambda> = 1\<close>, \<open>kappa = sigma = 1\<close>, the outer one \<open>\<Lambda> = 2\<close> on a circular, flat orbit.
\<close>

definition inner_planet :: PoincareParticle where
  "inner_planet = \<lparr>pp_coordinates = ''democratic heliocentric'', pp_G = 1, pp_mu = 1, pp_M = 1,
     pp_sLambda = 1, pp_l = 0, pp_skappa = 1, pp_seta = 0, pp_ssigma = 1, pp_srho = 0\<rparr>"

definition outer_planet :: PoincareParticle where
  "outer_planet = \<lparr>pp_coordinates = ''democratic heliocentric'', pp_G = 1, pp_mu = 1, pp_M = 1,
     pp_sLambda = 2, pp_l = 0, pp_skappa = 0, pp_seta = 0, pp_ssigma = 0, pp_srho = 0\<rparr>"

definition two_planet_system :: Poincare where
  "two_planet_system =
     \<lparr>sys_G = 1, masses = [Some 1, Some 1, Some 1],
      sys_coordinates = ''democratic heliocentric'',
      qpvars = [''lambda1'', ''eta1'', ''rho1'', ''lambda2'', ''eta2'', ''rho2'',
                ''Lambda1'', ''kappa1'', ''sigma1'', ''Lambda2'', ''kappa2'', ''sigma2''],
      state_values = [0, 0, 0, 0, 0, 0, 1, 1, 1, 2, 0, 0], sys_t = 0\<rparr>"

lemma format_nat_2: "format_nat 2 = ''2''"
  by code_simp

lemma two_planet_system_built:
  "Poincare_init 1 [inner_planet, outer_planet] ''democratic heliocentric'' 0 = Inr two_planet_system"
  by (simp add: Poincare_init_def PhaseSpaceState_init_def two_planet_system_def format_nat_1
      format_nat_2 upt_rec pp_Mstar_def pp_m_def pp_Lambda_def pp_kappa_def pp_sigma_def
      pp_eta_def pp_rho_def inner_planet_def outer_planet_def)
     (simp add: digit_char_def)

lemma two_planet_system_N: "Poincare_N two_planet_system = 3"
  by (simp add: Poincare_N_def Ndof_def two_planet_system_def)

lemma two_planet_system_getitem:
  "Poincare_getitem two_planet_system 1 = Inr inner_planet"
  "Poincare_getitem two_planet_system 2 = Inr outer_planet"
  unfolding Poincare_getitem_def two_planet_system_N
  by (simp_all add: Ndof_def py_index_def bind_err_def Let_def PoincareParticle_init_def
      init_masses_def default_kwargs_def two_planet_system_def div_by_mu_def
      inner_planet_def outer_planet_def)

section \<open>The linear invariants of the resonance operators\<close>

lemma inv2_left_inverse:
  assumes "inv2 m = Inr mi"
  shows "matvec2 m (matvec2 mi v) = v"
proof -
  obtain a b c d where m: "m = ((a, b), (c, d))" by (metis prod.collapse)
  obtain x y where v: "v = (x, y)" by (cases v)
  from assms m have det: "a * d - b * c \<noteq> 0"
    and mi: "mi = ((d / (a * d - b * c), - b / (a * d - b * c)),
                   (- c / (a * d - b * c), a / (a * d - b * c)))"
    by (auto split: if_splits)
  define D where "D = a * d - b * c"
  have D: "D \<noteq> 0" using det by (simp add: D_def)
  have "a * (d / D * x + - b / D * y) + b * (- c / D * x + a / D * y) = D * x / D"
    by (simp add: D_def algebra_simps add_divide_distrib diff_divide_distrib)
  moreover have "c * (d / D * x + - b / D * y) + d * (- c / D * x + a / D * y) = D * y / D"
    by (simp add: D_def algebra_simps add_divide_distrib diff_divide_distrib)
  ultimately have "a * (d / D * x + - b / D * y) + b * (- c / D * x + a / D * y) = x"
    and "c * (d / D * x + - b / D * y) + d * (- c / D * x + a / D * y) = y"
    using D by simp_all
  then show ?thesis
    by (simp add: m mi v D_def)
qed

text \<open>
  The last two lines of both \<^verbatim>\<open>apply\<close> methods: the new pair of \<open>\<Lambda>\<close> solves the linear
  system whose rows are \<open>Lambdas_vec\<close> and \<open>(1, 1)\<close>.
\<close>

lemma restored_Lambdas:
  assumes "inv2 (Lambdas_vec, (1, 1)) = Inr Lambdas_Mtrx"
  shows "dot2 Lambdas_vec (matvec2 Lambdas_Mtrx (C1, S)) = C1"
    and "sum2 (matvec2 Lambdas_Mtrx (C1, S)) = S"
proof -
  have eq: "matvec2 (Lambdas_vec, (1, 1)) (matvec2 Lambdas_Mtrx (C1, S)) = (C1, S)"
    by (rule inv2_left_inverse [OF assms])
  obtain u w where uw: "matvec2 Lambdas_Mtrx (C1, S) = (u, w)" by (metis prod.collapse)
  from eq show "dot2 Lambdas_vec (matvec2 Lambdas_Mtrx (C1, S)) = C1"
    by (simp add: uw)
  from eq show "sum2 (matvec2 Lambdas_Mtrx (C1, S)) = S"
    by (simp add: uw)
qed

lemma pp_Lambda_set_Lambda: "pp_mu p \<noteq> 0 \<Longrightarrow> pp_Lambda (pp_set_Lambda v p) = v"
  by (simp add: pp_Lambda_def pp_set_Lambda_def)

lemma pp_Gamma_set_Lambda: "pp_Gamma (pp_set_Lambda v p) = pp_Gamma p"
  by (simp add: pp_Gamma_def pp_set_Lambda_def)

lemma pp_Q_set_Lambda: "pp_Q (pp_set_Lambda v p) = pp_Q p"
  by (simp add: pp_Q_def pp_set_Lambda_def)

lemma pp_mu_setters:
  "pp_mu (pp_set_kappa v p) = pp_mu p" "pp_mu (pp_set_eta v p) = pp_mu p"
  "pp_mu (pp_set_sigma v p) = pp_mu p" "pp_mu (pp_set_rho v p) = pp_mu p"
  "pp_mu (pp_set_Lambda v p) = pp_mu p"
  by (simp_all add: pp_set_kappa_def pp_set_eta_def pp_set_sigma_def pp_set_rho_def
      pp_set_Lambda_def)

lemma er_advance_frame:
  "er_Lambdas_Mtrx (er_advance_eccentricity_variables op) = er_Lambdas_Mtrx op"
  "er_Lambdas_vec (er_advance_eccentricity_variables op) = er_Lambdas_vec op"
  "pp_mu (er_particleIn (er_advance_eccentricity_variables op)) = pp_mu (er_particleIn op)"
  "pp_mu (er_particleOut (er_advance_eccentricity_variables op)) = pp_mu (er_particleOut op)"
  by (simp_all add: er_advance_eccentricity_variables_def Let_def er_set_kappa_vec_def
      er_set_eta_vec_def pp_mu_setters split: prod.split)

lemma ir_advance_frame:
  "ir_Lambdas_Mtrx (ir_advance_inclination_variables op) = ir_Lambdas_Mtrx op"
  "ir_Lambdas_vec (ir_advance_inclination_variables op) = ir_Lambdas_vec op"
  "pp_mu (ir_particleIn (ir_advance_inclination_variables op)) = pp_mu (ir_particleIn op)"
  "pp_mu (ir_particleOut (ir_advance_inclination_variables op)) = pp_mu (ir_particleOut op)"
  by (simp_all add: ir_advance_inclination_variables_def Let_def ir_set_sigma_vec_def
      ir_set_rho_vec_def pp_mu_setters split: prod.split)

lemma er_apply_invariants:
  assumes inv: "inv2 (er_Lambdas_vec op, (1, 1)) = Inr (er_Lambdas_Mtrx op)"
    and mu: "pp_mu (er_particleIn op) \<noteq> 0" "pp_mu (er_particleOut op) \<noteq> 0"
  shows "dot2 (er_Lambdas_vec op) (er_get_Lambdas (er_apply op)) =
         dot2 (er_Lambdas_vec op) (er_get_Lambdas op)"
    and "sum2 (er_get_Lambdas (er_apply op)) - sum2 (er_get_Gammas (er_apply op)) =
         sum2 (er_get_Lambdas op) - sum2 (er_get_Gammas op)"
proof -
  define op1 where "op1 = er_advance_eccentricity_variables op"
  define C1 where "C1 = dot2 (er_Lambdas_vec op) (er_get_Lambdas op)"
  define S where "S = sum2 (er_get_Lambdas op) - sum2 (er_get_Gammas op) + sum2 (er_get_Gammas op1)"
  define L1 where "L1 = matvec2 (er_Lambdas_Mtrx op) (C1, S)"
  have ap: "er_apply op = er_set_Lambdas L1 op1"
    by (simp add: er_apply_def Let_def op1_def C1_def S_def L1_def er_advance_frame)
  have mu1: "pp_mu (er_particleIn op1) \<noteq> 0" "pp_mu (er_particleOut op1) \<noteq> 0"
    using mu by (simp_all add: op1_def er_advance_frame)
  have L: "er_get_Lambdas (er_set_Lambdas L1 op1) = L1"
    using mu1 by (simp add: er_get_Lambdas_def er_set_Lambdas_def pp_Lambda_set_Lambda)
  have G: "er_get_Gammas (er_set_Lambdas L1 op1) = er_get_Gammas op1"
    by (simp add: er_get_Gammas_def er_set_Lambdas_def pp_Gamma_set_Lambda)
  show "dot2 (er_Lambdas_vec op) (er_get_Lambdas (er_apply op)) =
         dot2 (er_Lambdas_vec op) (er_get_Lambdas op)"
    unfolding ap L using restored_Lambdas(1) [OF inv] by (simp add: L1_def C1_def)
  show "sum2 (er_get_Lambdas (er_apply op)) - sum2 (er_get_Gammas (er_apply op)) =
         sum2 (er_get_Lambdas op) - sum2 (er_get_Gammas op)"
    unfolding ap L G using restored_Lambdas(2) [OF inv] by (simp add: L1_def S_def)
qed

lemma ir_apply_invariants:
  assumes inv: "inv2 (ir_Lambdas_vec op, (1, 1)) = Inr (ir_Lambdas_Mtrx op)"
    and mu: "pp_mu (ir_particleIn op) \<noteq> 0" "pp_mu (ir_particleOut op) \<noteq> 0"
  shows "dot2 (ir_Lambdas_vec op) (ir_get_Lambdas (ir_apply op)) =
         dot2 (ir_Lambdas_vec op) (ir_get_Lambdas op)"
    and "sum2 (ir_get_Lambdas (ir_apply op)) - sum2 (ir_get_Qs (ir_apply op)) =
         sum2 (ir_get_Lambdas op) - sum2 (ir_get_Qs op)"
proof -
  define op1 where "op1 = ir_advance_inclination_variables op"
  define C1 where "C1 = dot2 (ir_Lambdas_vec op) (ir_get_Lambdas op)"
  define S where "S = sum2 (ir_get_Lambdas op) - sum2 (ir_get_Qs op) + sum2 (ir_get_Qs op1)"
  define L1 where "L1 = matvec2 (ir_Lambdas_Mtrx op) (C1, S)"
  have ap: "ir_apply op = ir_set_Lambdas L1 op1"
    by (simp add: ir_apply_def Let_def op1_def C1_def S_def L1_def ir_advance_frame)
  have mu1: "pp_mu (ir_particleIn op1) \<noteq> 0" "pp_mu (ir_particleOut op1) \<noteq> 0"
    using mu by (simp_all add: op1_def ir_advance_frame)
  have L: "ir_get_Lambdas (ir_set_Lambdas L1 op1) = L1"
    using mu1 by (simp add: ir_get_Lambdas_def ir_set_Lambdas_def pp_Lambda_set_Lambda)
  have G: "ir_get_Qs (ir_set_Lambdas L1 op1) = ir_get_Qs op1"
    by (simp add: ir_get_Qs_def ir_set_Lambdas_def pp_Q_set_Lambda)
  show "dot2 (ir_Lambdas_vec op) (ir_get_Lambdas (ir_apply op)) =
         dot2 (ir_Lambdas_vec op) (ir_get_Lambdas op)"
    unfolding ap L using restored_Lambdas(1) [OF inv] by (simp add: L1_def C1_def)
  show "sum2 (ir_get_Lambdas (ir_apply op)) - sum2 (ir_get_Qs (ir_apply op)) =
         sum2 (ir_get_Lambdas op) - sum2 (ir_get_Qs op)"
    unfolding ap L G using restored_Lambdas(2) [OF inv] by (simp add: L1_def S_def)
qed

lemma er_init_fields:
  assumes "LinearEccentricityResonancOperator_init eigh st iIn iOut res_vec A b dt0 = Inr op0"
  shows "er_Lambdas_vec op0 = (- snd res_vec, fst res_vec)"
    and "inv2 (er_Lambdas_vec op0, (1, 1)) = Inr (er_Lambdas_Mtrx op0)"
    and "er_res_vec op0 = res_vec"
  using assms
  by (auto simp: LinearEccentricityResonancOperator_init_def bind_err_def Let_def
      split: sum.splits prod.splits)

lemma ir_init_fields:
  assumes "LinearInclinationResonancOperator_init eigh st iIn iOut res_vec A dt0 = Inr op0"
  shows "ir_Lambdas_vec op0 = (- snd res_vec, fst res_vec)"
    and "inv2 (ir_Lambdas_vec op0, (1, 1)) = Inr (ir_Lambdas_Mtrx op0)"
    and "ir_res_vec op0 = res_vec"
  using assms
  by (auto simp: LinearInclinationResonancOperator_init_def bind_err_def Let_def
      split: sum.splits prod.splits)

text \<open>
  C1 (amended). For an operator built by either constructor, for every pair of particles
  of positive canonical mass as the state of its two bodies and for every timestep, one
  call of \<^verbatim>\<open>apply\<close> leaves two quantities as they were: the product of
  \<open>Lambdas_vec = (- res_vec[1], res_vec[0])\<close> with \<open>(\<Lambda>\<^sub>i\<^sub>n, \<Lambda>\<^sub>o\<^sub>u\<^sub>t)\<close>, and the sum of the two
  \<open>\<Lambda>\<close> minus the sum of the two conserved actions (\<open>Gamma\<close> for the eccentricity
  operator, \<open>Q\<close> for the inclination operator). The subclasses for first and second order
  only compute the arguments \<open>res_vec\<close>, \<open>A\<close> and \<open>b\<close> of these constructors and inherit
  \<^verbatim>\<open>apply\<close>.
\<close>

theorem resonance_apply_invariants:
  "(LinearEccentricityResonancOperator_init eigh st iIn iOut res_vec A b dt0 = Inr op0 \<longrightarrow>
      0 < pp_mu pIn \<longrightarrow> 0 < pp_mu pOut \<longrightarrow>
      (let op = er_set_dt dt (op0\<lparr>er_particleIn := pIn, er_particleOut := pOut\<rparr>) in
         er_Lambdas_vec op = (- snd res_vec, fst res_vec)
       \<and> dot2 (er_Lambdas_vec op) (er_get_Lambdas (er_apply op)) =
           dot2 (er_Lambdas_vec op) (er_get_Lambdas op)
       \<and> sum2 (er_get_Lambdas (er_apply op)) - sum2 (er_get_Gammas (er_apply op)) =
           sum2 (er_get_Lambdas op) - sum2 (er_get_Gammas op)))
   \<and> (LinearInclinationResonancOperator_init eigh' st' iIn' iOut' res_vec' A' dt0' = Inr op0' \<longrightarrow>
      0 < pp_mu pIn' \<longrightarrow> 0 < pp_mu pOut' \<longrightarrow>
      (let op = ir_set_dt dt' (op0'\<lparr>ir_particleIn := pIn', ir_particleOut := pOut'\<rparr>) in
         ir_Lambdas_vec op = (- snd res_vec', fst res_vec')
       \<and> dot2 (ir_Lambdas_vec op) (ir_get_Lambdas (ir_apply op)) =
           dot2 (ir_Lambdas_vec op) (ir_get_Lambdas op)
       \<and> sum2 (ir_get_Lambdas (ir_apply op)) - sum2 (ir_get_Qs (ir_apply op)) =
           sum2 (ir_get_Lambdas op) - sum2 (ir_get_Qs op)))"
proof (intro conjI impI)
  assume init: "LinearEccentricityResonancOperator_init eigh st iIn iOut res_vec A b dt0 = Inr op0"
    and mu: "0 < pp_mu pIn" "0 < pp_mu pOut"
  define op where "op = er_set_dt dt (op0\<lparr>er_particleIn := pIn, er_particleOut := pOut\<rparr>)"
  have vec: "er_Lambdas_vec op = (- snd res_vec, fst res_vec)"
    using er_init_fields(1) [OF init] by (simp add: op_def er_set_dt_def)
  have inv: "inv2 (er_Lambdas_vec op, (1, 1)) = Inr (er_Lambdas_Mtrx op)"
    using er_init_fields(2) [OF init] by (simp add: op_def er_set_dt_def)
  have nz: "pp_mu (er_particleIn op) \<noteq> 0" "pp_mu (er_particleOut op) \<noteq> 0"
    using mu by (simp_all add: op_def er_set_dt_def)
  show "let op = er_set_dt dt (op0\<lparr>er_particleIn := pIn, er_particleOut := pOut\<rparr>) in
         er_Lambdas_vec op = (- snd res_vec, fst res_vec)
       \<and> dot2 (er_Lambdas_vec op) (er_get_Lambdas (er_apply op)) =
           dot2 (er_Lambdas_vec op) (er_get_Lambdas op)
       \<and> sum2 (er_get_Lambdas (er_apply op)) - sum2 (er_get_Gammas (er_apply op)) =
           sum2 (er_get_Lambdas op) - sum2 (er_get_Gammas op)"
    unfolding Let_def op_def [symmetric]
    using vec er_apply_invariants [OF inv nz] by simp
next
  assume init: "LinearInclinationResonancOperator_init eigh' st' iIn' iOut' res_vec' A' dt0' = Inr op0'"
    and mu: "0 < pp_mu pIn'" "0 < pp_mu pOut'"
  define op where "op = ir_set_dt dt' (op0'\<lparr>ir_particleIn := pIn', ir_particleOut := pOut'\<rparr>)"
  have vec: "ir_Lambdas_vec op = (- snd res_vec', fst res_vec')"
    using ir_init_fields(1) [OF init] by (simp add: op_def ir_set_dt_def)
  have inv: "inv2 (ir_Lambdas_vec op, (1, 1)) = Inr (ir_Lambdas_Mtrx op)"
    using ir_init_fields(2) [OF init] by (simp add: op_def ir_set_dt_def)
  have nz: "pp_mu (ir_particleIn op) \<noteq> 0" "pp_mu (ir_particleOut op) \<noteq> 0"
    using mu by (simp_all add: op_def ir_set_dt_def)
  show "let op = ir_set_dt dt' (op0'\<lparr>ir_particleIn := pIn', ir_particleOut := pOut'\<rparr>) in
         ir_Lambdas_vec op = (- snd res_vec', fst res_vec')
       \<and> dot2 (ir_Lambdas_vec op) (ir_get_Lambdas (ir_apply op)) =
           dot2 (ir_Lambdas_vec op) (ir_get_Lambdas op)
       \<and> sum2 (ir_get_Lambdas (ir_apply op)) - sum2 (ir_get_Qs (ir_apply op)) =
           sum2 (ir_get_Lambdas op) - sum2 (ir_get_Qs op)"
    unfolding Let_def op_def [symmetric]
    using vec ir_apply_invariants [OF inv nz] by simp
qed

text \<open>The eigendecomposition of a diagonal matrix.\<close>

definition eigh_diagonal :: "mat2 \<Rightarrow> vec2 \<times> mat2" where
  "eigh_diagonal A = ((fst (fst A), snd (snd A)), ((1, 0), (0, 1)))"

definition first_order_operator :: LinearEccentricityResonancOperator where
  "first_order_operator =
     \<lparr>er_dt = 1, er_state = two_planet_system, er_A = ((1, 0), (0, 1)),
      er_Ainv = ((1, 0), (0, 1)), er_b = (0, 0), er_Ainv_dot_b = (0, 0),
      er_T = ((1, 0), (0, 1)), er_Ttr = ((1, 0), (0, 1)), er_D = ((1, 0), (0, 1)),
      er_eigs = (1, 1), er_cosh_lmbda_dt = (cosh 1, cosh 1),
      er_sinh_lmbda_dt = (sinh 1, sinh 1), er_indexIn = 1, er_indexOut = 2,
      er_particleIn = inner_planet, er_particleOut = outer_planet,
      er_res_vec = (- 1, 2), er_Lambdas_vec = (- 2, - 1),
      er_Lambdas_Mtrx = ((- 1, - 1), (1, 2))\<rparr>"

lemma first_order_operator_built:
  "LinearEccentricityResonancOperator_init eigh_diagonal two_planet_system 1 2 (- 1, 2)
     ((1, 0), (0, 1)) (0, 0) 1 = Inr first_order_operator"
  by (simp add: LinearEccentricityResonancOperator_init_def bind_err_def eigh_diagonal_def
      two_planet_system_getitem first_order_operator_def)

lemma first_order_operator_advanced:
  "er_advance_eccentricity_variables first_order_operator =
     first_order_operator
       \<lparr>er_particleIn := inner_planet\<lparr>pp_seta := sinh 1, pp_skappa := cosh 1\<rparr>\<rparr>"
  by (simp add: er_advance_eccentricity_variables_def er_get_theta_def er_get_HK_vecs_def
      er_get_eta_vec_def er_get_kappa_vec_def er_HKmap_def hyperbolic_map_def
      er_HK_to_etakappa_def er_set_eta_vec_def er_set_kappa_vec_def Let_def
      pp_eta_def pp_kappa_def pp_set_eta_def pp_set_kappa_def
      first_order_operator_def inner_planet_def outer_planet_def)

lemma first_order_operator_applied:
  "er_get_Lambdas (er_apply first_order_operator) =
     (3 / 2 - ((cosh 1)\<^sup>2 + (sinh 1)\<^sup>2) / 2, 1 + ((cosh 1)\<^sup>2 + (sinh 1)\<^sup>2))"
  unfolding er_apply_def first_order_operator_advanced Let_def
  by (simp add: er_get_Lambdas_def er_get_Gammas_def er_set_Lambdas_def pp_Lambda_def
      pp_Gamma_def pp_set_Lambda_def first_order_operator_def inner_planet_def outer_planet_def
      field_simps)

definition second_order_operator :: LinearInclinationResonancOperator where
  "second_order_operator =
     \<lparr>ir_dt = 1, ir_state = two_planet_system, ir_A = ((1, 0), (0, 1)),
      ir_Ainv = ((1, 0), (0, 1)),
      ir_T = ((1, 0), (0, 1)), ir_Ttr = ((1, 0), (0, 1)), ir_D = ((1, 0), (0, 1)),
      ir_eigs = (1, 1), ir_cosh_lmbda_dt = (cosh 1, cosh 1),
      ir_sinh_lmbda_dt = (sinh 1, sinh 1), ir_indexIn = 1, ir_indexOut = 2,
      ir_particleIn = inner_planet, ir_particleOut = outer_planet,
      ir_res_vec = (- 1, 2), ir_Lambdas_vec = (- 2, - 1),
      ir_Lambdas_Mtrx = ((- 1, - 1), (1, 2))\<rparr>"

lemma second_order_operator_built:
  "LinearInclinationResonancOperator_init eigh_diagonal two_planet_system 1 2 (- 1, 2)
     ((1, 0), (0, 1)) 1 = Inr second_order_operator"
  by (simp add: LinearInclinationResonancOperator_init_def bind_err_def eigh_diagonal_def
      two_planet_system_getitem second_order_operator_def)

theorem resonance_apply_invariants_witness:
  "LinearEccentricityResonancOperator_init eigh_diagonal two_planet_system 1 2 (- 1, 2)
     ((1, 0), (0, 1)) (0, 0) 1 = Inr first_order_operator
   \<and> 0 < pp_mu inner_planet \<and> 0 < pp_mu outer_planet
   \<and> dot2 (- 2, - 1) (er_get_Lambdas (er_apply first_order_operator)) = - 4
   \<and> sum2 (er_get_Lambdas (er_apply first_order_operator))
       - sum2 (er_get_Gammas (er_apply first_order_operator)) = 5 / 2
   \<and> LinearInclinationResonancOperator_init eigh_diagonal two_planet_system 1 2 (- 1, 2)
     ((1, 0), (0, 1)) 1 = Inr second_order_operator
   \<and> dot2 (- 2, - 1) (ir_get_Lambdas (ir_apply second_order_operator)) = - 4
   \<and> sum2 (ir_get_Lambdas (ir_apply second_order_operator))
       - sum2 (ir_get_Qs (ir_apply second_order_operator)) = 5 / 2"
proof -
  have mu: "0 < pp_mu inner_planet" "0 < pp_mu outer_planet"
    by (simp_all add: inner_planet_def outer_planet_def)
  have e: "er_set_dt 1 (first_order_operator\<lparr>er_particleIn := inner_planet,
             er_particleOut := outer_planet\<rparr>) = first_order_operator"
    by (simp add: er_set_dt_def first_order_operator_def)
  have i: "ir_set_dt 1 (second_order_operator\<lparr>ir_particleIn := inner_planet,
             ir_particleOut := outer_planet\<rparr>) = second_order_operator"
    by (simp add: ir_set_dt_def second_order_operator_def)
  have before:
    "er_Lambdas_vec first_order_operator = (- 2, - 1)"
    "dot2 (- 2, - 1) (er_get_Lambdas first_order_operator) = - 4"
    "sum2 (er_get_Lambdas first_order_operator) - sum2 (er_get_Gammas first_order_operator) = 5 / 2"
    "ir_Lambdas_vec second_order_operator = (- 2, - 1)"
    "dot2 (- 2, - 1) (ir_get_Lambdas second_order_operator) = - 4"
    "sum2 (ir_get_Lambdas second_order_operator) - sum2 (ir_get_Qs second_order_operator) = 5 / 2"
    by (simp_all add: first_order_operator_def second_order_operator_def er_get_Lambdas_def
        er_get_Gammas_def ir_get_Lambdas_def ir_get_Qs_def pp_Lambda_def pp_Gamma_def pp_Q_def
        inner_planet_def outer_planet_def)
  show ?thesis
    using resonance_apply_invariants
      [where eigh = eigh_diagonal and st = two_planet_system and iIn = 1 and iOut = 2
         and res_vec = "(- 1, 2)" and A = "((1, 0), (0, 1))" and b = "(0, 0)" and ?dt0.0 = 1
         and ?op0.0 = first_order_operator and pIn = inner_planet and pOut = outer_planet
         and dt = 1
         and eigh' = eigh_diagonal and st' = two_planet_system and iIn' = 1 and iOut' = 2
         and res_vec' = "(- 1, 2)" and A' = "((1, 0), (0, 1))" and dt0' = 1
         and op0' = second_order_operator and pIn' = inner_planet and pOut' = outer_planet
         and dt' = 1]
      first_order_operator_built second_order_operator_built mu
    by (simp add: e i before Let_def)
qed

text \<open>
  The product of \<open>res_vec\<close> itself with \<open>(\<Lambda>\<^sub>i\<^sub>n, \<Lambda>\<^sub>o\<^sub>u\<^sub>t)\<close> is not kept: for the vector
  \<open>(- 1, 2)\<close> of the 2:1 resonance it is \<open>3\<close> before the call and
  \<open>3 + 5 (sinh 1)\<^sup>2\<close> after it.
\<close>

theorem resonance_vector_counterexample:
  "LinearEccentricityResonancOperator_init eigh_diagonal two_planet_system 1 2 (- 1, 2)
     ((1, 0), (0, 1)) (0, 0) 1 = Inr first_order_operator
   \<and> dot2 (er_res_vec first_order_operator) (er_get_Lambdas (er_apply first_order_operator))
       \<noteq> dot2 (er_res_vec first_order_operator) (er_get_Lambdas first_order_operator)"
proof -
  have "(cosh (1::real))\<^sup>2 + (sinh (1::real))\<^sup>2 = 1 + 2 * (sinh (1::real))\<^sup>2"
    by (simp add: cosh_square_eq)
  moreover have "(sinh (1::real))\<^sup>2 > 0"
    by simp
  ultimately have "(cosh (1::real))\<^sup>2 + (sinh (1::real))\<^sup>2 > 1"
    by linarith
  moreover have "1 < z \<Longrightarrow> dot2 (- 1, 2) (3 / 2 - z / 2, 1 + z) \<noteq> 3" for z :: real
    by (simp; linarith)
  ultimately have "dot2 (- 1, 2) (3 / 2 - ((cosh 1)\<^sup>2 + (sinh 1)\<^sup>2) / 2, 1 + ((cosh 1)\<^sup>2 + (sinh 1)\<^sup>2)) \<noteq> (3::real)"
    by blast
  moreover have "er_res_vec first_order_operator = (- 1, 2)"
    and "er_get_Lambdas first_order_operator = (1, 2)"
    by (simp_all add: first_order_operator_def er_get_Lambdas_def pp_Lambda_def
        inner_planet_def outer_planet_def)
  ultimately show ?thesis
    by (simp add: first_order_operator_built first_order_operator_applied)
qed

section \<open>The Keplerian drift\<close>

text \<open>
  The six slots of one body in a state vector of the operators, in the order in which
  their methods \<^verbatim>\<open>apply_to_state_vector\<close> name the columns.
\<close>

definition body_slots :: "PoincareParticle \<Rightarrow> real list" where
  "body_slots p = [pp_kappa p, pp_eta p, pp_Lambda p, pp_l p, pp_sigma p, pp_rho p]"

lemma upt_0_Suc: "[0..<Suc n] = 0 # map Suc [0..<n]"
  by (metis upt_conv_Cons map_Suc_upt zero_less_Suc)

lemma rows_of_concat:
  assumes "\<forall>row \<in> set rows. length row = 6"
  shows "map (\<lambda>i. take 6 (drop (6 * i) (concat rows))) [0..<length rows] = rows"
  using assms
proof (induction rows)
  case Nil
  then show ?case by simp
next
  case (Cons row rows)
  then have len: "length row = 6" and rest: "\<forall>r \<in> set rows. length r = 6"
    by simp_all
  have "map (\<lambda>i. take 6 (drop (6 * i) (concat (row # rows)))) [0..<length (row # rows)]
        = take 6 (row @ concat rows)
          # map (\<lambda>i. take 6 (drop (6 * Suc i) (row @ concat rows))) [0..<length rows]"
    by (simp add: upt_0_Suc comp_def del: upt_Suc)
  also have "take 6 (row @ concat rows) = row"
    using len by simp
  also have "map (\<lambda>i. take 6 (drop (6 * Suc i) (row @ concat rows))) [0..<length rows]
             = map (\<lambda>i. take 6 (drop (6 * i) (concat rows))) [0..<length rows]"
    using len by simp
  also have "\<dots> = rows"
    by (rule Cons.IH [OF rest])
  finally show ?case .
qed

lemma length_concat_rows:
  assumes "\<forall>row \<in> set rows. length row = 6"
  shows "length (concat rows) = 6 * length rows"
  using assms by (induction rows) simp_all

lemma reshape_concat:
  assumes "\<forall>row \<in> set rows. length row = 6"
  shows "state_vector_to_individual_vectors (concat rows) = Inr rows"
  using rows_of_concat [OF assms] length_concat_rows [OF assms]
  by (simp add: state_vector_to_individual_vectors_def)

lemma reshape_body_slots:
  "state_vector_to_individual_vectors (concat (map body_slots ps)) = Inr (map body_slots ps)"
  by (rule reshape_concat) (auto simp: body_slots_def)

lemma column_body_slots:
  "column 2 (map body_slots ps) = map pp_Lambda ps"
  "column 3 (map body_slots ps) = map pp_l ps"
  by (simp_all add: column_def body_slots_def)

lemma np_elementwise_same_length:
  "length xs = length ys \<Longrightarrow> np_elementwise f xs ys = Inr (map2 f xs ys)"
  by (simp add: np_elementwise_def)

text \<open>The drift of the mean longitude that both methods compute for one body.\<close>

definition kepler_drift :: "real \<Rightarrow> real \<Rightarrow> real \<Rightarrow> real" where
  "kepler_drift dt g Lambda = dt * (g / Lambda / Lambda / Lambda)"

lemma lambda_dot_same_length:
  assumes "length gs = length Ls"
  shows "bind_err (np_elementwise (/) gs Ls) (\<lambda>q1.
         bind_err (np_elementwise (/) q1 Ls) (\<lambda>q2.
         bind_err (np_elementwise (/) q2 Ls) f)) =
         f (map2 (\<lambda>g L. g / L / L / L) gs Ls)"
proof -
  have 1: "np_elementwise (/) gs Ls = Inr (map2 (/) gs Ls)"
    using assms by (simp add: np_elementwise_same_length)
  have 2: "np_elementwise (/) (map2 (/) gs Ls) Ls = Inr (map2 (/) (map2 (/) gs Ls) Ls)"
    using assms by (simp add: np_elementwise_same_length)
  have 3: "np_elementwise (/) (map2 (/) (map2 (/) gs Ls) Ls) Ls
           = Inr (map2 (/) (map2 (/) (map2 (/) gs Ls) Ls) Ls)"
    using assms by (simp add: np_elementwise_same_length)
  have "map2 (/) (map2 (/) (map2 (/) gs Ls) Ls) Ls = map2 (\<lambda>g L. g / L / L / L) gs Ls"
    using assms by (induction gs Ls rule: list_induct2) simp_all
  then show ?thesis
    by (simp add: 1 2 3 bind_err_def)
qed

lemma Keplerian_flat_on_bodies:
  assumes "length (GGMMmmm op) = length ps"
  shows "Keplerian_apply_to_state_vector op (concat (map body_slots ps)) =
         Inr (concat (map body_slots
                (map (\<lambda>(p, g). p\<lparr>pp_l := pp_l p + kepler_drift (kep_dt op) g (pp_Lambda p)\<rparr>)
                   (zip ps (GGMMmmm op)))))"
proof -
  have rows: "map2 (\<lambda>row v. row[3 := row ! 3 + v]) (map body_slots ps)
                (map ((*) (kep_dt op)) (map2 (\<lambda>g L. g / L / L / L) gs (map pp_Lambda ps)))
              = map body_slots
                  (map (\<lambda>(p, g). p\<lparr>pp_l := pp_l p + kepler_drift (kep_dt op) g (pp_Lambda p)\<rparr>)
                     (zip ps gs))"
    if "length gs = length ps" for gs
    using that
    by (induction gs ps rule: list_induct2)
       (simp_all add: body_slots_def kepler_drift_def pp_kappa_def pp_eta_def pp_Lambda_def
          pp_sigma_def pp_rho_def)
  have len: "length (GGMMmmm op) = length (map pp_Lambda ps)"
    using assms by simp
  have "Keplerian_apply_to_state_vector op (concat (map body_slots ps)) =
        bind_err (add_to_column 3
                    (map ((*) (kep_dt op))
                       (map2 (\<lambda>g L. g / L / L / L) (GGMMmmm op) (map pp_Lambda ps)))
                    (map body_slots ps))
          (\<lambda>vecs'. Inr (concat vecs'))"
    unfolding Keplerian_apply_to_state_vector_def reshape_body_slots
    by (simp only: bind_err_def [of "Inr (map body_slots ps)"] sum.case Let_def
        column_body_slots lambda_dot_same_length [OF len])
  also have "\<dots> = Inr (concat (map body_slots
                (map (\<lambda>(p, g). p\<lparr>pp_l := pp_l p + kepler_drift (kep_dt op) g (pp_Lambda p)\<rparr>)
                   (zip ps (GGMMmmm op)))))"
  proof -
    have "length (map ((*) (kep_dt op))
                    (map2 (\<lambda>g L. g / L / L / L) (GGMMmmm op) (map pp_Lambda ps)))
          = length (map body_slots ps)"
      using assms by simp
    then show ?thesis
      by (simp only: add_to_column_def rows [OF assms] bind_err_def) simp
  qed
  finally show ?thesis .
qed

lemma Keplerian_apply_keeps_operator:
  assumes "Keplerian_apply op = Inr (op', assigned)"
  shows "op' = op"
  using assms
  by (auto simp: Keplerian_apply_def bind_err_def Let_def split: sum.splits)

lemma Keplerian_flat_there_and_back:
  assumes "length (GGMMmmm op) = length ps"
  shows "bind_err (Keplerian_apply_to_state_vector (Keplerian_set_dt dt op)
                     (concat (map body_slots ps)))
           (Keplerian_apply_to_state_vector (Keplerian_set_dt (- dt) op))
         = Inr (concat (map body_slots ps))"
proof -
  define ps1 where
    "ps1 = map (\<lambda>(p, g). p\<lparr>pp_l := pp_l p + kepler_drift dt g (pp_Lambda p)\<rparr>) (zip ps (GGMMmmm op))"
  have len1: "length (GGMMmmm (Keplerian_set_dt (- dt) op)) = length ps1"
    using assms by (simp add: ps1_def Keplerian_set_dt_def)
  have reverse: "map (\<lambda>(p, g). p\<lparr>pp_l := pp_l p + kepler_drift (- dt) g (pp_Lambda p)\<rparr>)
                (zip (map (\<lambda>(p, g). p\<lparr>pp_l := pp_l p + kepler_drift dt g (pp_Lambda p)\<rparr>) (zip ps gs)) gs)
              = ps"
    if "length gs = length ps" for gs
    using that
    by (induction gs ps rule: list_induct2) (simp_all add: kepler_drift_def pp_Lambda_def)
  have "Keplerian_apply_to_state_vector (Keplerian_set_dt dt op) (concat (map body_slots ps))
        = Inr (concat (map body_slots ps1))"
    using Keplerian_flat_on_bodies [of "Keplerian_set_dt dt op" ps] assms
    by (simp add: Keplerian_set_dt_def ps1_def)
  moreover have "Keplerian_apply_to_state_vector (Keplerian_set_dt (- dt) op)
                   (concat (map body_slots ps1)) = Inr (concat (map body_slots ps))"
    using Keplerian_flat_on_bodies [OF len1] reverse [OF assms]
    by (simp add: Keplerian_set_dt_def ps1_def)
  ultimately show ?thesis
    by (simp add: bind_err_def)
qed

definition kepler_operator :: KeplerianEvolutionOperator where
  "kepler_operator =
     \<lparr>kep_dt = 1, kep_state = plain_system, kep_G = 1, kep_m = [2], kep_M = [4],
      GGMMmmm = [128]\<rparr>"

definition circular_planet :: PoincareParticle where
  "circular_planet =
     \<lparr>pp_coordinates = ''canonical heliocentric'', pp_G = 1, pp_mu = 1, pp_M = 4,
      pp_sLambda = 1, pp_l = 0, pp_skappa = 0, pp_seta = 0, pp_ssigma = 0, pp_srho = 0\<rparr>"

lemma plain_system_circular_planet:
  "Poincare_particles_from_1 plain_system = Inr [circular_planet]"
  by (simp add: plain_system_particles circular_planet_def)

lemma kepler_operator_built:
  "KeplerianEvolutionOperator_init plain_system 1 = Inr kepler_operator"
  by (simp add: KeplerianEvolutionOperator_init_def plain_system_circular_planet bind_err_def
      np_elementwise_def kepler_operator_def Let_def)
     (simp add: circular_planet_def pp_m_def mu_M_to_m_Mstar_def plain_system_def)

text \<open>
  C4. The operator is to advance every mean longitude by \<open>dt G\<^sup>2 M\<^sup>2 m\<^sup>3 / \<Lambda>\<^sup>3\<close> and to
  change nothing else. \<^verbatim>\<open>apply_to_state_vector\<close> does so (the two lemmas above), but
  \<^verbatim>\<open>apply\<close> adds the drift to particles that its slice has just built: for the system of
  one planet and \<open>dt = 1\<close> the drift is \<open>128\<close>, the particle built by the loop carries it,
  and the particle of the operator's state still has the mean longitude \<open>0\<close>.
\<close>

theorem Keplerian_apply_failing_input:
  "KeplerianEvolutionOperator_init plain_system 1 = Inr kepler_operator
   \<and> Keplerian_apply kepler_operator = Inr (kepler_operator, [circular_planet\<lparr>pp_l := 128\<rparr>])
   \<and> Poincare_particles_from_1 (kep_state kepler_operator) = Inr [circular_planet]
   \<and> pp_l circular_planet = 0
   \<and> kep_dt kepler_operator * (GGMMmmm kepler_operator ! 0) / (pp_Lambda circular_planet) ^ 3 = 128
   \<and> Keplerian_apply_to_state_vector kepler_operator [0, 0, 1, 0, 0, 0] = Inr [0, 0, 1, 128, 0, 0]"
proof -
  have state: "kep_state kepler_operator = plain_system"
    by (simp add: kepler_operator_def)
  have app: "Keplerian_apply kepler_operator = Inr (kepler_operator, [circular_planet\<lparr>pp_l := 128\<rparr>])"
    unfolding Keplerian_apply_def Keplerian_get_lambda_dot_def state plain_system_circular_planet
    by (simp add: bind_err_def np_elementwise_def Let_def kepler_operator_def pp_Lambda_def
        circular_planet_def)
  have flat: "Keplerian_apply_to_state_vector kepler_operator [0, 0, 1, 0, 0, 0] = Inr [0, 0, 1, 128, 0, 0]"
    by (simp add: Keplerian_apply_to_state_vector_def state_vector_to_individual_vectors_def
        bind_err_def column_def np_elementwise_def add_to_column_def Let_def kepler_operator_def)
  show ?thesis
    using app flat
    by (simp add: kepler_operator_built state plain_system_circular_planet)
       (simp add: kepler_operator_def circular_planet_def pp_Lambda_def)
qed

section \<open>The linear secular operator\<close>

definition square :: "nat \<Rightarrow> 'a list list \<Rightarrow> bool" where
  "square n m = (length m = n \<and> (\<forall>row \<in> set m. length row = n))"

text \<open>
  The complex eccentricity and inclination variables that
  \<^verbatim>\<open>apply_to_state_vector\<close> reads from one row, and the row it writes back.
\<close>

definition x_slot :: "real list \<Rightarrow> complex" where
  "x_slot row = (of_real (row ! 0) - \<i> * of_real (row ! 1)) * of_real rt2_inv"

definition y_slot :: "real list \<Rightarrow> complex" where
  "y_slot row = (of_real (row ! 4) - \<i> * of_real (row ! 5)) * of_real rt2_inv"

definition secular_row :: "complex \<Rightarrow> complex \<Rightarrow> real list \<Rightarrow> real list" where
  "secular_row xn yn row =
     [rt2 * Re xn, - 1 * rt2 * Im xn, row ! 2, row ! 3, rt2 * Re yn, - 1 * rt2 * Im yn]"

lemma six_entries:
  assumes "length row = 6"
  obtains a b c d e f where "row = [a, b, c, d, e, f]"
proof -
  from assms have "row = [row ! 0, row ! 1, row ! 2, row ! 3, row ! 4, row ! 5]"
    by (intro nth_equalityI) (auto simp: nth_Cons' less_Suc_eq numeral_eq_Suc)
  then show ?thesis using that by blast
qed

lemma set_column_same_length:
  "length vals = length vecs \<Longrightarrow> set_column k vals vecs = Inr (map2 (\<lambda>row v. row[k := v]) vecs vals)"
  by (simp add: set_column_def)

lemma np_matvec_square:
  assumes "square n m" and "length v = n"
  shows "np_matvec m v = Inr (map (\<lambda>row. np_dot row v) m)"
  using assms by (simp add: np_matvec_def square_def)

lemma secular_flat_on_rows:
  assumes rows: "\<forall>row \<in> set rows. length row = 6"
    and E: "square (length rows) (ecc_operator_matrix op)"
    and I: "square (length rows) (inc_operator_matrix op)"
  shows "LinearSecular_apply_to_state_vector op (concat rows) =
         Inr (concat (map (\<lambda>i. secular_row
                                   (np_dot (ecc_operator_matrix op ! i) (map x_slot rows))
                                   (np_dot (inc_operator_matrix op ! i) (map y_slot rows))
                                   (rows ! i))
                        [0..<length rows]))"
proof -
  define n where "n = length rows"
  define xnew where "xnew = map (\<lambda>row. np_dot row (map x_slot rows)) (ecc_operator_matrix op)"
  define ynew where "ynew = map (\<lambda>row. np_dot row (map y_slot rows)) (inc_operator_matrix op)"
  have lx: "length xnew = n" and ly: "length ynew = n"
    using E I by (simp_all add: xnew_def ynew_def square_def n_def)
  have mx: "np_matvec (ecc_operator_matrix op) (map x_slot rows) = Inr xnew"
    using np_matvec_square [OF E, of "map x_slot rows"] by (simp add: xnew_def)
  have my: "np_matvec (inc_operator_matrix op) (map y_slot rows) = Inr ynew"
    using np_matvec_square [OF I, of "map y_slot rows"] by (simp add: ynew_def)
  define v0 where "v0 = map2 (\<lambda>row v. row[0 := v]) rows (map (\<lambda>z. rt2 * Re z) xnew)"
  define v1 where "v1 = map2 (\<lambda>row v. row[1 := v]) v0 (map (\<lambda>z. - 1 * rt2 * Im z) xnew)"
  define v4 where "v4 = map2 (\<lambda>row v. row[4 := v]) v1 (map (\<lambda>z. rt2 * Re z) ynew)"
  define v5 where "v5 = map2 (\<lambda>row v. row[5 := v]) v4 (map (\<lambda>z. - 1 * rt2 * Im z) ynew)"
  have l0: "length v0 = n" using lx by (simp add: v0_def n_def)
  have l1: "length v1 = n" using lx l0 by (simp add: v1_def)
  have l4: "length v4 = n" using ly l1 by (simp add: v4_def)
  have l5: "length v5 = n" using ly l4 by (simp add: v5_def)
  have s0: "set_column 0 (map (\<lambda>z. rt2 * Re z) xnew) rows = Inr v0"
    using lx by (simp add: set_column_same_length v0_def n_def)
  have s1: "set_column 1 (map (\<lambda>z. - 1 * rt2 * Im z) xnew) v0 = Inr v1"
    using lx l0 by (simp add: set_column_same_length v1_def)
  have s4: "set_column 4 (map (\<lambda>z. rt2 * Re z) ynew) v1 = Inr v4"
    using ly l1 by (simp add: set_column_same_length v4_def)
  have s5: "set_column 5 (map (\<lambda>z. - 1 * rt2 * Im z) ynew) v4 = Inr v5"
    using ly l4 by (simp add: set_column_same_length v5_def)
  have flat: "LinearSecular_apply_to_state_vector op (concat rows) = Inr (concat v5)"
    unfolding LinearSecular_apply_to_state_vector_def reshape_concat [OF rows]
    by (simp only: bind_err_def sum.case Let_def x_slot_def [symmetric] y_slot_def [symmetric]
        mx my s0 s1 s4 s5)
  have "v5 = map (\<lambda>i. secular_row (xnew ! i) (ynew ! i) (rows ! i)) [0..<n]"
  proof (rule nth_equalityI)
    show "length v5 = length (map (\<lambda>i. secular_row (xnew ! i) (ynew ! i) (rows ! i)) [0..<n])"
      using l5 by simp
  next
    fix i assume "i < length v5"
    then have i: "i < n" using l5 by simp
    then have "length (rows ! i) = 6" using rows by (simp add: n_def)
    then obtain a b c d e f where r: "rows ! i = [a, b, c, d, e, f]"
      by (rule six_entries)
    have "v5 ! i = secular_row (xnew ! i) (ynew ! i) (rows ! i)"
      using i lx ly l0 l1 l4
      by (simp add: v5_def v4_def v1_def v0_def n_def r secular_row_def)
    then show "v5 ! i = map (\<lambda>i. secular_row (xnew ! i) (ynew ! i) (rows ! i)) [0..<n] ! i"
      using i by simp
  qed
  also have "map (\<lambda>i. secular_row (xnew ! i) (ynew ! i) (rows ! i)) [0..<n]
        = map (\<lambda>i. secular_row
                   (np_dot (ecc_operator_matrix op ! i) (map x_slot rows))
                   (np_dot (inc_operator_matrix op ! i) (map y_slot rows))
                   (rows ! i)) [0..<n]"
    using E I by (simp add: xnew_def ynew_def square_def n_def)
  finally have "v5 = map (\<lambda>i. secular_row
                   (np_dot (ecc_operator_matrix op ! i) (map x_slot rows))
                   (np_dot (inc_operator_matrix op ! i) (map y_slot rows))
                   (rows ! i)) [0..<length rows]"
    by (simp only: n_def)
  then show ?thesis
    by (simp only: flat)
qed

text \<open>The product of two square matrices, rows times columns.\<close>

definition mat_mul :: "complex list list \<Rightarrow> complex list list \<Rightarrow> complex list list" where
  "mat_mul B A = map (\<lambda>row. map (\<lambda>k. np_dot row (column k A)) [0..<length A]) B"

lemma np_dot_sum:
  assumes "length xs = n" and "length ys = n"
  shows "np_dot xs ys = (\<Sum>i<n. xs ! i * ys ! i)"
proof -
  have "np_dot xs ys = (\<Sum>i = 0..<length (map2 (*) xs ys). map2 (*) xs ys ! i)"
    unfolding np_dot_def by (rule sum_list_sum_nth)
  also have "\<dots> = (\<Sum>i = 0..<n. xs ! i * ys ! i)"
    using assms by (intro sum.cong) simp_all
  finally show ?thesis by (simp add: atLeast0LessThan)
qed

lemma matvec_of_product:
  fixes A :: "complex list list"
  assumes A: "square n A" and b: "length brow = n" and x: "length x = n"
  shows "np_dot (map (\<lambda>k. np_dot brow (column k A)) [0..<n]) x =
         np_dot brow (map (\<lambda>r. np_dot r x) A)"
proof -
  have lenA: "length A = n" and rowA: "\<And>j. j < n \<Longrightarrow> length (A ! j) = n"
    using A by (simp_all add: square_def)
  have col: "np_dot brow (column k A) = (\<Sum>j<n. brow ! j * A ! j ! k)" for k
  proof -
    have "np_dot brow (column k A) = (\<Sum>j<n. brow ! j * column k A ! j)"
      using b lenA by (intro np_dot_sum) (simp_all add: column_def)
    also have "\<dots> = (\<Sum>j<n. brow ! j * A ! j ! k)"
      using lenA by (intro sum.cong) (simp_all add: column_def)
    finally show ?thesis .
  qed
  have row: "np_dot (A ! j) x = (\<Sum>k<n. A ! j ! k * x ! k)" if "j < n" for j
    using rowA [OF that] x by (rule np_dot_sum)
  have "np_dot (map (\<lambda>k. np_dot brow (column k A)) [0..<n]) x
        = (\<Sum>k<n. map (\<lambda>k. np_dot brow (column k A)) [0..<n] ! k * x ! k)"
    using x by (intro np_dot_sum) simp_all
  also have "\<dots> = (\<Sum>k<n. (\<Sum>j<n. brow ! j * A ! j ! k) * x ! k)"
    by (intro sum.cong) (simp_all add: col)
  also have "\<dots> = (\<Sum>k<n. \<Sum>j<n. brow ! j * (A ! j ! k * x ! k))"
    by (simp add: sum_distrib_right mult.assoc)
  also have "\<dots> = (\<Sum>j<n. \<Sum>k<n. brow ! j * (A ! j ! k * x ! k))"
    by (rule sum.swap)
  also have "\<dots> = (\<Sum>j<n. brow ! j * (\<Sum>k<n. A ! j ! k * x ! k))"
    by (simp add: sum_distrib_left)
  also have "\<dots> = (\<Sum>j<n. brow ! j * map (\<lambda>r. np_dot r x) A ! j)"
    using lenA by (intro sum.cong) (simp_all add: row)
  also have "\<dots> = np_dot brow (map (\<lambda>r. np_dot r x) A)"
    using b lenA by (intro np_dot_sum [symmetric]) simp_all
  finally show ?thesis .
qed

lemma mat_mul_row:
  assumes "square n A" and "square n B" and "i < n" and "length x = n"
  shows "np_dot (mat_mul B A ! i) x = np_dot (B ! i) (map (\<lambda>r. np_dot r x) A)"
proof -
  have "mat_mul B A ! i = map (\<lambda>k. np_dot (B ! i) (column k A)) [0..<n]"
    using assms by (simp add: mat_mul_def square_def)
  moreover have "length (B ! i) = n"
    using assms by (simp add: square_def)
  ultimately show ?thesis
    using matvec_of_product [OF assms(1) _ assms(4), of "B ! i"] by simp
qed

lemma rt2_product: "rt2 * rt2_inv = 1"
  by (simp add: rt2_def rt2_inv_def)

lemma x_slot_secular_row: "x_slot (secular_row xn yn row) = xn"
proof -
  have "x_slot (secular_row xn yn row)
        = (of_real (rt2 * Re xn) + \<i> * of_real (rt2 * Im xn)) * of_real rt2_inv"
    by (simp add: x_slot_def secular_row_def)
  also have "\<dots> = of_real (rt2 * rt2_inv) * (of_real (Re xn) + \<i> * of_real (Im xn))"
    by (simp add: algebra_simps)
  also have "\<dots> = xn"
    by (simp add: rt2_product complex_eq_iff)
  finally show ?thesis .
qed

lemma y_slot_secular_row: "y_slot (secular_row xn yn row) = yn"
proof -
  have "y_slot (secular_row xn yn row)
        = (of_real (rt2 * Re yn) + \<i> * of_real (rt2 * Im yn)) * of_real rt2_inv"
    by (simp add: y_slot_def secular_row_def)
  also have "\<dots> = of_real (rt2 * rt2_inv) * (of_real (Re yn) + \<i> * of_real (Im yn))"
    by (simp add: algebra_simps)
  also have "\<dots> = yn"
    by (simp add: rt2_product complex_eq_iff)
  finally show ?thesis .
qed

lemma secular_row_again:
  "secular_row xn' yn' (secular_row xn yn row) = secular_row xn' yn' row"
  by (simp add: secular_row_def)

lemma rows_of_state_vector:
  assumes "length sv = 6 * n"
  shows "concat (map (\<lambda>i. take 6 (drop (6 * i) sv)) [0..<n]) = sv"
  using assms
proof (induction n arbitrary: sv)
  case 0
  then show ?case by simp
next
  case (Suc n)
  have "length (drop 6 sv) = 6 * n"
    using Suc.prems by simp
  from Suc.IH [OF this]
  have "concat (map (\<lambda>i. take 6 (drop (6 * Suc i) sv)) [0..<n]) = drop 6 sv"
    by (simp add: add.commute)
  then have "concat (map (\<lambda>i. take 6 (drop (6 * i) sv)) [0..<Suc n]) = take 6 sv @ drop 6 sv"
    by (simp add: upt_0_Suc comp_def del: upt_Suc)
  then show ?case by simp
qed

lemma map_over_indices: "map (\<lambda>i. f (xs ! i)) [0..<length xs] = map f xs"
  by (intro nth_equalityI) simp_all

lemma secular_flat_twice:
  assumes rows: "\<forall>row \<in> set rows. length row = 6"
    and E1: "square (length rows) (ecc_operator_matrix op1)"
    and I1: "square (length rows) (inc_operator_matrix op1)"
    and E2: "square (length rows) (ecc_operator_matrix op2)"
    and I2: "square (length rows) (inc_operator_matrix op2)"
  shows "bind_err (LinearSecular_apply_to_state_vector op1 (concat rows))
           (LinearSecular_apply_to_state_vector op2) =
         Inr (concat (map (\<lambda>i. secular_row
                 (np_dot (ecc_operator_matrix op2 ! i)
                    (map (\<lambda>r. np_dot r (map x_slot rows)) (ecc_operator_matrix op1)))
                 (np_dot (inc_operator_matrix op2 ! i)
                    (map (\<lambda>r. np_dot r (map y_slot rows)) (inc_operator_matrix op1)))
                 (rows ! i))
               [0..<length rows]))"
proof -
  define n where "n = length rows"
  define x1 where "x1 = map (\<lambda>r. np_dot r (map x_slot rows)) (ecc_operator_matrix op1)"
  define y1 where "y1 = map (\<lambda>r. np_dot r (map y_slot rows)) (inc_operator_matrix op1)"
  define rows1 where
    "rows1 = map (\<lambda>i. secular_row (np_dot (ecc_operator_matrix op1 ! i) (map x_slot rows))
                                   (np_dot (inc_operator_matrix op1 ! i) (map y_slot rows))
                                   (rows ! i)) [0..<length rows]"
  have lenE: "length (ecc_operator_matrix op1) = length rows"
    and lenI: "length (inc_operator_matrix op1) = length rows"
    using E1 I1 by (simp_all add: square_def)
  have first: "LinearSecular_apply_to_state_vector op1 (concat rows) = Inr (concat rows1)"
    unfolding rows1_def by (rule secular_flat_on_rows [OF rows E1 I1])
  have len1: "length rows1 = length rows"
    by (simp add: rows1_def)
  have six1: "\<forall>row \<in> set rows1. length row = 6"
    by (auto simp: rows1_def secular_row_def)
  have xs: "map x_slot rows1 = x1"
  proof -
    have "map x_slot rows1
          = map (\<lambda>i. np_dot (ecc_operator_matrix op1 ! i) (map x_slot rows))
              [0..<length (ecc_operator_matrix op1)]"
      by (simp add: rows1_def comp_def x_slot_secular_row lenE)
    then show ?thesis
      unfolding x1_def
      using map_over_indices [of "\<lambda>r. np_dot r (map x_slot rows)" "ecc_operator_matrix op1"]
      by simp
  qed
  have ys: "map y_slot rows1 = y1"
  proof -
    have "map y_slot rows1
          = map (\<lambda>i. np_dot (inc_operator_matrix op1 ! i) (map y_slot rows))
              [0..<length (inc_operator_matrix op1)]"
      by (simp add: rows1_def comp_def y_slot_secular_row lenI)
    then show ?thesis
      unfolding y1_def
      using map_over_indices [of "\<lambda>r. np_dot r (map y_slot rows)" "inc_operator_matrix op1"]
      by simp
  qed
  have second: "LinearSecular_apply_to_state_vector op2 (concat rows1) =
        Inr (concat (map (\<lambda>i. secular_row (np_dot (ecc_operator_matrix op2 ! i) x1)
                                   (np_dot (inc_operator_matrix op2 ! i) y1)
                                   (rows1 ! i)) [0..<length rows]))"
    using secular_flat_on_rows [OF six1, of op2] E2 I2
    by (simp add: len1 xs ys)
  have "map (\<lambda>i. secular_row (np_dot (ecc_operator_matrix op2 ! i) x1)
                                   (np_dot (inc_operator_matrix op2 ! i) y1)
                                   (rows1 ! i)) [0..<length rows]
        = map (\<lambda>i. secular_row (np_dot (ecc_operator_matrix op2 ! i) x1)
                                   (np_dot (inc_operator_matrix op2 ! i) y1)
                                   (rows ! i)) [0..<length rows]"
    by (rule map_cong [OF refl]) (simp add: rows1_def secular_row_again)
  with second have "LinearSecular_apply_to_state_vector op2 (concat rows1) =
        Inr (concat (map (\<lambda>i. secular_row (np_dot (ecc_operator_matrix op2 ! i) x1)
                                   (np_dot (inc_operator_matrix op2 ! i) y1)
                                   (rows ! i)) [0..<length rows]))"
    by (simp only:)
  then show ?thesis
    by (simp add: first bind_err_def x1_def y1_def)
qed

lemma LinearSecular_apply_keeps_operator:
  assumes "LinearSecular_apply op = Inr (op', assigned_x, assigned_y)"
  shows "op' = op"
  using assms
  by (auto simp: LinearSecular_apply_def bind_err_def split: sum.splits)

lemma LinearSecular_flat_composition:
  assumes rows: "\<forall>row \<in> set rows. length row = 6"
    and shape: "\<And>t. square (length rows) (expm (mat_scale (- \<i> * of_real t) (ecc_matrix op)))"
      "\<And>t. square (length rows) (expm (mat_scale (- \<i> * of_real t) (inc_matrix op)))"
    and law_ecc: "expm (mat_scale (- \<i> * of_real (dt1 + dt2)) (ecc_matrix op)) =
                  mat_mul (expm (mat_scale (- \<i> * of_real dt2) (ecc_matrix op)))
                          (expm (mat_scale (- \<i> * of_real dt1) (ecc_matrix op)))"
    and law_inc: "expm (mat_scale (- \<i> * of_real (dt1 + dt2)) (inc_matrix op)) =
                  mat_mul (expm (mat_scale (- \<i> * of_real dt2) (inc_matrix op)))
                          (expm (mat_scale (- \<i> * of_real dt1) (inc_matrix op)))"
  shows "bind_err (LinearSecular_apply_to_state_vector (LinearSecular_set_dt expm dt1 op) (concat rows))
           (LinearSecular_apply_to_state_vector (LinearSecular_set_dt expm dt2 op))
         = LinearSecular_apply_to_state_vector (LinearSecular_set_dt expm (dt1 + dt2) op) (concat rows)"
    and "\<exists>v. LinearSecular_apply_to_state_vector (LinearSecular_set_dt expm (dt1 + dt2) op) (concat rows) = Inr v"
proof -
  define E where "E t = expm (mat_scale (- \<i> * of_real t) (ecc_matrix op))" for t
  define I where "I t = expm (mat_scale (- \<i> * of_real t) (inc_matrix op))" for t
  have ops: "ecc_operator_matrix (LinearSecular_set_dt expm t op) = E t"
    "inc_operator_matrix (LinearSecular_set_dt expm t op) = I t" for t
    by (simp_all add: LinearSecular_set_dt_def E_def I_def)
  have sq: "square (length rows) (E t)" "square (length rows) (I t)" for t
    using shape by (simp_all add: E_def I_def)
  have twice: "bind_err (LinearSecular_apply_to_state_vector (LinearSecular_set_dt expm dt1 op) (concat rows))
           (LinearSecular_apply_to_state_vector (LinearSecular_set_dt expm dt2 op)) =
         Inr (concat (map (\<lambda>i. secular_row
                 (np_dot (E dt2 ! i) (map (\<lambda>r. np_dot r (map x_slot rows)) (E dt1)))
                 (np_dot (I dt2 ! i) (map (\<lambda>r. np_dot r (map y_slot rows)) (I dt1)))
                 (rows ! i))
               [0..<length rows]))"
    using secular_flat_twice [OF rows, of "LinearSecular_set_dt expm dt1 op" "LinearSecular_set_dt expm dt2 op"]
    by (simp add: ops sq)
  have once: "LinearSecular_apply_to_state_vector (LinearSecular_set_dt expm (dt1 + dt2) op) (concat rows) =
         Inr (concat (map (\<lambda>i. secular_row
                 (np_dot (E (dt1 + dt2) ! i) (map x_slot rows))
                 (np_dot (I (dt1 + dt2) ! i) (map y_slot rows))
                 (rows ! i))
               [0..<length rows]))"
    using secular_flat_on_rows [OF rows, of "LinearSecular_set_dt expm (dt1 + dt2) op"]
    by (simp add: ops sq)
  have "map (\<lambda>i. secular_row
                 (np_dot (E (dt1 + dt2) ! i) (map x_slot rows))
                 (np_dot (I (dt1 + dt2) ! i) (map y_slot rows))
                 (rows ! i)) [0..<length rows]
        = map (\<lambda>i. secular_row
                 (np_dot (E dt2 ! i) (map (\<lambda>r. np_dot r (map x_slot rows)) (E dt1)))
                 (np_dot (I dt2 ! i) (map (\<lambda>r. np_dot r (map y_slot rows)) (I dt1)))
                 (rows ! i)) [0..<length rows]"
  proof (rule map_cong [OF refl])
    fix i assume "i \<in> set [0..<length rows]"
    then have i: "i < length rows" by simp
    have "E (dt1 + dt2) = mat_mul (E dt2) (E dt1)" "I (dt1 + dt2) = mat_mul (I dt2) (I dt1)"
      using law_ecc law_inc by (simp_all add: E_def I_def)
    then have "np_dot (E (dt1 + dt2) ! i) (map x_slot rows)
                 = np_dot (E dt2 ! i) (map (\<lambda>r. np_dot r (map x_slot rows)) (E dt1))"
      and "np_dot (I (dt1 + dt2) ! i) (map y_slot rows)
                 = np_dot (I dt2 ! i) (map (\<lambda>r. np_dot r (map y_slot rows)) (I dt1))"
      using mat_mul_row [OF sq(1) [of dt1] sq(1) [of dt2] i, of "map x_slot rows"]
        mat_mul_row [OF sq(2) [of dt1] sq(2) [of dt2] i, of "map y_slot rows"]
      by simp_all
    then show "secular_row
                 (np_dot (E (dt1 + dt2) ! i) (map x_slot rows))
                 (np_dot (I (dt1 + dt2) ! i) (map y_slot rows))
                 (rows ! i)
        = secular_row
                 (np_dot (E dt2 ! i) (map (\<lambda>r. np_dot r (map x_slot rows)) (E dt1)))
                 (np_dot (I dt2 ! i) (map (\<lambda>r. np_dot r (map y_slot rows)) (I dt1)))
                 (rows ! i)"
      by simp
  qed
  then show "bind_err (LinearSecular_apply_to_state_vector (LinearSecular_set_dt expm dt1 op) (concat rows))
           (LinearSecular_apply_to_state_vector (LinearSecular_set_dt expm dt2 op))
         = LinearSecular_apply_to_state_vector (LinearSecular_set_dt expm (dt1 + dt2) op) (concat rows)"
    by (simp only: twice once)
  show "\<exists>v. LinearSecular_apply_to_state_vector (LinearSecular_set_dt expm (dt1 + dt2) op) (concat rows) = Inr v"
    using once by blast
qed

text \<open>
  The rows of a state vector of \<open>n\<close> bodies, and the rows that the claim C3 describes: body
  \<open>i\<close> gets the \<open>i\<close>-th entry of \<open>E x\<close> and of \<open>I y\<close> as its new complex variables, where
  \<open>x\<close> and \<open>y\<close> are the vectors of the complex variables of all bodies.
\<close>

definition body_rows :: "nat \<Rightarrow> real list \<Rightarrow> real list list" where
  "body_rows n state_vector = map (\<lambda>i. take 6 (drop (6 * i) state_vector)) [0..<n]"

definition secular_image ::
  "complex list list \<Rightarrow> complex list list \<Rightarrow> real list list \<Rightarrow> real list list" where
  "secular_image E I rows =
     map (\<lambda>i. secular_row (np_dot (E ! i) (map x_slot rows)) (np_dot (I ! i) (map y_slot rows))
                (rows ! i))
       [0..<length rows]"

text \<open>
  One planet: the coupling matrices are one by one, and the exponential of a one by one
  matrix is the exponential of its entry.
\<close>

definition expm_1x1 :: "complex list list \<Rightarrow> complex list list" where
  "expm_1x1 m = map (map exp) m"

definition one_planet_secular :: LinearSecularEvolutionOperator where
  "one_planet_secular =
     LinearSecularEvolutionOperator_init (\<lambda>s. ([[1]], [[2]])) expm_1x1 plain_system 0"

lemma one_planet_secular_matrices:
  "ecc_matrix one_planet_secular = [[1]]" "inc_matrix one_planet_secular = [[2]]"
  by (simp_all add: one_planet_secular_def LinearSecularEvolutionOperator_init_def)

text \<open>
  A planet with \<open>kappa = 1\<close>, and the operator on its system with the timestep \<open>pi\<close>: the
  eccentricity matrix is the one by one matrix \<open>1\<close>, so the operator matrix is
  \<open>exp (-\<i> pi) = -1\<close>.
\<close>

definition eccentric_planet :: PoincareParticle where
  "eccentric_planet =
     \<lparr>pp_coordinates = ''canonical heliocentric'', pp_G = 1, pp_mu = 1, pp_M = 4,
      pp_sLambda = 1, pp_l = 0, pp_skappa = 1, pp_seta = 0, pp_ssigma = 0, pp_srho = 0\<rparr>"

definition eccentric_system :: Poincare where
  "eccentric_system =
     \<lparr>sys_G = 1, masses = [Some 2, Some 2], sys_coordinates = ''canonical heliocentric'',
      qpvars = [''lambda1'', ''eta1'', ''rho1'', ''Lambda1'', ''kappa1'', ''sigma1''],
      state_values = [0, 0, 0, 1, 1, 0], sys_t = 0\<rparr>"

definition half_turn_secular :: LinearSecularEvolutionOperator where
  "half_turn_secular =
     LinearSecularEvolutionOperator_init (\<lambda>s. ([[1]], [[2]])) expm_1x1 eccentric_system pi"

lemma eccentric_planet_masses:
  "pp_Mstar eccentric_planet = Some 2" "pp_m eccentric_planet = Some 2"
  by (simp_all add: eccentric_planet_def pp_Mstar_def pp_m_def mu_M_to_m_Mstar_def)

lemma eccentric_system_built:
  "Poincare_init 1 [eccentric_planet] ''canonical heliocentric'' 0 = Inr eccentric_system"
  by (simp add: Poincare_init_def eccentric_planet_masses PhaseSpaceState_init_def
      eccentric_system_def format_nat_1)
     (simp add: eccentric_planet_def pp_Lambda_def pp_kappa_def pp_sigma_def pp_eta_def
      pp_rho_def digit_char_def)

lemma eccentric_system_N: "Poincare_N eccentric_system = 2"
  by (simp add: Poincare_N_def Ndof_def eccentric_system_def)

lemma eccentric_system_getitem: "Poincare_getitem eccentric_system 1 = Inr eccentric_planet"
  unfolding Poincare_getitem_def eccentric_system_N
  by (simp add: Ndof_def py_index_def bind_err_def Let_def PoincareParticle_init_def
      init_masses_def default_kwargs_def eccentric_system_def div_by_mu_def eccentric_planet_def)

lemma eccentric_system_particles:
  "Poincare_particles_from_1 eccentric_system = Inr [eccentric_planet]"
  by (simp add: Poincare_particles_from_1_def eccentric_system_N upt_rec eccentric_system_getitem)

lemma exp_half_turn:
  "exp (- (\<i> * complex_of_real pi)) = - 1" "exp (- (\<i> * complex_of_real pi * 2)) = 1"
proof -
  show "exp (- (\<i> * complex_of_real pi)) = - 1"
    by (simp add: exp_minus)
  have "exp (- (\<i> * complex_of_real pi * 2)) = inverse (exp (\<i> * (complex_of_real pi * 2)))"
    by (simp only: exp_minus mult.assoc)
  then show "exp (- (\<i> * complex_of_real pi * 2)) = 1"
    by simp
qed

lemma half_turn_secular_fields:
  "ls_state half_turn_secular = eccentric_system"
  "ecc_operator_matrix half_turn_secular = [[- 1]]"
  "inc_operator_matrix half_turn_secular = [[1]]"
  by (simp_all add: half_turn_secular_def LinearSecularEvolutionOperator_init_def expm_1x1_def
      mat_scale_def exp_half_turn)

lemma half_turn_x: "LinearSecular_get_x_vector half_turn_secular = Inr [of_real rt2_inv]"
  by (simp add: LinearSecular_get_x_vector_def half_turn_secular_fields eccentric_system_particles
      bind_err_def np_elementwise_def)
     (simp add: eccentric_planet_def pp_kappa_def pp_eta_def)

lemma half_turn_y: "LinearSecular_get_y_vector half_turn_secular = Inr [0]"
  by (simp add: LinearSecular_get_y_vector_def half_turn_secular_fields eccentric_system_particles
      bind_err_def np_elementwise_def)
     (simp add: eccentric_planet_def pp_sigma_def pp_rho_def)

lemma half_turn_apply:
  "LinearSecular_apply half_turn_secular =
     Inr (half_turn_secular, [eccentric_planet\<lparr>pp_skappa := - 1\<rparr>], [eccentric_planet])"
  by (simp add: LinearSecular_apply_def half_turn_x half_turn_y bind_err_def np_matvec_def
      np_dot_def half_turn_secular_fields LinearSecular_set_x_vector_def
      LinearSecular_set_y_vector_def eccentric_system_particles)
     (simp add: eccentric_planet_def pp_set_kappa_def pp_set_eta_def pp_set_sigma_def
      pp_set_rho_def rt2_def rt2_inv_def)

lemma half_turn_flat:
  "LinearSecular_apply_to_state_vector half_turn_secular [1, 0, 1, 0, 0, 0] = Inr [- 1, 0, 1, 0, 0, 0]"
  by (simp add: LinearSecular_apply_to_state_vector_def state_vector_to_individual_vectors_def
      bind_err_def Let_def np_matvec_def np_dot_def half_turn_secular_fields set_column_def
      rt2_def rt2_inv_def)

text \<open>
  C3. The operator is to map \<open>x = (kappa - \<i> eta) / sqrt 2\<close> and
  \<open>y = (sigma - \<i> rho) / sqrt 2\<close> through \<open>exp (-\<i> dt M)\<close>, so that the timesteps \<open>dt1\<close> and
  \<open>dt2\<close> compose to \<open>dt1 + dt2\<close>. \<^verbatim>\<open>scipy.linalg.expm\<close> is the parameter \<open>expm\<close>, taken to
  map the \<open>n\<close> by \<open>n\<close> coupling matrices to \<open>n\<close> by \<open>n\<close> matrices.

  \<^verbatim>\<open>apply_to_state_vector\<close> does what the claim says: it returns the rows of
  \<^const>\<open>secular_image\<close> for the two exponentials, every row with the new \<open>x\<close> and \<open>y\<close> and
  the old \<open>Lambda\<close> and \<open>l\<close>, and under the law of the exponential
  \<open>expm (-\<i> (dt1 + dt2) M) = expm (-\<i> dt2 M) expm (-\<i> dt1 M)\<close> two calls compose.

  \<^verbatim>\<open>apply\<close> does not: \<^verbatim>\<open>_set_x_vector\<close> and \<^verbatim>\<open>_set_y_vector\<close> assign to the particles that
  their own slices \<^verbatim>\<open>self.particles[1:]\<close> have just built, so the method returns with the
  operator and its state as they were. For the planet with \<open>kappa = 1\<close> and \<open>dt = pi\<close> the
  new \<open>kappa\<close> is \<open>-1\<close>; the particle of the first loop carries it, the particle of the
  second loop and the state of the operator still have \<open>kappa = 1\<close>. This is the defect
  of \<^verbatim>\<open>KeplerianEvolutionOperator.apply\<close> (C4) once more.
\<close>

theorem LinearSecular_apply_failing_input:
  "(length state_vector = 6 * n \<longrightarrow>
    (\<forall>t. square n (expm (mat_scale (- \<i> * of_real t) (ecc_matrix op)))
       \<and> square n (expm (mat_scale (- \<i> * of_real t) (inc_matrix op)))) \<longrightarrow>
    LinearSecular_apply_to_state_vector (LinearSecular_set_dt expm dt op) state_vector
      = Inr (concat (secular_image (expm (mat_scale (- \<i> * of_real dt) (ecc_matrix op)))
                                   (expm (mat_scale (- \<i> * of_real dt) (inc_matrix op)))
                                   (body_rows n state_vector)))
    \<and> (expm (mat_scale (- \<i> * of_real (dt1 + dt2)) (ecc_matrix op)) =
         mat_mul (expm (mat_scale (- \<i> * of_real dt2) (ecc_matrix op)))
                 (expm (mat_scale (- \<i> * of_real dt1) (ecc_matrix op))) \<longrightarrow>
       expm (mat_scale (- \<i> * of_real (dt1 + dt2)) (inc_matrix op)) =
         mat_mul (expm (mat_scale (- \<i> * of_real dt2) (inc_matrix op)))
                 (expm (mat_scale (- \<i> * of_real dt1) (inc_matrix op))) \<longrightarrow>
       bind_err (LinearSecular_apply_to_state_vector (LinearSecular_set_dt expm dt1 op) state_vector)
         (LinearSecular_apply_to_state_vector (LinearSecular_set_dt expm dt2 op))
       = LinearSecular_apply_to_state_vector (LinearSecular_set_dt expm (dt1 + dt2) op) state_vector))
   \<and> (LinearSecular_apply op = Inr (op', assigned_x, assigned_y) \<longrightarrow> op' = op)
   \<and> x_slot (secular_row xn yn row) = xn \<and> y_slot (secular_row xn yn row) = yn
   \<and> secular_row xn yn row ! 2 = row ! 2 \<and> secular_row xn yn row ! 3 = row ! 3
   \<and> Poincare_init 1 [eccentric_planet] ''canonical heliocentric'' 0 = Inr eccentric_system
   \<and> ecc_operator_matrix half_turn_secular = [[- 1]]
   \<and> LinearSecular_apply half_turn_secular =
       Inr (half_turn_secular, [eccentric_planet\<lparr>pp_skappa := - 1\<rparr>], [eccentric_planet])
   \<and> Poincare_particles_from_1 (ls_state half_turn_secular) = Inr [eccentric_planet]
   \<and> pp_kappa eccentric_planet = 1
   \<and> LinearSecular_apply_to_state_vector half_turn_secular [1, 0, 1, 0, 0, 0]
       = Inr [- 1, 0, 1, 0, 0, 0]"
  (is "?flat \<and> ?idle \<and> ?x \<and> ?y \<and> ?L \<and> ?l \<and> ?built \<and> ?matrix \<and> ?apply \<and> ?state \<and> ?kappa \<and> ?sibling")
proof -
  have flat: ?flat
  proof (intro impI conjI)
    assume len: "length state_vector = 6 * n"
      and shape: "\<forall>t. square n (expm (mat_scale (- \<i> * of_real t) (ecc_matrix op)))
         \<and> square n (expm (mat_scale (- \<i> * of_real t) (inc_matrix op)))"
    define rows where "rows = body_rows n state_vector"
    have sv: "concat rows = state_vector"
      unfolding rows_def body_rows_def by (rule rows_of_state_vector [OF len])
    have six: "\<forall>row \<in> set rows. length row = 6"
      using len by (auto simp: rows_def body_rows_def)
    have n: "length rows = n"
      by (simp add: rows_def body_rows_def)
    have sq: "\<And>t. square (length rows) (expm (mat_scale (- \<i> * of_real t) (ecc_matrix op)))"
      "\<And>t. square (length rows) (expm (mat_scale (- \<i> * of_real t) (inc_matrix op)))"
      using shape by (simp_all add: n)
    have E: "square (length rows) (ecc_operator_matrix (LinearSecular_set_dt expm dt op))"
      and I: "square (length rows) (inc_operator_matrix (LinearSecular_set_dt expm dt op))"
      using sq by (simp_all add: LinearSecular_set_dt_def)
    have "LinearSecular_apply_to_state_vector (LinearSecular_set_dt expm dt op) (concat rows)
      = Inr (concat (secular_image (expm (mat_scale (- \<i> * of_real dt) (ecc_matrix op)))
                                   (expm (mat_scale (- \<i> * of_real dt) (inc_matrix op))) rows))"
      using secular_flat_on_rows [OF six E I]
      by (simp add: secular_image_def LinearSecular_set_dt_def)
    then show "LinearSecular_apply_to_state_vector (LinearSecular_set_dt expm dt op) state_vector
      = Inr (concat (secular_image (expm (mat_scale (- \<i> * of_real dt) (ecc_matrix op)))
                                   (expm (mat_scale (- \<i> * of_real dt) (inc_matrix op)))
                                   (body_rows n state_vector)))"
      by (simp only: sv rows_def [symmetric])
    assume law_ecc: "expm (mat_scale (- \<i> * of_real (dt1 + dt2)) (ecc_matrix op)) =
         mat_mul (expm (mat_scale (- \<i> * of_real dt2) (ecc_matrix op)))
                 (expm (mat_scale (- \<i> * of_real dt1) (ecc_matrix op)))"
      and law_inc: "expm (mat_scale (- \<i> * of_real (dt1 + dt2)) (inc_matrix op)) =
         mat_mul (expm (mat_scale (- \<i> * of_real dt2) (inc_matrix op)))
                 (expm (mat_scale (- \<i> * of_real dt1) (inc_matrix op)))"
    show "bind_err (LinearSecular_apply_to_state_vector (LinearSecular_set_dt expm dt1 op) state_vector)
         (LinearSecular_apply_to_state_vector (LinearSecular_set_dt expm dt2 op))
       = LinearSecular_apply_to_state_vector (LinearSecular_set_dt expm (dt1 + dt2) op) state_vector"
      using LinearSecular_flat_composition(1) [OF six sq law_ecc law_inc] by (simp only: sv)
  qed
  have idle: ?idle
    by (auto dest: LinearSecular_apply_keeps_operator)
  have slots: "?x" "?y" "?L" "?l"
    by (simp_all add: x_slot_secular_row y_slot_secular_row) (simp_all add: secular_row_def)
  have kappa: ?kappa
    by (simp add: eccentric_planet_def pp_kappa_def)
  have state: ?state
    by (simp add: half_turn_secular_fields eccentric_system_particles)
  show ?thesis
    using flat idle slots kappa state eccentric_system_built half_turn_secular_fields(2)
      half_turn_apply half_turn_flat
    by (simp only: simp_thms)
qed

theorem LinearSecular_apply_failing_input_witness:
  "LinearSecular_apply_to_state_vector (LinearSecular_set_dt expm_1x1 pi half_turn_secular)
      [1, 0, 1, 0, 0, 0]
    = Inr (concat (secular_image
             (expm_1x1 (mat_scale (- \<i> * of_real pi) (ecc_matrix half_turn_secular)))
             (expm_1x1 (mat_scale (- \<i> * of_real pi) (inc_matrix half_turn_secular)))
             (body_rows 1 [1, 0, 1, 0, 0, 0])))
   \<and> bind_err (LinearSecular_apply_to_state_vector (LinearSecular_set_dt expm_1x1 1 half_turn_secular)
                 [1, 0, 1, 0, 0, 0])
        (LinearSecular_apply_to_state_vector (LinearSecular_set_dt expm_1x1 2 half_turn_secular))
      = LinearSecular_apply_to_state_vector (LinearSecular_set_dt expm_1x1 (1 + 2) half_turn_secular)
          [1, 0, 1, 0, 0, 0]"
proof -
  have matrices: "ecc_matrix half_turn_secular = [[1]]" "inc_matrix half_turn_secular = [[2]]"
    by (simp_all add: half_turn_secular_def LinearSecularEvolutionOperator_init_def)
  have len: "length [1, 0, 1, 0, 0, 0 :: real] = 6 * 1"
    by simp
  have shape: "\<forall>t. square 1 (expm_1x1 (mat_scale (- \<i> * of_real t) (ecc_matrix half_turn_secular)))
       \<and> square 1 (expm_1x1 (mat_scale (- \<i> * of_real t) (inc_matrix half_turn_secular)))"
    by (simp add: matrices expm_1x1_def mat_scale_def square_def)
  have law_ecc: "expm_1x1 (mat_scale (- \<i> * of_real (1 + 2)) (ecc_matrix half_turn_secular)) =
      mat_mul (expm_1x1 (mat_scale (- \<i> * of_real 2) (ecc_matrix half_turn_secular)))
              (expm_1x1 (mat_scale (- \<i> * of_real 1) (ecc_matrix half_turn_secular)))"
    by (simp add: matrices expm_1x1_def mat_scale_def mat_mul_def column_def
        np_dot_def mult_exp_exp mult.commute)
  have law_inc: "expm_1x1 (mat_scale (- \<i> * of_real (1 + 2)) (inc_matrix half_turn_secular)) =
      mat_mul (expm_1x1 (mat_scale (- \<i> * of_real 2) (inc_matrix half_turn_secular)))
              (expm_1x1 (mat_scale (- \<i> * of_real 1) (inc_matrix half_turn_secular)))"
    by (simp add: matrices expm_1x1_def mat_scale_def mat_mul_def column_def
        np_dot_def mult_exp_exp mult.commute)
  show ?thesis
    using LinearSecular_apply_failing_input
      [where state_vector = "[1, 0, 1, 0, 0, 0]" and n = 1 and expm = expm_1x1
         and op = half_turn_secular and dt = pi and ?dt1.0 = 1 and ?dt2.0 = 2
         and op' = half_turn_secular]
      len shape law_ecc law_inc
    by blast
qed

section \<open>The layouts of the flat vectors\<close>

lemma triples_nth:
  assumes "j < length xs"
  shows "concat (map (\<lambda>x. [a x, b x, c x]) xs) ! (3 * j) = a (xs ! j)"
    and "concat (map (\<lambda>x. [a x, b x, c x]) xs) ! (3 * j + 1) = b (xs ! j)"
    and "concat (map (\<lambda>x. [a x, b x, c x]) xs) ! (3 * j + 2) = c (xs ! j)"
  using assms
proof (induction xs arbitrary: j)
  case Nil
  { case 1 then show ?case by simp }
  { case 2 then show ?case by simp }
  { case 3 then show ?case by simp }
next
  case (Cons x xs)
  { case 1 then show ?case using Cons.IH(1) by (cases j) (simp_all add: nth_Cons' numeral_eq_Suc) }
  { case 2 then show ?case using Cons.IH(2) by (cases j) (simp_all add: nth_Cons' numeral_eq_Suc) }
  { case 3 then show ?case using Cons.IH(3) by (cases j) (simp_all add: nth_Cons' numeral_eq_Suc) }
qed

lemma triples_length: "length (concat (map (\<lambda>x. [a x, b x, c x]) xs)) = 3 * length xs"
  by (induction xs) simp_all

text \<open>
  The three names and the three values that one round of the loop of
  \<^verbatim>\<open>Poincare.__init__\<close> appends to each of its lists.
\<close>

definition q_names :: "nat \<Rightarrow> string list" where
  "q_names i = [''lambda'' @ format_nat (i + 1), ''eta'' @ format_nat (i + 1),
                ''rho'' @ format_nat (i + 1)]"

definition p_names :: "nat \<Rightarrow> string list" where
  "p_names i = [''Lambda'' @ format_nat (i + 1), ''kappa'' @ format_nat (i + 1),
                ''sigma'' @ format_nat (i + 1)]"

definition q_values :: "PoincareParticle \<Rightarrow> real list" where
  "q_values p = [pp_l p, pp_eta p, pp_rho p]"

definition p_values :: "PoincareParticle \<Rightarrow> real list" where
  "p_values p = [pp_Lambda p, pp_kappa p, pp_sigma p]"

lemma Poincare_init_step_appends:
  "Poincare_init_step (pv, qv, qn, pn) (i, p) =
     (pv @ p_values p, qv @ q_values p, qn @ q_names i, pn @ p_names i)"
  by (simp add: Let_def q_names_def p_names_def q_values_def p_values_def del: format_nat.simps)

lemma Poincare_init_loop:
  "foldl Poincare_init_step (pv, qv, qn, pn) ips =
     (pv @ concat (map (\<lambda>ip. p_values (snd ip)) ips),
      qv @ concat (map (\<lambda>ip. q_values (snd ip)) ips),
      qn @ concat (map (\<lambda>ip. q_names (fst ip)) ips),
      pn @ concat (map (\<lambda>ip. p_names (fst ip)) ips))"
proof (induction ips arbitrary: pv qv qn pn)
  case Nil
  then show ?case by simp
next
  case (Cons ip ips)
  obtain i p where ip: "ip = (i, p)" by (cases ip)
  show ?case
    by (simp only: ip foldl_Cons Poincare_init_step_appends Cons.IH list.map concat.simps
        fst_conv snd_conv append_assoc)
qed

lemma map_snd_of_zip:
  "length xs = length ys \<Longrightarrow> map (\<lambda>p. f (snd p)) (zip xs ys) = map f ys"
  by (induction xs ys rule: list_induct2) simp_all

lemma map_fst_of_zip:
  "length xs = length ys \<Longrightarrow> map (\<lambda>p. f (fst p)) (zip xs ys) = map f xs"
  by (induction xs ys rule: list_induct2) simp_all

lemma Poincare_init_enumerate:
  "foldl Poincare_init_step ([], [], [], []) (zip [0..<length ps] ps) =
     (concat (map p_values ps), concat (map q_values ps),
      concat (map q_names [0..<length ps]), concat (map p_names [0..<length ps]))"
proof -
  have "map (\<lambda>ip. p_values (snd ip)) (zip [0..<length ps] ps) = map p_values ps"
    and "map (\<lambda>ip. q_values (snd ip)) (zip [0..<length ps] ps) = map q_values ps"
    and "map (\<lambda>ip. q_names (fst ip)) (zip [0..<length ps] ps) = map q_names [0..<length ps]"
    and "map (\<lambda>ip. p_names (fst ip)) (zip [0..<length ps] ps) = map p_names [0..<length ps]"
    by (simp_all add: map_snd_of_zip map_fst_of_zip)
  then show ?thesis
    by (simp add: Poincare_init_loop)
qed

lemma Poincare_init_result:
  assumes "Poincare_init G ps c t = Inr s"
  shows "state_values s = concat (map q_values ps) @ concat (map p_values ps)"
    and "qpvars s = concat (map q_names [0..<length ps]) @ concat (map p_names [0..<length ps])"
proof -
  from assms obtain p0 rest where ps: "ps = p0 # rest"
    by (cases ps) (simp_all add: Poincare_init_def)
  have "Poincare_init G ps c t =
        Inr (PhaseSpaceState_init G (pp_Mstar p0 # map pp_m ps) c
               (concat (map q_names [0..<length ps]) @ concat (map p_names [0..<length ps]))
               (concat (map q_values ps) @ concat (map p_values ps)) t)"
    unfolding Poincare_init_def Poincare_init_enumerate by (simp add: ps)
  with assms show "state_values s = concat (map q_values ps) @ concat (map p_values ps)"
    and "qpvars s = concat (map q_names [0..<length ps]) @ concat (map p_names [0..<length ps])"
    by (auto simp: PhaseSpaceState_init_def)
qed

lemma Poincare_init_layout:
  assumes init: "Poincare_init G ps c t = Inr s" and j: "j < length ps"
  shows "Ndof s = 3 * length ps"
    and "state_values s ! (3 * j) = pp_l (ps ! j)"
    and "state_values s ! (3 * j + 1) = pp_eta (ps ! j)"
    and "state_values s ! (3 * j + 2) = pp_rho (ps ! j)"
    and "state_values s ! (Ndof s + 3 * j) = pp_Lambda (ps ! j)"
    and "state_values s ! (Ndof s + 3 * j + 1) = pp_kappa (ps ! j)"
    and "state_values s ! (Ndof s + 3 * j + 2) = pp_sigma (ps ! j)"
    and "qpvars s ! (3 * j) = ''lambda'' @ format_nat (j + 1)"
    and "qpvars s ! (3 * j + 1) = ''eta'' @ format_nat (j + 1)"
    and "qpvars s ! (3 * j + 2) = ''rho'' @ format_nat (j + 1)"
    and "qpvars s ! (Ndof s + 3 * j) = ''Lambda'' @ format_nat (j + 1)"
    and "qpvars s ! (Ndof s + 3 * j + 1) = ''kappa'' @ format_nat (j + 1)"
    and "qpvars s ! (Ndof s + 3 * j + 2) = ''sigma'' @ format_nat (j + 1)"
proof -
  note vals = Poincare_init_result(1) [OF init] and vars = Poincare_init_result(2) [OF init]
  show dof: "Ndof s = 3 * length ps"
    by (simp add: Ndof_def vars q_names_def [abs_def] p_names_def [abs_def] triples_length
        del: format_nat.simps)
  have low: "3 * j < 3 * length ps" "3 * j + 1 < 3 * length ps" "3 * j + 2 < 3 * length ps"
    using j by simp_all
  have j': "j < length [0..<length ps]" using j by simp
  show "state_values s ! (3 * j) = pp_l (ps ! j)"
    "state_values s ! (3 * j + 1) = pp_eta (ps ! j)"
    "state_values s ! (3 * j + 2) = pp_rho (ps ! j)"
    using low triples_nth [OF j, of pp_l pp_eta pp_rho]
    by (simp_all add: vals q_values_def [abs_def] nth_append triples_length)
  show "state_values s ! (Ndof s + 3 * j) = pp_Lambda (ps ! j)"
    "state_values s ! (Ndof s + 3 * j + 1) = pp_kappa (ps ! j)"
    "state_values s ! (Ndof s + 3 * j + 2) = pp_sigma (ps ! j)"
    unfolding dof
    using triples_nth [OF j, of pp_Lambda pp_kappa pp_sigma]
    by (simp_all add: vals q_values_def [abs_def] p_values_def [abs_def] nth_append
        triples_length add.assoc)
  show "qpvars s ! (3 * j) = ''lambda'' @ format_nat (j + 1)"
    "qpvars s ! (3 * j + 1) = ''eta'' @ format_nat (j + 1)"
    "qpvars s ! (3 * j + 2) = ''rho'' @ format_nat (j + 1)"
    using low j triples_nth [OF j', of "\<lambda>i. ''lambda'' @ format_nat (i + 1)"
        "\<lambda>i. ''eta'' @ format_nat (i + 1)" "\<lambda>i. ''rho'' @ format_nat (i + 1)"]
    by (simp_all add: vars q_names_def [abs_def] nth_append triples_length
        del: format_nat.simps)
  show "qpvars s ! (Ndof s + 3 * j) = ''Lambda'' @ format_nat (j + 1)"
    "qpvars s ! (Ndof s + 3 * j + 1) = ''kappa'' @ format_nat (j + 1)"
    "qpvars s ! (Ndof s + 3 * j + 2) = ''sigma'' @ format_nat (j + 1)"
    unfolding dof
    using j triples_nth [OF j', of "\<lambda>i. ''Lambda'' @ format_nat (i + 1)"
        "\<lambda>i. ''kappa'' @ format_nat (i + 1)" "\<lambda>i. ''sigma'' @ format_nat (i + 1)"]
    by (simp_all add: vars q_names_def [abs_def] p_names_def [abs_def] nth_append
        triples_length add.assoc del: format_nat.simps)
qed

lemma six_from:
  assumes "6 * i + 6 \<le> length sv"
  shows "take 6 (drop (6 * i) sv) =
         [sv ! (6 * i), sv ! (6 * i + 1), sv ! (6 * i + 2), sv ! (6 * i + 3), sv ! (6 * i + 4),
          sv ! (6 * i + 5)]"
proof (rule nth_equalityI)
  show "length (take 6 (drop (6 * i) sv)) =
        length [sv ! (6 * i), sv ! (6 * i + 1), sv ! (6 * i + 2), sv ! (6 * i + 3), sv ! (6 * i + 4),
          sv ! (6 * i + 5)]"
    using assms by simp
next
  fix k assume "k < length (take 6 (drop (6 * i) sv))"
  then have k: "k < 6" by simp
  then have "k = 0 \<or> k = 1 \<or> k = 2 \<or> k = 3 \<or> k = 4 \<or> k = 5" by arith
  then show "take 6 (drop (6 * i) sv) ! k =
        [sv ! (6 * i), sv ! (6 * i + 1), sv ! (6 * i + 2), sv ! (6 * i + 3), sv ! (6 * i + 4),
          sv ! (6 * i + 5)] ! k"
    using assms by (elim disjE) simp_all
qed

lemma reshape_rows:
  assumes "length sv = 6 * n"
  shows "\<exists>rows. state_vector_to_individual_vectors sv = Inr rows \<and> length rows = n
           \<and> concat rows = sv
           \<and> (\<forall>i<n. rows ! i = [sv ! (6 * i), sv ! (6 * i + 1), sv ! (6 * i + 2),
                                   sv ! (6 * i + 3), sv ! (6 * i + 4), sv ! (6 * i + 5)])"
proof -
  define rows where "rows = map (\<lambda>i. take 6 (drop (6 * i) sv)) [0..<n]"
  have "state_vector_to_individual_vectors sv = Inr rows"
    using assms by (simp add: state_vector_to_individual_vectors_def rows_def)
  moreover have "length rows = n"
    by (simp add: rows_def)
  moreover have "concat rows = sv"
    unfolding rows_def by (rule rows_of_state_vector [OF assms])
  moreover have "rows ! i = [sv ! (6 * i), sv ! (6 * i + 1), sv ! (6 * i + 2),
                                   sv ! (6 * i + 3), sv ! (6 * i + 4), sv ! (6 * i + 5)]"
    if "i < n" for i
  proof -
    have "6 * i + 6 \<le> length sv" using that assms by simp
    from six_from [OF this] that show ?thesis by (simp add: rows_def)
  qed
  ultimately show ?thesis by blast
qed

text \<open>
  What the two setters of \<^verbatim>\<open>LinearSecularEvolutionOperator.apply\<close> assign to one
  body, from the new complex variables \<open>xi\<close> and \<open>yi\<close>.
\<close>

definition secular_assign :: "complex \<Rightarrow> complex \<Rightarrow> PoincareParticle \<Rightarrow> PoincareParticle" where
  "secular_assign xi yi p =
     pp_set_rho (rt2 * Re (\<i> * yi)) (pp_set_sigma (rt2 * Re yi)
       (pp_set_eta (rt2 * Re (\<i> * xi)) (pp_set_kappa (rt2 * Re xi) p)))"

lemma body_slots_secular_assign:
  assumes "0 < pp_mu p"
  shows "body_slots (secular_assign xi yi p) = secular_row xi yi (body_slots p)"
  using assms
  by (simp add: body_slots_def secular_assign_def secular_row_def pp_set_rho_def pp_set_sigma_def
      pp_set_eta_def pp_set_kappa_def pp_kappa_def pp_eta_def pp_sigma_def pp_rho_def
      pp_Lambda_def)

lemma secular_flat_on_bodies:
  assumes mu: "\<forall>p \<in> set ps. 0 < pp_mu p"
    and E: "square (length ps) (ecc_operator_matrix op)"
    and I: "square (length ps) (inc_operator_matrix op)"
  shows "LinearSecular_apply_to_state_vector op (concat (map body_slots ps)) =
         Inr (concat (map body_slots
                (map (\<lambda>i. secular_assign
                        (np_dot (ecc_operator_matrix op ! i)
                           (map (\<lambda>p. (of_real (pp_kappa p) - \<i> * of_real (pp_eta p))
                                        * of_real rt2_inv) ps))
                        (np_dot (inc_operator_matrix op ! i)
                           (map (\<lambda>p. (of_real (pp_sigma p) - \<i> * of_real (pp_rho p))
                                        * of_real rt2_inv) ps))
                        (ps ! i))
                   [0..<length ps])))"
proof -
  have six: "\<forall>row \<in> set (map body_slots ps). length row = 6"
    by (auto simp: body_slots_def)
  have xs: "map x_slot (map body_slots ps)
            = map (\<lambda>p. (of_real (pp_kappa p) - \<i> * of_real (pp_eta p)) * of_real rt2_inv) ps"
    by (simp add: x_slot_def body_slots_def)
  have ys: "map y_slot (map body_slots ps)
            = map (\<lambda>p. (of_real (pp_sigma p) - \<i> * of_real (pp_rho p)) * of_real rt2_inv) ps"
    by (simp add: y_slot_def body_slots_def)
  have "LinearSecular_apply_to_state_vector op (concat (map body_slots ps)) =
        Inr (concat (map (\<lambda>i. secular_row
                                   (np_dot (ecc_operator_matrix op ! i) (map x_slot (map body_slots ps)))
                                   (np_dot (inc_operator_matrix op ! i) (map y_slot (map body_slots ps)))
                                   (map body_slots ps ! i))
                        [0..<length (map body_slots ps)]))"
    using E I by (intro secular_flat_on_rows [OF six]) simp_all
  also have "map (\<lambda>i. secular_row
                                   (np_dot (ecc_operator_matrix op ! i) (map x_slot (map body_slots ps)))
                                   (np_dot (inc_operator_matrix op ! i) (map y_slot (map body_slots ps)))
                                   (map body_slots ps ! i))
                        [0..<length (map body_slots ps)]
      = map body_slots
                (map (\<lambda>i. secular_assign
                        (np_dot (ecc_operator_matrix op ! i)
                           (map (\<lambda>p. (of_real (pp_kappa p) - \<i> * of_real (pp_eta p))
                                        * of_real rt2_inv) ps))
                        (np_dot (inc_operator_matrix op ! i)
                           (map (\<lambda>p. (of_real (pp_sigma p) - \<i> * of_real (pp_rho p))
                                        * of_real rt2_inv) ps))
                        (ps ! i))
                   [0..<length ps])"
    unfolding xs ys using mu by (simp add: body_slots_secular_assign)
  finally show ?thesis .
qed

lemma py_position_valid: "n < len \<Longrightarrow> py_position len (int n) = Inr n"
  by (simp add: py_position_def)

lemma put_pair_distinct:
  assumes "nIn \<noteq> nOut"
  shows "put_pair vecs (nIn, nOut) k v =
         vecs[nIn := (vecs ! nIn)[k := fst v], nOut := (vecs ! nOut)[k := snd v]]"
  using assms by (simp add: put_pair_def Let_def)

lemma take_pair_rows:
  "take_pair vecs (nIn, nOut) k = (vecs ! nIn ! k, vecs ! nOut ! k)"
  by (simp add: take_pair_def)

lemma put_three:
  assumes ne: "nIn \<noteq> nOut" and lin: "nIn < length vecs" and lout: "nOut < length vecs"
  shows "put_pair (put_pair (put_pair vecs (nIn, nOut) k0 v0) (nIn, nOut) k1 v1) (nIn, nOut) k2 v2
         = vecs[nIn := (vecs ! nIn)[k0 := fst v0, k1 := fst v1, k2 := fst v2],
                nOut := (vecs ! nOut)[k0 := snd v0, k1 := snd v1, k2 := snd v2]]"
  using assms
  by (simp add: put_pair_distinct list_update_swap [of nOut nIn])

lemma Gamma_from_slots:
  assumes "0 \<le> pp_mu p"
  shows "0.5 * (pp_kappa p * pp_kappa p + pp_eta p * pp_eta p) = pp_Gamma p"
    and "0.5 * (pp_rho p * pp_rho p + pp_sigma p * pp_sigma p) = pp_Q p"
  using assms
  by (simp_all add: pp_kappa_def pp_eta_def pp_rho_def pp_sigma_def pp_Gamma_def pp_Q_def
      power2_eq_square algebra_simps)

lemma er_apply_particles:
  assumes mu: "0 < pp_mu (er_particleIn op)" "0 < pp_mu (er_particleOut op)"
  defines "theta \<equiv> er_get_theta op"
  defines "HK \<equiv> er_get_HK_vecs op (sin theta) (cos theta)"
  defines "HK1 \<equiv> er_HKmap op (fst HK) (snd HK) (sin theta) (cos theta)"
  defines "ek \<equiv> er_HK_to_etakappa op (fst HK1) (snd HK1) (sin theta) (cos theta)"
  defines "G1 \<equiv> scale2 0.5 (add2 (mul2 (snd ek) (snd ek)) (mul2 (fst ek) (fst ek)))"
  defines "L1 \<equiv> matvec2 (er_Lambdas_Mtrx op)
                   (dot2 (er_Lambdas_vec op) (er_get_Lambdas op),
                    sum2 (er_get_Lambdas op) - sum2 (er_get_Gammas op) + sum2 G1)"
  shows "body_slots (er_particleIn (er_apply op)) =
           (body_slots (er_particleIn op))[0 := fst (snd ek), 1 := fst (fst ek), 2 := fst L1]"
    and "body_slots (er_particleOut (er_apply op)) =
           (body_slots (er_particleOut op))[0 := snd (snd ek), 1 := snd (fst ek), 2 := snd L1]"
proof -
  define pIn where "pIn = pp_set_kappa (fst (snd ek)) (pp_set_eta (fst (fst ek)) (er_particleIn op))"
  define pOut where "pOut = pp_set_kappa (snd (snd ek)) (pp_set_eta (snd (fst ek)) (er_particleOut op))"
  have adv: "er_advance_eccentricity_variables op = op\<lparr>er_particleIn := pIn, er_particleOut := pOut\<rparr>"
    by (simp add: er_advance_eccentricity_variables_def Let_def theta_def HK_def HK1_def ek_def
        pIn_def pOut_def er_set_kappa_vec_def er_set_eta_vec_def split: prod.split)
  have kin: "pp_kappa pIn = fst (snd ek)" "pp_eta pIn = fst (fst ek)"
    and kout: "pp_kappa pOut = snd (snd ek)" "pp_eta pOut = snd (fst ek)"
    using mu
    by (simp_all add: pIn_def pOut_def pp_kappa_def pp_eta_def pp_set_kappa_def pp_set_eta_def)
  have mus: "0 < pp_mu pIn" "0 < pp_mu pOut"
    using mu by (simp_all add: pIn_def pOut_def pp_set_kappa_def pp_set_eta_def)
  have G: "er_get_Gammas (op\<lparr>er_particleIn := pIn, er_particleOut := pOut\<rparr>) = G1"
  proof -
    have "pp_Gamma pIn = 0.5 * (pp_kappa pIn * pp_kappa pIn + pp_eta pIn * pp_eta pIn)"
      and "pp_Gamma pOut = 0.5 * (pp_kappa pOut * pp_kappa pOut + pp_eta pOut * pp_eta pOut)"
      using mus Gamma_from_slots(1) [of pIn] Gamma_from_slots(1) [of pOut] by simp_all
    then show ?thesis
      by (cases ek; cases "fst ek"; cases "snd ek")
         (simp add: er_get_Gammas_def G1_def kin kout)
  qed
  have ap: "er_apply op =
            er_set_Lambdas L1 (op\<lparr>er_particleIn := pIn, er_particleOut := pOut\<rparr>)"
    unfolding er_apply_def Let_def adv G by (simp add: L1_def)
  have rest_in: "pp_l pIn = pp_l (er_particleIn op)" "pp_sigma pIn = pp_sigma (er_particleIn op)"
    "pp_rho pIn = pp_rho (er_particleIn op)"
    and rest_out: "pp_l pOut = pp_l (er_particleOut op)" "pp_sigma pOut = pp_sigma (er_particleOut op)"
    "pp_rho pOut = pp_rho (er_particleOut op)"
    by (simp_all add: pIn_def pOut_def pp_sigma_def pp_rho_def pp_set_kappa_def pp_set_eta_def)
  have slots: "body_slots (pp_set_Lambda v q) = (body_slots q)[2 := v]" if "0 < pp_mu q" for v q
    using that
    by (simp add: body_slots_def pp_set_Lambda_def pp_kappa_def pp_eta_def pp_sigma_def
        pp_rho_def pp_Lambda_def)
  show "body_slots (er_particleIn (er_apply op)) =
           (body_slots (er_particleIn op))[0 := fst (snd ek), 1 := fst (fst ek), 2 := fst L1]"
    unfolding ap
    by (simp add: er_set_Lambdas_def slots [OF mus(1)])
       (simp add: body_slots_def kin rest_in)
  show "body_slots (er_particleOut (er_apply op)) =
           (body_slots (er_particleOut op))[0 := snd (snd ek), 1 := snd (fst ek), 2 := snd L1]"
    unfolding ap
    by (simp add: er_set_Lambdas_def slots [OF mus(2)])
       (simp add: body_slots_def kout rest_out)
qed

lemma er_flat_on_bodies:
  assumes six: "\<forall>row \<in> set rows. length row = 6"
    and pos: "nIn < length rows" "nOut < length rows" "nIn \<noteq> nOut"
    and idx: "er_indexIn op = int nIn + 1" "er_indexOut op = int nOut + 1"
    and slots: "rows ! nIn = body_slots (er_particleIn op)"
      "rows ! nOut = body_slots (er_particleOut op)"
    and mu: "0 < pp_mu (er_particleIn op)" "0 < pp_mu (er_particleOut op)"
  shows "er_apply_to_state_vector op (concat rows) =
         Inr (concat (rows[nIn := body_slots (er_particleIn (er_apply op)),
                          nOut := body_slots (er_particleOut (er_apply op))]))"
proof -
  define theta where "theta = er_get_theta op"
  define HK where "HK = er_get_HK_vecs op (sin theta) (cos theta)"
  define HK1 where "HK1 = er_HKmap op (fst HK) (snd HK) (sin theta) (cos theta)"
  define ek where "ek = er_HK_to_etakappa op (fst HK1) (snd HK1) (sin theta) (cos theta)"
  define G1 where "G1 = scale2 0.5 (add2 (mul2 (snd ek) (snd ek)) (mul2 (fst ek) (fst ek)))"
  define L1 where "L1 = matvec2 (er_Lambdas_Mtrx op)
                   (dot2 (er_Lambdas_vec op) (er_get_Lambdas op),
                    sum2 (er_get_Lambdas op) - sum2 (er_get_Gammas op) + sum2 G1)"
  have pin: "py_position (length rows) (er_indexIn op - 1) = Inr nIn"
    and pout: "py_position (length rows) (er_indexOut op - 1) = Inr nOut"
    using pos idx by (simp_all add: py_position_valid)
  have rd: "take_pair rows (nIn, nOut) 0 = er_get_kappa_vec op"
    "take_pair rows (nIn, nOut) 1 = er_get_eta_vec op"
    "take_pair rows (nIn, nOut) 2 = er_get_Lambdas op"
    "take_pair rows (nIn, nOut) 3 = (pp_l (er_particleIn op), pp_l (er_particleOut op))"
    by (simp_all add: take_pair_rows slots body_slots_def er_get_kappa_vec_def er_get_eta_vec_def
        er_get_Lambdas_def)
  have G0: "scale2 0.5 (add2 (mul2 (er_get_kappa_vec op) (er_get_kappa_vec op))
                            (mul2 (er_get_eta_vec op) (er_get_eta_vec op))) = er_get_Gammas op"
    using mu Gamma_from_slots(1) [of "er_particleIn op"] Gamma_from_slots(1) [of "er_particleOut op"]
    by (simp add: er_get_kappa_vec_def er_get_eta_vec_def er_get_Gammas_def)
  have HKeq: "(matvec2 (er_Ttr op) (sub2 (er_get_eta_vec op)
                 (scale2 (sin theta) (scale2 (0.5 * rt2) (er_Ainv_dot_b op)))),
               matvec2 (er_Ttr op) (add2 (er_get_kappa_vec op)
                 (scale2 (cos theta) (scale2 (0.5 * rt2) (er_Ainv_dot_b op))))) = HK"
    by (simp add: HK_def er_get_HK_vecs_def Let_def)
  have flat: "er_apply_to_state_vector op (concat rows) =
        Inr (concat (put_pair (put_pair (put_pair rows (nIn, nOut) 0 (snd ek)) (nIn, nOut) 1 (fst ek))
                       (nIn, nOut) 2 L1))"
    unfolding er_apply_to_state_vector_def reshape_concat [OF six]
    by (simp only: bind_err_def sum.case pin pout Let_def rd G0 split_def L1_def G1_def ek_def
        HK1_def HK_def er_get_HK_vecs_def theta_def er_get_theta_def fst_conv snd_conv)
  have in': "body_slots (er_particleIn (er_apply op)) =
           (rows ! nIn)[0 := fst (snd ek), 1 := fst (fst ek), 2 := fst L1]"
    and out': "body_slots (er_particleOut (er_apply op)) =
           (rows ! nOut)[0 := snd (snd ek), 1 := snd (fst ek), 2 := snd L1]"
    using er_apply_particles [OF mu]
    by (simp_all add: slots ek_def HK1_def HK_def theta_def L1_def G1_def)
  show ?thesis
    unfolding flat put_three [OF pos(3) pos(1) pos(2)] in' out' ..
qed

lemma ir_apply_particles:
  assumes mu: "0 < pp_mu (ir_particleIn op)" "0 < pp_mu (ir_particleOut op)"
  defines "theta \<equiv> ir_get_theta op"
  defines "RS \<equiv> ir_get_RS_vecs op (sin theta) (cos theta)"
  defines "RS1 \<equiv> ir_RSmap op (fst RS) (snd RS) (sin theta) (cos theta)"
  defines "rs \<equiv> ir_RS_to_rhosigma op (fst RS1) (snd RS1)"
  defines "Q1 \<equiv> scale2 0.5 (add2 (mul2 (fst rs) (fst rs)) (mul2 (snd rs) (snd rs)))"
  defines "L1 \<equiv> matvec2 (ir_Lambdas_Mtrx op)
                   (dot2 (ir_Lambdas_vec op) (ir_get_Lambdas op),
                    sum2 (ir_get_Lambdas op) - sum2 (ir_get_Qs op) + sum2 Q1)"
  shows "body_slots (ir_particleIn (ir_apply op)) =
           (body_slots (ir_particleIn op))[4 := fst (snd rs), 5 := fst (fst rs), 2 := fst L1]"
    and "body_slots (ir_particleOut (ir_apply op)) =
           (body_slots (ir_particleOut op))[4 := snd (snd rs), 5 := snd (fst rs), 2 := snd L1]"
proof -
  define pIn where "pIn = pp_set_sigma (fst (snd rs)) (pp_set_rho (fst (fst rs)) (ir_particleIn op))"
  define pOut where "pOut = pp_set_sigma (snd (snd rs)) (pp_set_rho (snd (fst rs)) (ir_particleOut op))"
  have adv: "ir_advance_inclination_variables op = op\<lparr>ir_particleIn := pIn, ir_particleOut := pOut\<rparr>"
    by (simp add: ir_advance_inclination_variables_def Let_def theta_def RS_def RS1_def rs_def
        pIn_def pOut_def ir_set_sigma_vec_def ir_set_rho_vec_def split: prod.split)
  have kin: "pp_sigma pIn = fst (snd rs)" "pp_rho pIn = fst (fst rs)"
    and kout: "pp_sigma pOut = snd (snd rs)" "pp_rho pOut = snd (fst rs)"
    using mu
    by (simp_all add: pIn_def pOut_def pp_sigma_def pp_rho_def pp_set_sigma_def pp_set_rho_def)
  have mus: "0 < pp_mu pIn" "0 < pp_mu pOut"
    using mu by (simp_all add: pIn_def pOut_def pp_set_sigma_def pp_set_rho_def)
  have Q: "ir_get_Qs (op\<lparr>ir_particleIn := pIn, ir_particleOut := pOut\<rparr>) = Q1"
  proof -
    have "pp_Q pIn = 0.5 * (pp_rho pIn * pp_rho pIn + pp_sigma pIn * pp_sigma pIn)"
      and "pp_Q pOut = 0.5 * (pp_rho pOut * pp_rho pOut + pp_sigma pOut * pp_sigma pOut)"
      using mus Gamma_from_slots(2) [of pIn] Gamma_from_slots(2) [of pOut] by simp_all
    then show ?thesis
      by (cases rs; cases "fst rs"; cases "snd rs")
         (simp add: ir_get_Qs_def Q1_def kin kout)
  qed
  have ap: "ir_apply op =
            ir_set_Lambdas L1 (op\<lparr>ir_particleIn := pIn, ir_particleOut := pOut\<rparr>)"
    unfolding ir_apply_def Let_def adv Q by (simp add: L1_def)
  have rest_in: "pp_l pIn = pp_l (ir_particleIn op)" "pp_kappa pIn = pp_kappa (ir_particleIn op)"
    "pp_eta pIn = pp_eta (ir_particleIn op)"
    and rest_out: "pp_l pOut = pp_l (ir_particleOut op)" "pp_kappa pOut = pp_kappa (ir_particleOut op)"
    "pp_eta pOut = pp_eta (ir_particleOut op)"
    by (simp_all add: pIn_def pOut_def pp_kappa_def pp_eta_def pp_set_sigma_def pp_set_rho_def)
  have slots: "body_slots (pp_set_Lambda v q) = (body_slots q)[2 := v]" if "0 < pp_mu q" for v q
    using that
    by (simp add: body_slots_def pp_set_Lambda_def pp_kappa_def pp_eta_def pp_sigma_def
        pp_rho_def pp_Lambda_def)
  show "body_slots (ir_particleIn (ir_apply op)) =
           (body_slots (ir_particleIn op))[4 := fst (snd rs), 5 := fst (fst rs), 2 := fst L1]"
    unfolding ap
    by (simp add: ir_set_Lambdas_def slots [OF mus(1)])
       (simp add: body_slots_def kin rest_in)
  show "body_slots (ir_particleOut (ir_apply op)) =
           (body_slots (ir_particleOut op))[4 := snd (snd rs), 5 := snd (fst rs), 2 := snd L1]"
    unfolding ap
    by (simp add: ir_set_Lambdas_def slots [OF mus(2)])
       (simp add: body_slots_def kout rest_out)
qed

lemma ir_flat_on_bodies:
  assumes six: "\<forall>row \<in> set rows. length row = 6"
    and pos: "nIn < length rows" "nOut < length rows" "nIn \<noteq> nOut"
    and idx: "ir_indexIn op = int nIn + 1" "ir_indexOut op = int nOut + 1"
    and slots: "rows ! nIn = body_slots (ir_particleIn op)"
      "rows ! nOut = body_slots (ir_particleOut op)"
    and mu: "0 < pp_mu (ir_particleIn op)" "0 < pp_mu (ir_particleOut op)"
  shows "ir_apply_to_state_vector op (concat rows) =
         Inr (concat (rows[nIn := body_slots (ir_particleIn (ir_apply op)),
                          nOut := body_slots (ir_particleOut (ir_apply op))]))"
proof -
  define theta where "theta = ir_get_theta op"
  define RS where "RS = ir_get_RS_vecs op (sin theta) (cos theta)"
  define RS1 where "RS1 = ir_RSmap op (fst RS) (snd RS) (sin theta) (cos theta)"
  define rs where "rs = ir_RS_to_rhosigma op (fst RS1) (snd RS1)"
  define Q1 where "Q1 = scale2 0.5 (add2 (mul2 (fst rs) (fst rs)) (mul2 (snd rs) (snd rs)))"
  define L1 where "L1 = matvec2 (ir_Lambdas_Mtrx op)
                   (dot2 (ir_Lambdas_vec op) (ir_get_Lambdas op),
                    sum2 (ir_get_Lambdas op) - sum2 (ir_get_Qs op) + sum2 Q1)"
  have pin: "py_position (length rows) (ir_indexIn op - 1) = Inr nIn"
    and pout: "py_position (length rows) (ir_indexOut op - 1) = Inr nOut"
    using pos idx by (simp_all add: py_position_valid)
  have rd: "take_pair rows (nIn, nOut) 4 = ir_get_sigma_vec op"
    "take_pair rows (nIn, nOut) 5 = ir_get_rho_vec op"
    "take_pair rows (nIn, nOut) 2 = ir_get_Lambdas op"
    "take_pair rows (nIn, nOut) 3 = (pp_l (ir_particleIn op), pp_l (ir_particleOut op))"
    by (simp_all add: take_pair_rows slots body_slots_def ir_get_sigma_vec_def ir_get_rho_vec_def
        ir_get_Lambdas_def)
  have Q0: "scale2 0.5 (add2 (mul2 (ir_get_rho_vec op) (ir_get_rho_vec op))
                            (mul2 (ir_get_sigma_vec op) (ir_get_sigma_vec op))) = ir_get_Qs op"
    using mu Gamma_from_slots(2) [of "ir_particleIn op"] Gamma_from_slots(2) [of "ir_particleOut op"]
    by (simp add: ir_get_rho_vec_def ir_get_sigma_vec_def ir_get_Qs_def)
  have flat: "ir_apply_to_state_vector op (concat rows) =
        Inr (concat (put_pair (put_pair (put_pair rows (nIn, nOut) 4 (snd rs)) (nIn, nOut) 5 (fst rs))
                       (nIn, nOut) 2 L1))"
    unfolding ir_apply_to_state_vector_def reshape_concat [OF six]
    by (simp only: bind_err_def sum.case pin pout Let_def rd Q0 split_def L1_def Q1_def rs_def
        RS1_def RS_def ir_get_RS_vecs_def theta_def ir_get_theta_def fst_conv snd_conv)
  have in': "body_slots (ir_particleIn (ir_apply op)) =
           (rows ! nIn)[4 := fst (snd rs), 5 := fst (fst rs), 2 := fst L1]"
    and out': "body_slots (ir_particleOut (ir_apply op)) =
           (rows ! nOut)[4 := snd (snd rs), 5 := snd (fst rs), 2 := snd L1]"
    using ir_apply_particles [OF mu]
    by (simp_all add: slots rs_def RS1_def RS_def theta_def L1_def Q1_def)
  show ?thesis
    unfolding flat put_three [OF pos(3) pos(1) pos(2)] in' out' ..
qed

text \<open>
  C2 (amended). The flat vector of a \<^verbatim>\<open>Poincare\<close> system of \<open>N - 1\<close> particles is ordered
  particle by particle inside two halves: body \<open>j + 1\<close> has its \<open>(l, eta, rho)\<close> at the
  positions \<open>3 j, 3 j + 1, 3 j + 2\<close> and its \<open>(\<Lambda>, kappa, sigma)\<close> at the same positions
  after \<open>Ndof = 3 (N - 1)\<close>, and the names of the variables follow the same order. The
  operators on state vectors use another layout: \<^verbatim>\<open>_state_vector_to_individual_vectors\<close>
  cuts the vector into rows of six contiguous slots, and on the rows
  \<open>(kappa, eta, \<Lambda>, l, sigma, rho)\<close> of a list of bodies each of the four
  \<^verbatim>\<open>apply_to_state_vector\<close> returns the rows of the bodies that its \<^verbatim>\<open>apply\<close> assigns:
  the Keplerian drift, the linear secular operator, and the eccentricity and inclination
  resonance operators.
\<close>

theorem state_vector_layouts:
  "(Poincare_init G ps c t = Inr s \<longrightarrow> j < length ps \<longrightarrow>
      Ndof s = 3 * length ps
      \<and> state_values s ! (3 * j) = pp_l (ps ! j)
      \<and> state_values s ! (3 * j + 1) = pp_eta (ps ! j)
      \<and> state_values s ! (3 * j + 2) = pp_rho (ps ! j)
      \<and> state_values s ! (Ndof s + 3 * j) = pp_Lambda (ps ! j)
      \<and> state_values s ! (Ndof s + 3 * j + 1) = pp_kappa (ps ! j)
      \<and> state_values s ! (Ndof s + 3 * j + 2) = pp_sigma (ps ! j)
      \<and> qpvars s ! (3 * j) = ''lambda'' @ format_nat (j + 1)
      \<and> qpvars s ! (3 * j + 1) = ''eta'' @ format_nat (j + 1)
      \<and> qpvars s ! (3 * j + 2) = ''rho'' @ format_nat (j + 1)
      \<and> qpvars s ! (Ndof s + 3 * j) = ''Lambda'' @ format_nat (j + 1)
      \<and> qpvars s ! (Ndof s + 3 * j + 1) = ''kappa'' @ format_nat (j + 1)
      \<and> qpvars s ! (Ndof s + 3 * j + 2) = ''sigma'' @ format_nat (j + 1))
   \<and> (length sv = 6 * n \<longrightarrow>
        (\<exists>rows. state_vector_to_individual_vectors sv = Inr rows \<and> length rows = n
           \<and> concat rows = sv
           \<and> (\<forall>i<n. rows ! i = [sv ! (6 * i), sv ! (6 * i + 1), sv ! (6 * i + 2),
                                   sv ! (6 * i + 3), sv ! (6 * i + 4), sv ! (6 * i + 5)])))
   \<and> (length (GGMMmmm kop) = length bodies \<longrightarrow>
        Keplerian_apply_to_state_vector kop (concat (map body_slots bodies)) =
          Inr (concat (map body_slots
                 (map (\<lambda>(p, g). p\<lparr>pp_l := pp_l p + kepler_drift (kep_dt kop) g (pp_Lambda p)\<rparr>)
                    (zip bodies (GGMMmmm kop))))))
   \<and> ((\<forall>p \<in> set planets. 0 < pp_mu p) \<longrightarrow>
       square (length planets) (ecc_operator_matrix sop) \<longrightarrow>
       square (length planets) (inc_operator_matrix sop) \<longrightarrow>
        LinearSecular_apply_to_state_vector sop (concat (map body_slots planets)) =
          Inr (concat (map body_slots
                (map (\<lambda>i. secular_assign
                        (np_dot (ecc_operator_matrix sop ! i)
                           (map (\<lambda>p. (of_real (pp_kappa p) - \<i> * of_real (pp_eta p))
                                        * of_real rt2_inv) planets))
                        (np_dot (inc_operator_matrix sop ! i)
                           (map (\<lambda>p. (of_real (pp_sigma p) - \<i> * of_real (pp_rho p))
                                        * of_real rt2_inv) planets))
                        (planets ! i))
                   [0..<length planets]))))
   \<and> ((\<forall>row \<in> set erows. length row = 6) \<longrightarrow>
       eIn < length erows \<longrightarrow> eOut < length erows \<longrightarrow> eIn \<noteq> eOut \<longrightarrow>
       er_indexIn eop = int eIn + 1 \<longrightarrow> er_indexOut eop = int eOut + 1 \<longrightarrow>
       erows ! eIn = body_slots (er_particleIn eop) \<longrightarrow>
       erows ! eOut = body_slots (er_particleOut eop) \<longrightarrow>
       0 < pp_mu (er_particleIn eop) \<longrightarrow> 0 < pp_mu (er_particleOut eop) \<longrightarrow>
        er_apply_to_state_vector eop (concat erows) =
          Inr (concat (erows[eIn := body_slots (er_particleIn (er_apply eop)),
                             eOut := body_slots (er_particleOut (er_apply eop))])))
   \<and> ((\<forall>row \<in> set irows. length row = 6) \<longrightarrow>
       iIn < length irows \<longrightarrow> iOut < length irows \<longrightarrow> iIn \<noteq> iOut \<longrightarrow>
       ir_indexIn iop = int iIn + 1 \<longrightarrow> ir_indexOut iop = int iOut + 1 \<longrightarrow>
       irows ! iIn = body_slots (ir_particleIn iop) \<longrightarrow>
       irows ! iOut = body_slots (ir_particleOut iop) \<longrightarrow>
       0 < pp_mu (ir_particleIn iop) \<longrightarrow> 0 < pp_mu (ir_particleOut iop) \<longrightarrow>
        ir_apply_to_state_vector iop (concat irows) =
          Inr (concat (irows[iIn := body_slots (ir_particleIn (ir_apply iop)),
                             iOut := body_slots (ir_particleOut (ir_apply iop))])))"
  (is "?layout \<and> ?reshape \<and> ?kepler \<and> ?secular \<and> ?ecc \<and> ?inc")
proof -
  have 1: ?layout
    using Poincare_init_layout [of G ps c t s j] by (intro impI conjI)
  have 2: ?reshape
    using reshape_rows [of sv n] by (intro impI)
  have 3: ?kepler
    using Keplerian_flat_on_bodies [of kop bodies] by (intro impI)
  have 4: ?secular
    using secular_flat_on_bodies [of planets sop] by (intro impI)
  have 5: ?ecc
    using er_flat_on_bodies [of erows eIn eOut eop] by (intro impI)
  have 6: ?inc
    using ir_flat_on_bodies [of irows iIn iOut iop] by (intro impI)
  show ?thesis
    by (rule conjI [OF 1 conjI [OF 2 conjI [OF 3 conjI [OF 4 conjI [OF 5 6]]]]])
qed

text \<open>
  With two planets the variable at position \<open>1\<close> is \<open>eta1\<close>, not the mean longitude of
  the second planet, and the value at position \<open>7\<close> is \<open>kappa\<close> of the first planet, not
  \<open>\<Lambda>\<close> of the second.
\<close>

theorem blockwise_order_counterexample:
  "Poincare_init 1 [inner_planet, outer_planet] ''democratic heliocentric'' 0 = Inr two_planet_system
   \<and> state_values two_planet_system ! 7 = pp_kappa inner_planet
   \<and> state_values two_planet_system ! 7 \<noteq> pp_Lambda outer_planet
   \<and> qpvars two_planet_system ! 1 = ''eta1''
   \<and> qpvars two_planet_system ! 7 = ''kappa1''"
  by (simp add: two_planet_system_built)
     (simp add: two_planet_system_def inner_planet_def outer_planet_def pp_kappa_def pp_Lambda_def)

theorem state_vector_layouts_witness:
  "state_values two_planet_system ! (3 * 1) = pp_l outer_planet
   \<and> state_values two_planet_system ! (Ndof two_planet_system + 3 * 1 + 1) = pp_kappa outer_planet
   \<and> qpvars two_planet_system ! (Ndof two_planet_system + 3 * 1 + 1) = ''kappa'' @ format_nat (1 + 1)
   \<and> (\<exists>rows. state_vector_to_individual_vectors [0, 0, 1, 0, 0, 0] = Inr rows \<and> length rows = 1
         \<and> rows ! 0 = [0, 0, 1, 0, 0, 0])
   \<and> Keplerian_apply_to_state_vector kepler_operator (concat (map body_slots [circular_planet])) =
        Inr (concat (map body_slots [circular_planet\<lparr>pp_l := 128\<rparr>]))
   \<and> LinearSecular_apply_to_state_vector (LinearSecular_set_dt expm_1x1 1 one_planet_secular)
        (concat (map body_slots [circular_planet])) =
        Inr (concat (map body_slots [secular_assign 0 0 circular_planet]))
   \<and> er_apply_to_state_vector first_order_operator
        (concat [body_slots inner_planet, body_slots outer_planet]) =
        Inr (concat [body_slots (er_particleIn (er_apply first_order_operator)),
                     body_slots (er_particleOut (er_apply first_order_operator))])
   \<and> ir_apply_to_state_vector second_order_operator
        (concat [body_slots inner_planet, body_slots outer_planet]) =
        Inr (concat [body_slots (ir_particleIn (ir_apply second_order_operator)),
                     body_slots (ir_particleOut (ir_apply second_order_operator))])"
proof -
  define sop where "sop = LinearSecular_set_dt expm_1x1 1 one_planet_secular"
  note T = state_vector_layouts
    [where G = 1 and ps = "[inner_planet, outer_planet]" and c = "''democratic heliocentric''"
       and t = 0 and s = two_planet_system and j = 1
       and sv = "[0, 0, 1, 0, 0, 0]" and n = 1
       and kop = kepler_operator and bodies = "[circular_planet]"
       and planets = "[circular_planet]" and sop = sop
       and erows = "[body_slots inner_planet, body_slots outer_planet]" and eIn = 0 and eOut = 1
       and eop = first_order_operator
       and irows = "[body_slots inner_planet, body_slots outer_planet]" and iIn = 0 and iOut = 1
       and iop = second_order_operator]
  have layout: "state_values two_planet_system ! (3 * 1) = pp_l outer_planet
   \<and> state_values two_planet_system ! (Ndof two_planet_system + 3 * 1 + 1) = pp_kappa outer_planet
   \<and> qpvars two_planet_system ! (Ndof two_planet_system + 3 * 1 + 1) = ''kappa'' @ format_nat (1 + 1)"
  proof -
    have j: "1 < length [inner_planet, outer_planet]"
      by simp
    have planet: "[inner_planet, outer_planet] ! 1 = outer_planet"
      by simp
    show ?thesis
      using T [THEN conjunct1, THEN mp, OF two_planet_system_built, THEN mp, OF j]
      unfolding planet by blast
  qed
  have reshape: "\<exists>rows. state_vector_to_individual_vectors [0, 0, 1, 0, 0, 0] = Inr rows
         \<and> length rows = 1 \<and> rows ! 0 = [0, 0, 1, 0, 0, 0]"
    using T [THEN conjunct2, THEN conjunct1] by auto
  have kepler: "Keplerian_apply_to_state_vector kepler_operator (concat (map body_slots [circular_planet])) =
        Inr (concat (map body_slots [circular_planet\<lparr>pp_l := 128\<rparr>]))"
    using T [THEN conjunct2, THEN conjunct2, THEN conjunct1]
    by (simp add: kepler_operator_def kepler_drift_def circular_planet_def pp_Lambda_def)
  have matrices: "ecc_operator_matrix sop = [[exp (- \<i>)]]" "inc_operator_matrix sop = [[exp (- (2 * \<i>))]]"
    by (simp_all add: sop_def LinearSecular_set_dt_def one_planet_secular_matrices expm_1x1_def
        mat_scale_def mult.commute)
  have secular: "LinearSecular_apply_to_state_vector sop (concat (map body_slots [circular_planet])) =
        Inr (concat (map body_slots [secular_assign 0 0 circular_planet]))"
    using T [THEN conjunct2, THEN conjunct2, THEN conjunct2, THEN conjunct1]
    by (simp add: matrices square_def np_dot_def)
       (simp add: circular_planet_def pp_kappa_def pp_eta_def pp_sigma_def pp_rho_def)
  have ecc: "er_apply_to_state_vector first_order_operator
        (concat [body_slots inner_planet, body_slots outer_planet]) =
        Inr (concat [body_slots (er_particleIn (er_apply first_order_operator)),
                     body_slots (er_particleOut (er_apply first_order_operator))])"
    using T [THEN conjunct2, THEN conjunct2, THEN conjunct2, THEN conjunct2, THEN conjunct1]
    by (simp add: body_slots_def first_order_operator_def inner_planet_def outer_planet_def)
  have inc: "ir_apply_to_state_vector second_order_operator
        (concat [body_slots inner_planet, body_slots outer_planet]) =
        Inr (concat [body_slots (ir_particleIn (ir_apply second_order_operator)),
                     body_slots (ir_particleOut (ir_apply second_order_operator))])"
    using T [THEN conjunct2, THEN conjunct2, THEN conjunct2, THEN conjunct2, THEN conjunct2]
    by (simp add: body_slots_def second_order_operator_def inner_planet_def outer_planet_def)
  show ?thesis
    using layout reshape kepler secular [unfolded sop_def] ecc inc by blast
qed

end
